(* ===== verification/Prelude.thy ===== *)
theory Prelude
  imports Main "HOL-Library.Word" "HOL-Library.Sublist"
begin

text \<open>
  Shared vocabulary of the development: the Python value types the scripts
  manipulate (a \<open>str\<close> is a list of Unicode code points, a \<open>bytearray\<close> a list
  of 8-bit words), the Python exceptions the modelled code can raise, Python's
  indexing and slicing of sequences written out with their negative-index rules,
  and the generic list and result lemmas that the component theories share.
\<close>

type_synonym byte = "8 word"
type_synonym codepoint = nat
type_synonym pystr = "codepoint list"
type_synonym pybytes = "byte list"

text \<open>The exceptions raised by the code under study and by the library calls it makes.\<close>

datatype py_error =
    UnicodeEncodeError
  | UnicodeDecodeError
  | IndexError
  | KeyError
  | FileNotFoundError

text \<open>A value returned by \<open>trim_string_at_unicode_boundaries\<close>: a \<open>str\<close> or a \<open>bytearray\<close>.\<close>

datatype py_value = PyStr pystr | PyBytearray pybytes

named_theorems py_seq "Python sequence operations on concrete or non-negative indices"

text \<open>
  \<open>xs[i]\<close> for an \<open>int\<close> index: negative indices count from the end, anything
  outside the sequence raises \<open>IndexError\<close>.
\<close>

definition py_index :: "'a list \<Rightarrow> int \<Rightarrow> py_error + 'a" where
  "py_index xs i =
     (if - int (length xs) \<le> i \<and> i < int (length xs)
      then Inr (xs ! nat (if i < 0 then int (length xs) + i else i))
      else Inl IndexError)"

text \<open>\<open>xs[:i]\<close>: a negative bound counts from the end and is clamped at 0; slicing never raises.\<close>

definition py_slice_to :: "'a list \<Rightarrow> int \<Rightarrow> 'a list" where
  "py_slice_to xs i = (if 0 \<le> i then take (nat i) xs else take (nat (int (length xs) + i)) xs)"

lemma py_index_nonneg [py_seq]:
  "0 \<le> i \<Longrightarrow> i < int (length xs) \<Longrightarrow> py_index xs i = Inr (xs ! nat i)"
  by (simp add: py_index_def)

lemma py_index_beyond [py_seq]:
  "int (length xs) \<le> i \<Longrightarrow> py_index xs i = Inl IndexError"
  by (simp add: py_index_def)

lemma py_slice_to_nonneg [py_seq]:
  "0 \<le> i \<Longrightarrow> py_slice_to xs i = take (nat i) xs"
  by (simp add: py_slice_to_def)

lemma py_slice_to_neg [py_seq]:
  "i < 0 \<Longrightarrow> py_slice_to xs i = take (nat (int (length xs) + i)) xs"
  by (simp add: py_slice_to_def)

text \<open>Prepending to a result: the error, if any, propagates unchanged.\<close>

definition cons_res :: "'a \<Rightarrow> 'e + 'a list \<Rightarrow> 'e + 'a list" where
  "cons_res x r = (case r of Inl e \<Rightarrow> Inl e | Inr xs \<Rightarrow> Inr (x # xs))"

lemma cons_res_simps [simp]:
  "cons_res x (Inl e) = Inl e"
  "cons_res x (Inr xs) = Inr (x # xs)"
  by (simp_all add: cons_res_def)

lemma cons_res_eq_Inr [simp]:
  "cons_res x r = Inr ys \<longleftrightarrow> (\<exists>xs. r = Inr xs \<and> ys = x # xs)"
  by (cases r) (auto simp: cons_res_def)

end
