(* ===== verification/Utf8.thy ===== *)
theory Utf8
  imports Prelude
begin

text \<open>
  Python's UTF-8 codec as the truncator uses it: \<open>bytearray(s, "utf-8")\<close>
  encodes a \<open>str\<close> (raising \<open>UnicodeEncodeError\<close> on a lone surrogate) and
  \<open>bytes.decode("utf-8")\<close> decodes strictly (raising \<open>UnicodeDecodeError\<close> on
  anything that is not a well-formed UTF-8 sequence). The codec is CPython's, not
  code of the repository; it is modelled from the encoding's definition. The one
  piece of the repository here is the continuation-byte test of
  \<open>trim_string_at_unicode_boundaries\<close>.
\<close>

unbundle bit_operations_syntax

subsection \<open>Continuation bytes\<close>

text \<open>\<open>not ((b & 0xC0) != 0x80)\<close>, the loop guard's byte test in \<open>src/src/main_fix.py\<close>.\<close>

definition is_continuation :: "byte \<Rightarrow> bool" where
  "is_continuation b \<longleftrightarrow> \<not> ((b AND 0xC0) \<noteq> 0x80)"

subsection \<open>Code points\<close>

text \<open>A Python \<open>str\<close> holds code points below \<open>0x110000\<close>; surrogates may occur but do not encode.\<close>

definition py_str_wf :: "pystr \<Rightarrow> bool" where
  "py_str_wf s \<longleftrightarrow> (\<forall>c \<in> set s. c < 0x110000)"

definition is_surrogate :: "codepoint \<Rightarrow> bool" where
  "is_surrogate c \<longleftrightarrow> 0xD800 \<le> c \<and> c < 0xE000"

definition encodable :: "codepoint \<Rightarrow> bool" where
  "encodable c \<longleftrightarrow> c < 0x110000 \<and> \<not> is_surrogate c"

subsection \<open>Encoding\<close>

text \<open>A byte built from a number below 256, as \<open>bytes([n])\<close> does.\<close>

definition byte_of :: "nat \<Rightarrow> byte" where
  "byte_of n = word_of_nat n"

definition enc_char :: "codepoint \<Rightarrow> pybytes" where
  "enc_char c =
     (if c < 0x80 then [byte_of c]
      else if c < 0x800 then
        [byte_of (0xC0 + c div 64), byte_of (0x80 + c mod 64)]
      else if c < 0x10000 then
        [byte_of (0xE0 + c div 4096), byte_of (0x80 + c div 64 mod 64),
         byte_of (0x80 + c mod 64)]
      else
        [byte_of (0xF0 + c div 262144), byte_of (0x80 + c div 4096 mod 64),
         byte_of (0x80 + c div 64 mod 64), byte_of (0x80 + c mod 64)])"

text \<open>\<open>bytearray(s, "utf-8")\<close>: the encodings of the code points, left to right.\<close>

fun utf8_encode :: "pystr \<Rightarrow> py_error + pybytes" where
  "utf8_encode [] = Inr []"
| "utf8_encode (c # cs) =
     (if encodable c
      then (case utf8_encode cs of Inl e \<Rightarrow> Inl e | Inr bs \<Rightarrow> Inr (enc_char c @ bs))
      else Inl UnicodeEncodeError)"

text \<open>The number of bytes of a code point and of a string: what \<open>len(s.encode())\<close> counts.\<close>

definition char_size :: "codepoint \<Rightarrow> nat" where
  "char_size c = (if c < 0x80 then 1 else if c < 0x800 then 2 else if c < 0x10000 then 3 else 4)"

definition utf8_size :: "pystr \<Rightarrow> nat" where
  "utf8_size s = sum_list (map char_size s)"

subsection \<open>Decoding\<close>

definition cp2 :: "byte \<Rightarrow> byte \<Rightarrow> codepoint" where
  "cp2 b c1 = (unat b - 0xC0) * 64 + (unat c1 - 0x80)"

definition cp3 :: "byte \<Rightarrow> byte \<Rightarrow> byte \<Rightarrow> codepoint" where
  "cp3 b c1 c2 = ((unat b - 0xE0) * 64 + (unat c1 - 0x80)) * 64 + (unat c2 - 0x80)"

definition cp4 :: "byte \<Rightarrow> byte \<Rightarrow> byte \<Rightarrow> byte \<Rightarrow> codepoint" where
  "cp4 b c1 c2 c3 =
     (((unat b - 0xF0) * 64 + (unat c1 - 0x80)) * 64 + (unat c2 - 0x80)) * 64 + (unat c3 - 0x80)"

text \<open>
  \<open>bytes.decode("utf-8")\<close> with the default \<open>errors="strict"\<close>: a lead byte
  announces a sequence of one to four bytes; continuation bytes must follow; overlong
  forms, surrogates and values above \<open>0x10FFFF\<close> are rejected.
\<close>

fun utf8_decode :: "pybytes \<Rightarrow> py_error + pystr" where
  "utf8_decode [] = Inr []"
| "utf8_decode (b # bs) =
     (if unat b < 0x80 then cons_res (unat b) (utf8_decode bs)
      else if unat b < 0xC2 then Inl UnicodeDecodeError
      else if unat b < 0xE0 then
        (case bs of
          c1 # r \<Rightarrow>
            if is_continuation c1 then cons_res (cp2 b c1) (utf8_decode r)
            else Inl UnicodeDecodeError
        | _ \<Rightarrow> Inl UnicodeDecodeError)
      else if unat b < 0xF0 then
        (case bs of
          c1 # c2 # r \<Rightarrow>
            if is_continuation c1 \<and> is_continuation c2 \<and> 0x800 \<le> cp3 b c1 c2
               \<and> \<not> is_surrogate (cp3 b c1 c2)
            then cons_res (cp3 b c1 c2) (utf8_decode r)
            else Inl UnicodeDecodeError
        | _ \<Rightarrow> Inl UnicodeDecodeError)
      else if unat b < 0xF5 then
        (case bs of
          c1 # c2 # c3 # r \<Rightarrow>
            if is_continuation c1 \<and> is_continuation c2 \<and> is_continuation c3
               \<and> 0x10000 \<le> cp4 b c1 c2 c3 \<and> cp4 b c1 c2 c3 < 0x110000
            then cons_res (cp4 b c1 c2 c3) (utf8_decode r)
            else Inl UnicodeDecodeError
        | _ \<Rightarrow> Inl UnicodeDecodeError)
      else Inl UnicodeDecodeError)"

text \<open>
  The reference: the well-formed UTF-8 byte sequences of the Unicode Standard
  (Table 3-7), written as byte ranges independently of the decoder: a lead byte
  fixes the length and narrows the range of the first continuation byte
  (\<open>E0\<close>: \<open>A0..BF\<close>, \<open>ED\<close>: \<open>80..9F\<close>, \<open>F0\<close>: \<open>90..BF\<close>, \<open>F4\<close>: \<open>80..8F\<close>).
\<close>

definition in_range :: "byte \<Rightarrow> nat \<Rightarrow> nat \<Rightarrow> bool" where
  "in_range b lo hi \<longleftrightarrow> lo \<le> unat b \<and> unat b \<le> hi"

fun wf_utf8 :: "pybytes \<Rightarrow> bool" where
  "wf_utf8 [] = True"
| "wf_utf8 (b # bs) =
     (if unat b \<le> 0x7F then wf_utf8 bs
      else if 0xC2 \<le> unat b \<and> unat b \<le> 0xDF then
        (case bs of c1 # r \<Rightarrow> in_range c1 0x80 0xBF \<and> wf_utf8 r | [] \<Rightarrow> False)
      else if 0xE0 \<le> unat b \<and> unat b \<le> 0xEF then
        (case bs of
          c1 # c2 # r \<Rightarrow>
            in_range c1 (if unat b = 0xE0 then 0xA0 else 0x80) (if unat b = 0xED then 0x9F else 0xBF)
            \<and> in_range c2 0x80 0xBF \<and> wf_utf8 r
        | _ \<Rightarrow> False)
      else if 0xF0 \<le> unat b \<and> unat b \<le> 0xF4 then
        (case bs of
          c1 # c2 # c3 # r \<Rightarrow>
            in_range c1 (if unat b = 0xF0 then 0x90 else 0x80) (if unat b = 0xF4 then 0x8F else 0xBF)
            \<and> in_range c2 0x80 0xBF \<and> in_range c3 0x80 0xBF \<and> wf_utf8 r
        | _ \<Rightarrow> False)
      else False)"

subsection \<open>The continuation test on byte values\<close>

lemma is_continuation_bits:
  "is_continuation b \<longleftrightarrow> bit b 7 \<and> \<not> bit b 6"
proof
  assume "is_continuation b"
  then have "bit (b AND 0xC0) 7" "\<not> bit (b AND 0xC0) 6"
    by (simp_all add: is_continuation_def)
  then show "bit b 7 \<and> \<not> bit b 6" by (simp add: bit_and_iff)
next
  assume h: "bit b 7 \<and> \<not> bit b 6"
  have "(b AND 0xC0) = (0x80::byte)"
  proof (rule bit_word_eqI)
    fix n assume "n < LENGTH(8)"
    then have "n = 0 \<or> n = 1 \<or> n = 2 \<or> n = 3 \<or> n = 4 \<or> n = 5 \<or> n = 6 \<or> n = 7"
      by auto
    with h show "bit (b AND 0xC0) n = bit (0x80::byte) n"
      by (auto simp add: bit_and_iff)
  qed
  then show "is_continuation b" by (simp add: is_continuation_def)
qed

lemma bit_byte_unat:
  assumes "n < 8"
  shows "bit (b::byte) n \<longleftrightarrow> odd (unat b div 2 ^ n)"
proof -
  have "bit (unat b) n \<longleftrightarrow> bit b n" using assms by (simp add: bit_unsigned_iff)
  moreover have "bit (unat b) n \<longleftrightarrow> odd (unat b div 2 ^ n)" by (rule bit_iff_odd)
  ultimately show ?thesis by simp
qed

text \<open>A continuation byte is exactly a byte in \<open>0x80..0xBF\<close>.\<close>

lemma is_continuation_unat:
  "is_continuation b \<longleftrightarrow> 128 \<le> unat b \<and> unat b < 192"
proof -
  define u where "u = unat b"
  have u256: "u < 256" unfolding u_def using unsigned_less [of b] by simp
  define q where "q = u div 64"
  have "q < 4" using u256 by (simp add: q_def)
  then have q4: "q = 0 \<or> q = 1 \<or> q = 2 \<or> q = 3" by arith
  have d128: "u div 128 = q div 2" by (simp add: q_def div_mult2_eq [symmetric])
  have dm: "u = 64 * q + u mod 64" by (simp add: q_def)
  have "odd (u div 128) \<and> \<not> odd (u div 64) \<longleftrightarrow> q = 2"
    unfolding d128 q_def [symmetric] using q4 by (elim disjE) simp_all
  also have "\<dots> \<longleftrightarrow> 128 \<le> u \<and> u < 192"
    using dm mod_less_divisor [of 64 u] by linarith
  finally have "odd (u div 128) \<and> \<not> odd (u div 64) \<longleftrightarrow> 128 \<le> u \<and> u < 192" .
  moreover have "is_continuation b \<longleftrightarrow> odd (u div 2 ^ 7) \<and> \<not> odd (u div 2 ^ 6)"
    unfolding is_continuation_bits u_def by (simp add: bit_byte_unat)
  ultimately show ?thesis by (simp add: u_def)
qed


subsection \<open>Shape of a code point's encoding\<close>

lemma unat_byte_of [simp]: "x < 256 \<Longrightarrow> unat (byte_of x) = x"
  by (simp add: byte_of_def unat_of_nat)

lemma cont_byte_of: "x < 64 \<Longrightarrow> is_continuation (byte_of (0x80 + x))"
  by (simp add: is_continuation_unat)

lemma length_enc_char [simp]: "length (enc_char c) = char_size c"
  by (simp add: enc_char_def char_size_def)

lemma char_size_bounds: "1 \<le> char_size c \<and> char_size c \<le> 4"
  by (simp add: char_size_def)

lemma enc_char_not_Nil [simp]: "enc_char c \<noteq> []"
  by (simp add: enc_char_def)

text \<open>The first byte of a code point's encoding is a lead byte, never a continuation byte.\<close>

lemma enc_char_hd_lead:
  assumes "c < 0x110000"
  shows "\<not> is_continuation (hd (enc_char c))"
proof -
  have "c div 262144 \<le> 4" using assms by simp
  then show ?thesis by (auto simp: enc_char_def is_continuation_unat)
qed

text \<open>Every later byte is a continuation byte.\<close>

lemma enc_char_nth_cont:
  assumes "0 < j" and "j < char_size c"
  shows "is_continuation (enc_char c ! j)"
proof -
  have "j = 1 \<or> j = 2 \<or> j = 3" using assms by (auto simp: char_size_def split: if_splits)
  with assms show ?thesis
    by (auto simp: enc_char_def char_size_def cont_byte_of split: if_splits)
qed

lemma enc_char_nth0_lead:
  "c < 0x110000 \<Longrightarrow> \<not> is_continuation (enc_char c ! 0)"
  using enc_char_hd_lead [of c] enc_char_not_Nil [of c] by (simp add: hd_conv_nth)


subsection \<open>Encoding a string\<close>

lemma utf8_encode_eq:
  "utf8_encode s =
     (if list_all encodable s then Inr (concat (map enc_char s)) else Inl UnicodeEncodeError)"
  by (induction s) auto

lemma length_concat_enc_char [simp]: "length (concat (map enc_char s)) = utf8_size s"
  by (induction s) (simp_all add: utf8_size_def)

lemma utf8_size_append [simp]: "utf8_size (xs @ ys) = utf8_size xs + utf8_size ys"
  by (simp add: utf8_size_def)

lemma utf8_size_simps [simp]:
  "utf8_size [] = 0"
  "utf8_size (c # cs) = char_size c + utf8_size cs"
  by (simp_all add: utf8_size_def)

subsection \<open>Decoding one encoded code point\<close>

text \<open>Reassembling six-bit groups: the arithmetic behind every multi-byte case.\<close>

lemma six_bit_groups:
  "(c::nat) div 4096 * 64 + c div 64 mod 64 = c div 64"
  "(c::nat) div 262144 * 64 + c div 4096 mod 64 = c div 4096"
proof -
  have "c div 4096 = c div 64 div 64" "c div 262144 = c div 4096 div 64"
    by (simp_all add: div_mult2_eq)
  then show "c div 4096 * 64 + c div 64 mod 64 = c div 64"
    and "c div 262144 * 64 + c div 4096 mod 64 = c div 4096"
    by (simp_all add: div_mult_mod_eq)
qed

lemma decode_enc_1:
  "c < 0x80 \<Longrightarrow> utf8_decode (enc_char c @ rest) = cons_res c (utf8_decode rest)"
  by (simp add: enc_char_def)

lemma decode_enc_2:
  assumes "0x80 \<le> c" and "c < 0x800"
  shows "utf8_decode (enc_char c @ rest) = cons_res c (utf8_decode rest)"
proof -
  have d: "2 \<le> c div 64" "c div 64 < 32" using assms by simp_all
  have "cp2 (byte_of (0xC0 + c div 64)) (byte_of (0x80 + c mod 64)) = c"
    using d by (simp add: cp2_def)
  with assms d show ?thesis by (simp add: enc_char_def cont_byte_of)
qed

lemma decode_enc_3:
  assumes "0x800 \<le> c" and "c < 0x10000" and "\<not> is_surrogate c"
  shows "utf8_decode (enc_char c @ rest) = cons_res c (utf8_decode rest)"
proof -
  have d: "c div 4096 < 16" using assms by simp
  have "c div 4096 * 64 + c div 64 mod 64 = c div 64"
    by (rule six_bit_groups(1))
  then have "cp3 (byte_of (0xE0 + c div 4096)) (byte_of (0x80 + c div 64 mod 64))
               (byte_of (0x80 + c mod 64)) = c"
    using d by (simp add: cp3_def)
  with assms d show ?thesis by (simp add: enc_char_def cont_byte_of)
qed

lemma decode_enc_4:
  assumes "0x10000 \<le> c" and "c < 0x110000"
  shows "utf8_decode (enc_char c @ rest) = cons_res c (utf8_decode rest)"
proof -
  have d: "c div 262144 \<le> 4" using assms by simp
  note a = six_bit_groups(2) and b = six_bit_groups(1)
  have "cp4 (byte_of (0xF0 + c div 262144)) (byte_of (0x80 + c div 4096 mod 64))
               (byte_of (0x80 + c div 64 mod 64)) (byte_of (0x80 + c mod 64)) = c"
    using d by (simp add: cp4_def a b)
  with assms d show ?thesis by (simp add: enc_char_def cont_byte_of)
qed

lemma decode_enc_char:
  "encodable c \<Longrightarrow> utf8_decode (enc_char c @ rest) = cons_res c (utf8_decode rest)"
  unfolding encodable_def
  using decode_enc_1 decode_enc_2 decode_enc_3 decode_enc_4 by (meson not_le)


subsection \<open>Decoding an encoded string\<close>

lemma utf8_decode_concat_enc:
  "list_all encodable s \<Longrightarrow> utf8_decode (concat (map enc_char s)) = Inr s"
  by (induction s) (simp_all add: decode_enc_char)

subsection \<open>The decoder yields valid code points\<close>

lemma cp2_encodable:
  assumes "0xC2 \<le> unat b" "unat b < 0xE0" "is_continuation c1"
  shows "encodable (cp2 b c1)"
proof -
  have "unat b - 0xC0 < 32" "unat c1 - 0x80 < 64" using assms by (auto simp add: is_continuation_unat)
  then have "cp2 b c1 < 32 * 64" unfolding cp2_def by linarith
  then show ?thesis by (simp add: encodable_def is_surrogate_def)
qed

lemma cp3_below:
  assumes "0xE0 \<le> unat b" "unat b < 0xF0" "is_continuation c1" "is_continuation c2"
  shows "cp3 b c1 c2 < 0x10000"
proof -
  define x where "x = unat b - 0xE0"
  define y where "y = unat c1 - 0x80"
  define z where "z = unat c2 - 0x80"
  have "x < 16" "y < 64" "z < 64"
    using assms by (auto simp add: is_continuation_unat x_def y_def z_def)
  moreover have "(x * 64 + y) * 64 + z = x * 4096 + y * 64 + z" by (simp add: algebra_simps)
  ultimately have "(x * 64 + y) * 64 + z < 0x10000" by linarith
  then show ?thesis by (simp add: cp3_def x_def y_def z_def)
qed

text \<open>The strict decoder yields only code points that encode: no surrogate, nothing above \<open>0x10FFFF\<close>.\<close>

lemma utf8_decode_encodable:
  "utf8_decode B = Inr s \<Longrightarrow> list_all encodable s"
proof (induction "length B" arbitrary: B s rule: less_induct)
  case less
  show ?case
  proof (cases B)
    case Nil
    with less.prems show ?thesis by simp
  next
    case (Cons b bs)
    note dec = less.prems [unfolded Cons]
    have IH: "list_all encodable s'" if "utf8_decode r = Inr s'" "length r < length B" for r s'
      using less.hyps that by blast
    show ?thesis
    proof (cases "unat b < 0x80")
      case True
      with dec obtain s' where "utf8_decode bs = Inr s'" "s = unat b # s'" by auto
      with True IH [of bs s'] Cons show ?thesis by (simp add: encodable_def is_surrogate_def)
    next
      case n1: False
      show ?thesis
      proof (cases "unat b < 0xE0")
        case True
        with n1 dec obtain c1 r s' where "bs = c1 # r" "is_continuation c1" "0xC2 \<le> unat b"
            "utf8_decode r = Inr s'" "s = cp2 b c1 # s'"
          by (auto split: if_splits list.splits)
        with True IH [of r s'] Cons show ?thesis by (simp add: cp2_encodable)
      next
        case n2: False
        show ?thesis
        proof (cases "unat b < 0xF0")
          case True
          with n1 n2 dec obtain c1 c2 r s' where bs: "bs = c1 # c2 # r" "is_continuation c1"
              "is_continuation c2" "\<not> is_surrogate (cp3 b c1 c2)"
              "utf8_decode r = Inr s'" "s = cp3 b c1 c2 # s'"
            by (auto split: if_splits list.splits)
          moreover have "cp3 b c1 c2 < 0x10000" using n2 True bs by (simp add: cp3_below)
          ultimately show ?thesis using IH [of r s'] Cons by (simp add: encodable_def)
        next
          case n3: False
          with n1 n2 dec obtain c1 c2 c3 r s' where bs: "bs = c1 # c2 # c3 # r"
              "0x10000 \<le> cp4 b c1 c2 c3" "cp4 b c1 c2 c3 < 0x110000"
              "utf8_decode r = Inr s'" "s = cp4 b c1 c2 c3 # s'"
            by (auto split: if_splits list.splits)
          then show ?thesis using IH [of r s'] Cons by (simp add: encodable_def is_surrogate_def)
        qed
      qed
    qed
  qed
qed

subsection \<open>Code-point boundaries inside an encoding\<close>

text \<open>
  The encoding of \<open>take k s\<close> is a prefix of the encoding of \<open>s\<close>, and the byte
  at its end is the first byte of the next code point.
\<close>

lemma take_enc_boundary:
  "take (utf8_size (take k s)) (concat (map enc_char s)) = concat (map enc_char (take k s))"
proof -
  have "concat (map enc_char s) = concat (map enc_char (take k s)) @ concat (map enc_char (drop k s))"
    by (simp flip: concat_append map_append)
  then show ?thesis by simp
qed

lemma nth_enc_boundary:
  assumes "k < length s"
  shows "concat (map enc_char s) ! utf8_size (take k s) = enc_char (s ! k) ! 0"
proof -
  have "drop k s = s ! k # drop (Suc k) s" using assms by (simp add: Cons_nth_drop_Suc)
  then have "concat (map enc_char s) =
      concat (map enc_char (take k s)) @ enc_char (s ! k) @ concat (map enc_char (drop (Suc k) s))"
    by (metis append_take_drop_id concat.simps(2) concat_append list.simps(9) map_append)
  then show ?thesis using char_size_bounds [of "s ! k"] by (simp add: nth_append)
qed

lemma utf8_size_take_mono:
  "k \<le> k' \<Longrightarrow> utf8_size (take k s) \<le> utf8_size (take k' s)"
proof -
  assume "k \<le> k'"
  then have "take k' s = take k s @ take (k' - k) (drop k s)"
    by (metis le_add_diff_inverse take_add)
  then show ?thesis by (metis le_add1 utf8_size_append)
qed

lemma utf8_size_take_Suc:
  "k < length s \<Longrightarrow> utf8_size (take (Suc k) s) = utf8_size (take k s) + char_size (s ! k)"
  by (simp add: take_Suc_conv_app_nth)

text \<open>Every byte position lies inside the encoding of exactly one code point.\<close>

lemma enc_position:
  assumes "p < utf8_size s"
  shows "\<exists>k < length s. utf8_size (take k s) \<le> p \<and> p < utf8_size (take (Suc k) s)
           \<and> concat (map enc_char s) ! p = enc_char (s ! k) ! (p - utf8_size (take k s))"
  using assms
proof (induction s arbitrary: p)
  case Nil
  then show ?case by simp
next
  case (Cons c cs)
  show ?case
  proof (cases "p < char_size c")
    case True
    then show ?thesis by (intro exI [of _ 0]) (simp add: nth_append)
  next
    case False
    with Cons.prems have "p - char_size c < utf8_size cs" by simp
    from Cons.IH [OF this] obtain k where k: "k < length cs"
      "utf8_size (take k cs) \<le> p - char_size c" "p - char_size c < utf8_size (take (Suc k) cs)"
      "concat (map enc_char cs) ! (p - char_size c) = enc_char (cs ! k) ! (p - char_size c - utf8_size (take k cs))"
      by blast
    have "char_size c + utf8_size (take k cs) \<le> p"
      "p < char_size c + utf8_size (take (Suc k) cs)"
      using k(2,3) False by linarith+
    with k(1,4) False show ?thesis
      by (intro exI [of _ "Suc k"]) (simp add: nth_append)
  qed
qed

text \<open>So a position that holds no continuation byte is the start of a code point.\<close>

lemma enc_lead_is_boundary:
  assumes "list_all (\<lambda>c. c < 0x110000) s" and "p < utf8_size s"
    and "\<not> is_continuation (concat (map enc_char s) ! p)"
  shows "\<exists>k < length s. p = utf8_size (take k s)"
proof -
  from enc_position [OF assms(2)] obtain k where k: "k < length s"
    "utf8_size (take k s) \<le> p" "p < utf8_size (take (Suc k) s)"
    "concat (map enc_char s) ! p = enc_char (s ! k) ! (p - utf8_size (take k s))"
    by blast
  have "p - utf8_size (take k s) < char_size (s ! k)"
    using k by (simp add: utf8_size_take_Suc)
  have "p - utf8_size (take k s) = 0"
  proof (rule ccontr)
    assume "p - utf8_size (take k s) \<noteq> 0"
    then have "is_continuation (enc_char (s ! k) ! (p - utf8_size (take k s)))"
      using enc_char_nth_cont \<open>p - utf8_size (take k s) < char_size (s ! k)\<close> by simp
    with assms(3) k(4) show False by simp
  qed
  with k(1,2) show ?thesis by (intro exI [of _ k]) simp
qed

text \<open>And the start of every code point holds a lead byte.\<close>

lemma enc_boundary_is_lead:
  assumes "list_all (\<lambda>c. c < 0x110000) s" and "k < length s"
  shows "\<not> is_continuation (concat (map enc_char s) ! utf8_size (take k s))"
  using assms enc_char_nth0_lead [of "s ! k"] nth_enc_boundary [OF assms(2)]
  by (simp add: list_all_length)

subsection \<open>Decoding re-encodes\<close>

text \<open>
  A decoded code point is rebuilt by the encoder from its six-bit groups: the lead
  byte carries the high bits, each continuation byte the next six.
\<close>

lemma byte_of_unat [simp]: "byte_of (unat b) = b"
  by (simp add: byte_of_def)

lemma cont_digit:
  assumes "is_continuation c"
  shows "unat c - 0x80 < 64" "byte_of (0x80 + (unat c - 0x80)) = c"
proof -
  have "128 \<le> unat c" "unat c < 192" using assms by (simp_all add: is_continuation_unat)
  then show "unat c - 0x80 < 64" "byte_of (0x80 + (unat c - 0x80)) = c" by simp_all
qed

lemma digits2: "y < (64::nat) \<Longrightarrow> (x * 64 + y) div 64 = x \<and> (x * 64 + y) mod 64 = y"
  by simp

lemma digits3:
  assumes y: "y < (64::nat)" and z: "z < 64"
  shows "((x * 64 + y) * 64 + z) div 4096 = x \<and> ((x * 64 + y) * 64 + z) div 64 mod 64 = y
         \<and> ((x * 64 + y) * 64 + z) mod 64 = z"
proof -
  note A = digits2 [OF z, of "x * 64 + y"] and B = digits2 [OF y, of x]
  have C: "((x * 64 + y) * 64 + z) div 4096 = ((x * 64 + y) * 64 + z) div 64 div 64"
    by (simp add: div_mult2_eq)
  show ?thesis by (simp only: A B C)
qed

lemma digits4:
  assumes y: "y < (64::nat)" and z: "z < 64" and w: "w < 64"
  shows "(((x * 64 + y) * 64 + z) * 64 + w) div 262144 = x
         \<and> (((x * 64 + y) * 64 + z) * 64 + w) div 4096 mod 64 = y
         \<and> (((x * 64 + y) * 64 + z) * 64 + w) div 64 mod 64 = z
         \<and> (((x * 64 + y) * 64 + z) * 64 + w) mod 64 = w"
proof -
  note A = digits2 [OF w, of "(x * 64 + y) * 64 + z"] and B = digits3 [OF y z, of x]
  have C: "(((x * 64 + y) * 64 + z) * 64 + w) div 262144
             = (((x * 64 + y) * 64 + z) * 64 + w) div 64 div 4096"
    "(((x * 64 + y) * 64 + z) * 64 + w) div 4096 = (((x * 64 + y) * 64 + z) * 64 + w) div 64 div 64"
    by (simp_all add: div_mult2_eq)
  show ?thesis by (simp only: A B C)
qed

lemma enc_cp2:
  assumes b: "0xC2 \<le> unat b" "unat b < 0xE0" and c1: "is_continuation c1"
  shows "enc_char (cp2 b c1) = [b, c1]"
proof -
  define x where "x = unat b - 0xC0"
  define y where "y = unat c1 - 0x80"
  have y64: "y < 64" and c1b: "byte_of (0x80 + y) = c1"
    using cont_digit [OF c1] by (simp_all add: y_def)
  have bx: "byte_of (0xC0 + x) = b" using b by (simp add: x_def)
  have cp: "cp2 b c1 = x * 64 + y" by (simp add: cp2_def x_def y_def)
  have "2 \<le> x" "x < 32" using b by (simp_all add: x_def)
  hence "0x80 \<le> x * 64 + y" "x * 64 + y < 0x800" using y64 by linarith+
  then show ?thesis using digits2 [OF y64, of x] bx c1b by (simp add: enc_char_def cp)
qed

lemma enc_cp3:
  assumes b: "0xE0 \<le> unat b" "unat b < 0xF0" and c: "is_continuation c1" "is_continuation c2"
    and lo: "0x800 \<le> cp3 b c1 c2"
  shows "enc_char (cp3 b c1 c2) = [b, c1, c2]"
proof -
  define x where "x = unat b - 0xE0"
  define y where "y = unat c1 - 0x80"
  define z where "z = unat c2 - 0x80"
  have yz: "y < 64" "z < 64" and cb: "byte_of (0x80 + y) = c1" "byte_of (0x80 + z) = c2"
    using cont_digit [OF c(1)] cont_digit [OF c(2)] by (simp_all add: y_def z_def)
  have bx: "byte_of (0xE0 + x) = b" using b by (simp add: x_def)
  have cp: "cp3 b c1 c2 = (x * 64 + y) * 64 + z" by (simp add: cp3_def x_def y_def z_def)
  have "(x * 64 + y) * 64 + z < 0x10000" using cp3_below [OF b c] cp by simp
  then show ?thesis using digits3 [OF yz, of x] bx cb lo cp by (simp add: enc_char_def)
qed

lemma enc_cp4:
  assumes b: "0xF0 \<le> unat b" and c: "is_continuation c1" "is_continuation c2" "is_continuation c3"
    and lo: "0x10000 \<le> cp4 b c1 c2 c3"
  shows "enc_char (cp4 b c1 c2 c3) = [b, c1, c2, c3]"
proof -
  define x where "x = unat b - 0xF0"
  define y where "y = unat c1 - 0x80"
  define z where "z = unat c2 - 0x80"
  define w where "w = unat c3 - 0x80"
  have yzw: "y < 64" "z < 64" "w < 64"
    and cb: "byte_of (0x80 + y) = c1" "byte_of (0x80 + z) = c2" "byte_of (0x80 + w) = c3"
    using cont_digit [OF c(1)] cont_digit [OF c(2)] cont_digit [OF c(3)]
    by (simp_all add: y_def z_def w_def)
  have bx: "byte_of (0xF0 + x) = b" using b by (simp add: x_def)
  have cp: "cp4 b c1 c2 c3 = ((x * 64 + y) * 64 + z) * 64 + w" by (simp add: cp4_def x_def y_def z_def w_def)
  then show ?thesis using digits4 [OF yzw, of x] bx cb lo by (simp add: enc_char_def)
qed

lemma utf8_decode_reencode:
  "utf8_decode B = Inr s \<Longrightarrow> concat (map enc_char s) = B"
proof (induction "length B" arbitrary: B s rule: less_induct)
  case less
  show ?case
  proof (cases B)
    case Nil
    with less.prems show ?thesis by simp
  next
    case (Cons b bs)
    note dec = less.prems [unfolded Cons]
    have IH: "concat (map enc_char s') = r" if "utf8_decode r = Inr s'" "length r < length B" for r s'
      using less.hyps that by blast
    show ?thesis
    proof (cases "unat b < 0x80")
      case True
      with dec obtain s' where "utf8_decode bs = Inr s'" "s = unat b # s'" by auto
      with True IH [of bs s'] Cons show ?thesis by (simp add: enc_char_def byte_of_def)
    next
      case n1: False
      show ?thesis
      proof (cases "unat b < 0xE0")
        case True
        with n1 dec obtain c1 r s' where bs: "bs = c1 # r" "is_continuation c1" "0xC2 \<le> unat b"
            "utf8_decode r = Inr s'" "s = cp2 b c1 # s'"
          by (auto split: if_splits list.splits)
        with True IH [of r s'] Cons show ?thesis by (simp add: enc_cp2)
      next
        case n2: False
        show ?thesis
        proof (cases "unat b < 0xF0")
          case True
          with n1 n2 dec obtain c1 c2 r s' where bs: "bs = c1 # c2 # r" "is_continuation c1"
              "is_continuation c2" "0x800 \<le> cp3 b c1 c2"
              "utf8_decode r = Inr s'" "s = cp3 b c1 c2 # s'"
            by (auto split: if_splits list.splits)
          with n2 True IH [of r s'] Cons show ?thesis by (simp add: enc_cp3)
        next
          case n3: False
          with n1 n2 dec obtain c1 c2 c3 r s' where bs: "bs = c1 # c2 # c3 # r"
              "is_continuation c1" "is_continuation c2" "is_continuation c3"
              "0x10000 \<le> cp4 b c1 c2 c3" "utf8_decode r = Inr s'" "s = cp4 b c1 c2 c3 # s'"
            by (auto split: if_splits list.splits)
          with n3 IH [of r s'] Cons show ?thesis by (simp add: enc_cp4)
        qed
      qed
    qed
  qed
qed

text \<open>
  C23. The codec's round trip in both directions: the strict decoder accepts the
  bytes \<open>B\<close> with result \<open>s\<close> exactly when \<open>s\<close> encodes to \<open>B\<close>. So whatever
  the decoder accepts re-encodes to the same bytes, and the truncator's
  \<open>decode\<close> of a byte prefix loses nothing.
\<close>

theorem utf8_decode_roundtrip:
  "utf8_decode B = Inr s \<longleftrightarrow> utf8_encode s = Inr B"
proof
  assume "utf8_decode B = Inr s"
  then show "utf8_encode s = Inr B"
    using utf8_decode_encodable [of B s] utf8_decode_reencode [of B s] by (simp add: utf8_encode_eq)
next
  assume e: "utf8_encode s = Inr B"
  then have "list_all encodable s" "B = concat (map enc_char s)"
    by (simp_all add: utf8_encode_eq split: if_splits)
  then show "utf8_decode B = Inr s" by (simp add: utf8_decode_concat_enc)
qed

theorem utf8_decode_roundtrip_witness:
  "utf8_decode [0x41, 0xCE, 0xB1, 0xE2, 0x82, 0xAC] = Inr [0x41, 0x3B1, 0x20AC]
   \<and> utf8_encode [0x41, 0x3B1, 0x20AC] = Inr [0x41, 0xCE, 0xB1, 0xE2, 0x82, 0xAC]"
proof -
  have d: "utf8_decode [0x41, 0xCE, 0xB1, 0xE2, 0x82, 0xAC] = Inr [0x41, 0x3B1, 0x20AC]"
    by (simp add: is_continuation_unat cp2_def cp3_def is_surrogate_def)
  show ?thesis using utf8_decode_roundtrip [THEN iffD1, OF d] d by simp
qed

subsection \<open>The decoder accepts exactly the well-formed sequences\<close>

lemma cont_in_range: "is_continuation c \<longleftrightarrow> in_range c 0x80 0xBF"
  by (auto simp: is_continuation_unat in_range_def)

lemma cp3_checks:
  assumes b: "0xE0 \<le> unat b" "unat b < 0xF0" and c: "is_continuation c1" "is_continuation c2"
  shows "(0x800 \<le> cp3 b c1 c2 \<and> \<not> is_surrogate (cp3 b c1 c2)) \<longleftrightarrow>
         in_range c1 (if unat b = 0xE0 then 0xA0 else 0x80) (if unat b = 0xED then 0x9F else 0xBF)"
proof -
  define x where "x = unat b - 0xE0"
  define y where "y = unat c1 - 0x80"
  define z where "z = unat c2 - 0x80"
  have r: "x < 16" "y < 64" "z < 64" "unat c1 = y + 128" "unat b = x + 224"
    using b c by (auto simp: x_def y_def z_def is_continuation_unat)
  have cp: "cp3 b c1 c2 = 4096 * x + 64 * y + z" by (simp add: cp3_def x_def y_def z_def algebra_simps)
  show ?thesis
    unfolding cp is_surrogate_def in_range_def r(4,5) using r(1-3) by auto
qed

lemma cp4_checks:
  assumes b: "0xF0 \<le> unat b" "unat b < 0xF5"
    and c: "is_continuation c1" "is_continuation c2" "is_continuation c3"
  shows "(0x10000 \<le> cp4 b c1 c2 c3 \<and> cp4 b c1 c2 c3 < 0x110000) \<longleftrightarrow>
         in_range c1 (if unat b = 0xF0 then 0x90 else 0x80) (if unat b = 0xF4 then 0x8F else 0xBF)"
proof -
  define x where "x = unat b - 0xF0"
  define y where "y = unat c1 - 0x80"
  define z where "z = unat c2 - 0x80"
  define w where "w = unat c3 - 0x80"
  have r: "x < 5" "y < 64" "z < 64" "w < 64" "unat c1 = y + 128" "unat b = x + 240"
    using b c by (auto simp: x_def y_def z_def w_def is_continuation_unat)
  have cp: "cp4 b c1 c2 c3 = 262144 * x + 4096 * y + 64 * z + w"
    by (simp add: cp4_def x_def y_def z_def w_def algebra_simps)
  show ?thesis
    unfolding cp in_range_def r(5,6) using r(1-4) by auto
qed

lemma in_range_cont:
  "in_range c lo hi \<Longrightarrow> 0x80 \<le> lo \<Longrightarrow> hi \<le> 0xBF \<Longrightarrow> is_continuation c"
  by (simp add: cont_in_range in_range_def)

lemma cons_res_ok [simp]: "(\<exists>s. cons_res x r = Inr s) \<longleftrightarrow> (\<exists>s. r = Inr s)"
  by (cases r) simp_all

text \<open>
  C30. The strict decoder against the Unicode Standard: \<open>bytes.decode("utf-8")\<close>
  succeeds exactly on the well-formed byte sequences of Table 3-7; its checks on
  decoded values (no overlong form, no surrogate, nothing above \<open>0x10FFFF\<close>)
  are the table's byte ranges.
\<close>

theorem utf8_decode_accepts_wf:
  "(\<exists>s. utf8_decode B = Inr s) \<longleftrightarrow> wf_utf8 B"
proof (induction "length B" arbitrary: B rule: less_induct)
  case less
  show ?case
  proof (cases B)
    case Nil
    then show ?thesis by simp
  next
    case (Cons b bs)
    have IH: "(\<exists>s. utf8_decode r = Inr s) \<longleftrightarrow> wf_utf8 r" if "length r < length B" for r
      using less.hyps that by blast
    consider "unat b < 0x80" | "0x80 \<le> unat b" "unat b < 0xC2" | "0xC2 \<le> unat b" "unat b < 0xE0"
      | "0xE0 \<le> unat b" "unat b < 0xF0" | "0xF0 \<le> unat b" "unat b < 0xF5" | "0xF5 \<le> unat b"
      by linarith
    then show ?thesis
    proof cases
      case 1
      then show ?thesis using IH [of bs] Cons by simp
    next
      case 2
      then show ?thesis using Cons by simp
    next
      case 3
      then show ?thesis using Cons IH
        by (auto simp: cont_in_range split: list.split)
    next
      case 4
      show ?thesis
      proof (cases "\<exists>c1 c2 r. bs = c1 # c2 # r")
        case True
        then obtain c1 c2 r where bs: "bs = c1 # c2 # r" by blast
        have "(is_continuation c1 \<and> is_continuation c2 \<and> 0x800 \<le> cp3 b c1 c2 \<and> \<not> is_surrogate (cp3 b c1 c2))
              \<longleftrightarrow> in_range c1 (if unat b = 0xE0 then 0xA0 else 0x80) (if unat b = 0xED then 0x9F else 0xBF)
                  \<and> in_range c2 0x80 0xBF"
        proof -
          let ?lo = "if unat b = 0xE0 then 0xA0 else 0x80 :: nat" and ?hi = "if unat b = 0xED then 0x9F else 0xBF :: nat"
          have lohi: "0x80 \<le> ?lo" "?hi \<le> 0xBF" by simp_all
          show ?thesis using cp3_checks [OF 4, of c1 c2] in_range_cont [of c1 ?lo ?hi] cont_in_range [of c2] lohi
            by blast
        qed
        then show ?thesis using 4 Cons bs IH [of r] by auto
      next
        case False
        then show ?thesis using 4 Cons by (auto split: list.split)
      qed
    next
      case 5
      show ?thesis
      proof (cases "\<exists>c1 c2 c3 r. bs = c1 # c2 # c3 # r")
        case True
        then obtain c1 c2 c3 r where bs: "bs = c1 # c2 # c3 # r" by blast
        have "(is_continuation c1 \<and> is_continuation c2 \<and> is_continuation c3
               \<and> 0x10000 \<le> cp4 b c1 c2 c3 \<and> cp4 b c1 c2 c3 < 0x110000)
              \<longleftrightarrow> in_range c1 (if unat b = 0xF0 then 0x90 else 0x80) (if unat b = 0xF4 then 0x8F else 0xBF)
                  \<and> in_range c2 0x80 0xBF \<and> in_range c3 0x80 0xBF"
        proof -
          let ?lo = "if unat b = 0xF0 then 0x90 else 0x80 :: nat" and ?hi = "if unat b = 0xF4 then 0x8F else 0xBF :: nat"
          have lohi: "0x80 \<le> ?lo" "?hi \<le> 0xBF" by simp_all
          show ?thesis using cp4_checks [OF 5, of c1 c2 c3] in_range_cont [of c1 ?lo ?hi]
              cont_in_range [of c2] cont_in_range [of c3] lohi
            by blast
        qed
        then show ?thesis using 5 Cons bs IH [of r] by auto
      next
        case False
        then show ?thesis using 5 Cons by (auto split: list.split)
      qed
    next
      case 6
      then show ?thesis using Cons by simp
    qed
  qed
qed

end
