(* ===== verification/Truncate.thy ===== *)
theory Truncate
  imports Utf8
begin

text \<open>
  The boundary-safe truncator \<open>trim_string_at_unicode_boundaries\<close> of
  \<open>src/src/main_fix.py\<close>: its backward scan over the encoded bytes, the whole
  function with every exception it can raise, the abstract specification it is
  meant to implement (the longest code-point prefix whose encoding fits the byte
  budget), and the refinement between the two.
\<close>

subsection \<open>The abstract specification\<close>

text \<open>The longest prefix of \<open>s\<close>, in code points, whose UTF-8 encoding has at most \<open>b\<close> bytes.\<close>

fun fit_prefix :: "pystr \<Rightarrow> nat \<Rightarrow> pystr" where
  "fit_prefix [] b = []"
| "fit_prefix (c # cs) b =
     (if char_size c \<le> b then c # fit_prefix cs (b - char_size c) else [])"

text \<open>The text a returned value stands for: a \<open>str\<close> itself, a \<open>bytearray\<close> its decoding.\<close>

fun py_text :: "py_value \<Rightarrow> py_error + pystr" where
  "py_text (PyStr s) = Inr s"
| "py_text (PyBytearray bs) = utf8_decode bs"

subsection \<open>The implementation\<close>

text \<open>
  \<^verbatim>\<open>while i>0 and not ((encoded_in_string[i] & 0xC0) != 0x80): i = i-1\<close>.
  The guard is evaluated left to right, so the byte is read only when \<open>i > 0\<close>;
  a read past the end raises \<open>IndexError\<close>.
\<close>

function scan_back :: "pybytes \<Rightarrow> int \<Rightarrow> py_error + int" where
  "scan_back B i =
     (if i > 0 then
        (case py_index B i of
          Inl e \<Rightarrow> Inl e
        | Inr b \<Rightarrow> if is_continuation b then scan_back B (i - 1) else Inr i)
      else Inr i)"
  by pat_completeness auto
termination
  by (relation "measure (\<lambda>(B, i). nat i)") auto

declare scan_back.simps [simp del]

text \<open>
  The same loop as a transition system: \<open>scan_stop B i\<close> is the outcome of
  evaluating the guard at \<open>i\<close> (\<open>None\<close>: the body runs; \<open>Some r\<close>: the loop
  ends with \<open>r\<close>, a raised \<open>IndexError\<close> included), and \<open>scan_iter B i0 i\<close>
  holds when the loop started at \<open>i0\<close> reaches \<open>i\<close> after some iterations.
\<close>

definition scan_stop :: "pybytes \<Rightarrow> int \<Rightarrow> (py_error + int) option" where
  "scan_stop B i =
     (if i > 0 then
        (case py_index B i of
          Inl e \<Rightarrow> Some (Inl e)
        | Inr b \<Rightarrow> if is_continuation b then None else Some (Inr i))
      else Some (Inr i))"

inductive scan_iter :: "pybytes \<Rightarrow> int \<Rightarrow> int \<Rightarrow> bool" for B :: pybytes and i0 :: int where
  start: "scan_iter B i0 i0"
| step: "scan_iter B i0 i \<Longrightarrow> scan_stop B i = None \<Longrightarrow> scan_iter B i0 (i - 1)"

code_pred scan_iter .

text \<open>
  The whole function. \<open>byte_limit\<close> is a Python \<open>int\<close>; the value returned is the
  \<open>bytearray\<close> itself when no truncation is needed and a decoded \<open>str\<close> otherwise.
\<close>

definition trim_string_at_unicode_boundaries :: "pystr \<Rightarrow> int \<Rightarrow> py_error + py_value" where
  "trim_string_at_unicode_boundaries in_string byte_limit =
     (case utf8_encode in_string of
       Inl e \<Rightarrow> Inl e
     | Inr encoded_in_string \<Rightarrow>
         if int (length encoded_in_string) > byte_limit then
           (case scan_back encoded_in_string byte_limit of
             Inl e \<Rightarrow> Inl e
           | Inr i \<Rightarrow>
               (case utf8_decode (py_slice_to encoded_in_string i) of
                 Inl e \<Rightarrow> Inl e
               | Inr s \<Rightarrow> Inr (PyStr s)))
         else Inr (PyBytearray encoded_in_string))"

text \<open>The text a caller of the function receives, and the number of bytes it occupies.\<close>

definition trimmed_text :: "pystr \<Rightarrow> int \<Rightarrow> py_error + pystr" where
  "trimmed_text s b =
     (case trim_string_at_unicode_boundaries s b of Inl e \<Rightarrow> Inl e | Inr v \<Rightarrow> py_text v)"

fun value_size :: "py_value \<Rightarrow> nat" where
  "value_size (PyStr t) = utf8_size t"
| "value_size (PyBytearray bs) = length bs"

subsection \<open>The specification\<close>

lemma fit_prefix_mono: "b1 \<le> b2 \<Longrightarrow> prefix (fit_prefix s b1) (fit_prefix s b2)"
  by (induction s b1 arbitrary: b2 rule: fit_prefix.induct) auto

lemma fit_prefix_take: "fit_prefix s b = take (length (fit_prefix s b)) s"
  by (induction s b rule: fit_prefix.induct) auto

lemma fit_prefix_size: "utf8_size (fit_prefix s b) \<le> b"
  by (induction s b rule: fit_prefix.induct) auto

lemma fit_prefix_maximal:
  "length (fit_prefix s b) < length s \<Longrightarrow>
     b < utf8_size (take (Suc (length (fit_prefix s b))) s)"
  by (induction s b rule: fit_prefix.induct) (auto split: if_splits)

lemma fit_prefix_all: "utf8_size s \<le> b \<Longrightarrow> fit_prefix s b = s"
  by (induction s b rule: fit_prefix.induct) auto

text \<open>Any prefix that fits and cannot be extended by one more code point is \<open>fit_prefix\<close>.\<close>

lemma fit_prefix_unique:
  assumes "utf8_size (take m s) \<le> b"
    and "m < length s \<Longrightarrow> b < utf8_size (take (Suc m) s)"
  shows "fit_prefix s b = take m s"
  using assms
proof (induction s b arbitrary: m rule: fit_prefix.induct)
  case (1 b)
  then show ?case by simp
next
  case (2 c cs b)
  show ?case
  proof (cases m)
    case 0
    with "2.prems"(2) show ?thesis by simp
  next
    case (Suc m')
    with "2.prems"(1) have fits: "char_size c \<le> b" by simp
    have "fit_prefix cs (b - char_size c) = take m' cs"
    proof (rule "2.IH" [OF fits])
      show "utf8_size (take m' cs) \<le> b - char_size c" using "2.prems"(1) Suc by simp
      show "b - char_size c < utf8_size (take (Suc m') cs)" if "m' < length cs"
        using "2.prems"(2) Suc that fits by simp
    qed
    with fits Suc show ?thesis by simp
  qed
qed

subsection \<open>The backward scan\<close>

text \<open>
  From a position inside the buffer the scan returns, without raising, the nearest
  position at or below it that is 0 or holds a non-continuation byte.
\<close>

lemma scan_back_spec:
  "0 \<le> i \<Longrightarrow> i < int (length B) \<Longrightarrow>
     \<exists>j. scan_back B i = Inr j \<and> 0 \<le> j \<and> j \<le> i
        \<and> (j = 0 \<or> \<not> is_continuation (B ! nat j))
        \<and> (\<forall>k. j < k \<and> k \<le> i \<longrightarrow> is_continuation (B ! nat k))"
proof (induction B i rule: scan_back.induct)
  case (1 B i)
  show ?case
  proof (cases "i > 0")
    case False
    with "1.prems" have "i = 0" by simp
    then show ?thesis by (auto simp add: scan_back.simps)
  next
    case True
    have idx: "py_index B i = Inr (B ! nat i)" using True "1.prems" by (simp add: py_seq)
    show ?thesis
    proof (cases "is_continuation (B ! nat i)")
      case False
      with True idx show ?thesis by (auto simp add: scan_back.simps)
    next
      case cont: True
      from "1.IH" [OF True idx cont] "1.prems" True obtain j where
        j: "scan_back B (i - 1) = Inr j" "0 \<le> j" "j \<le> i - 1"
           "j = 0 \<or> \<not> is_continuation (B ! nat j)"
           "\<forall>k. j < k \<and> k \<le> i - 1 \<longrightarrow> is_continuation (B ! nat k)"
        by auto
      have "\<forall>k. j < k \<and> k \<le> i \<longrightarrow> is_continuation (B ! nat k)"
        using j(5) cont by (metis int_one_le_iff_zero_less order.order_iff_strict zle_diff1_eq)
      with True idx cont j(1-4) show ?thesis
        by (intro exI [of _ j]) (simp add: scan_back.simps [of B i])
    qed
  qed
qed


subsection \<open>The loop as a transition system\<close>

lemma scan_stop_None:
  "scan_stop B i = None \<longleftrightarrow> 0 < i \<and> i < int (length B) \<and> is_continuation (B ! nat i)"
  by (auto simp: scan_stop_def py_index_def split: if_splits)

subsection \<open>The truncating branch\<close>

lemma encodable_below: "list_all encodable s \<Longrightarrow> list_all (\<lambda>c. c < 0x110000) s"
  by (simp add: list_all_iff encodable_def)

text \<open>
  On the encoding of a string, the scan from a position inside the buffer stops at
  the end of the longest prefix that fits in that many bytes.
\<close>

lemma scan_back_enc:
  assumes wf: "list_all (\<lambda>c. c < 0x110000) s"
    and b: "0 \<le> b" "b < int (utf8_size s)"
  shows "scan_back (concat (map enc_char s)) b = Inr (int (utf8_size (fit_prefix s (nat b))))"
proof -
  let ?B = "concat (map enc_char s)"
  let ?m = "length (fit_prefix s (nat b))"
  let ?P = "utf8_size (take ?m s)"
  from scan_back_spec [of b ?B] b obtain j where j: "scan_back ?B b = Inr j" "0 \<le> j" "j \<le> b"
      "j = 0 \<or> \<not> is_continuation (?B ! nat j)"
      "\<forall>k. j < k \<and> k \<le> b \<longrightarrow> is_continuation (?B ! nat k)"
    by auto
  have fp: "fit_prefix s (nat b) = take ?m s" by (rule fit_prefix_take)
  have P_le: "?P \<le> nat b" using fit_prefix_size [of s "nat b"] fp by simp
  have m_lt: "?m < length s"
  proof (rule ccontr)
    assume "\<not> ?m < length s"
    then have "fit_prefix s (nat b) = s" using fp by simp
    then show False using fit_prefix_size [of s "nat b"] b by simp
  qed
  have over: "nat b < utf8_size (take (Suc ?m) s)" using fit_prefix_maximal m_lt by blast
  obtain k where k: "nat j = utf8_size (take k s)"
  proof (cases "j = 0")
    case True
    then show ?thesis using that [of 0] by simp
  next
    case False
    with j(4) have "\<not> is_continuation (?B ! nat j)" by simp
    moreover have "nat j < utf8_size s" using j(3) b by simp
    ultimately show ?thesis using enc_lead_is_boundary [OF wf] that by blast
  qed
  have "k \<le> ?m"
  proof (rule ccontr)
    assume "\<not> k \<le> ?m"
    then have "utf8_size (take (Suc ?m) s) \<le> utf8_size (take k s)"
      by (simp add: utf8_size_take_mono)
    have "nat j \<le> nat b" using j(3) by simp
    then show False using over k \<open>utf8_size (take (Suc ?m) s) \<le> utf8_size (take k s)\<close> by linarith
  qed
  then have j_le: "nat j \<le> ?P" using k utf8_size_take_mono by simp
  have "\<not> nat j < ?P"
  proof
    assume lt: "nat j < ?P"
    have lead: "\<not> is_continuation (?B ! ?P)" using enc_boundary_is_lead [OF wf m_lt] .
    have jP: "j < int ?P" using lt j(2) by linarith
    have Pb: "int ?P \<le> b" using P_le b(1) by linarith
    have "is_continuation (?B ! nat (int ?P))" using j(5) jP Pb by blast
    with lead show False by simp
  qed
  with j_le have "nat j = ?P" by simp
  with j(1,2) fp show ?thesis by simp
qed


text \<open>The two branches of the function on a string that encodes.\<close>

lemma trim_truncates:
  assumes enc: "list_all encodable s" and b: "0 \<le> b" "b < int (utf8_size s)"
  shows "trim_string_at_unicode_boundaries s b = Inr (PyStr (fit_prefix s (nat b)))"
proof -
  let ?m = "length (fit_prefix s (nat b))"
  have fp: "fit_prefix s (nat b) = take ?m s" by (rule fit_prefix_take)
  have scan: "scan_back (concat (map enc_char s)) b = Inr (int (utf8_size (take ?m s)))"
    using scan_back_enc [OF encodable_below [OF enc] b] fp by simp
  have "py_slice_to (concat (map enc_char s)) (int (utf8_size (take ?m s)))
          = concat (map enc_char (take ?m s))"
    by (simp add: py_seq take_enc_boundary)
  moreover have "list_all encodable (take ?m s)" using enc by (auto simp add: list_all_iff dest: in_set_takeD)
  ultimately have "utf8_decode (py_slice_to (concat (map enc_char s)) (int (utf8_size (take ?m s))))
          = Inr (take ?m s)"
    by (simp add: utf8_decode_concat_enc)
  with enc b scan fp show ?thesis
    by (simp add: trim_string_at_unicode_boundaries_def utf8_encode_eq)
qed

lemma trim_fits:
  assumes enc: "list_all encodable s" and b: "int (utf8_size s) \<le> b"
  shows "trim_string_at_unicode_boundaries s b = Inr (PyBytearray (concat (map enc_char s)))"
  using assms by (simp add: trim_string_at_unicode_boundaries_def utf8_encode_eq)

lemma trimmed_text_eq:
  assumes "list_all encodable s" and "0 \<le> b"
  shows "trimmed_text s b = Inr (fit_prefix s (nat b))"
proof (cases "int (utf8_size s) \<le> b")
  case True
  then have "fit_prefix s (nat b) = s" by (intro fit_prefix_all) simp
  with True assms show ?thesis by (simp add: trimmed_text_def trim_fits utf8_decode_concat_enc)
next
  case False
  with assms show ?thesis by (simp add: trimmed_text_def trim_truncates)
qed

lemma encodable_fit_prefix: "list_all encodable s \<Longrightarrow> list_all encodable (fit_prefix s b)"
  by (induction s b rule: fit_prefix.induct) auto

lemma fit_prefix_idem: "fit_prefix (fit_prefix s b) b = fit_prefix s b"
  using fit_prefix_all fit_prefix_size by blast

text \<open>Past its budget, a string's continuation does not change what fits.\<close>

lemma fit_prefix_append_over:
  "b < utf8_size xs \<Longrightarrow> fit_prefix (xs @ ys) b = fit_prefix xs b"
  by (induction xs b rule: fit_prefix.induct) auto

text \<open>A truncated prefix misses the budget by less than one code point.\<close>

lemma fit_prefix_size_lower:
  assumes "b < utf8_size s"
  shows "b < utf8_size (fit_prefix s b) + 4"
proof -
  let ?m = "length (fit_prefix s b)"
  have m: "?m < length s"
  proof (rule ccontr)
    assume "\<not> ?m < length s"
    then have "fit_prefix s b = s" using fit_prefix_take [of s b] by simp
    with assms fit_prefix_size [of s b] show False by simp
  qed
  have "b < utf8_size (take (Suc ?m) s)" using fit_prefix_maximal m by blast
  also have "\<dots> = utf8_size (fit_prefix s b) + char_size (s ! ?m)"
    using m utf8_size_take_Suc fit_prefix_take [of s b] by simp
  finally show ?thesis using char_size_bounds [of "s ! ?m"] by linarith
qed

lemma enc_example: "list_all encodable [0x3B1, 0x3B2, 0x3B3]"
  by (simp add: encodable_def is_surrogate_def)

section \<open>Properties of the truncator\<close>

text \<open>
  C1. Refinement: on every string that encodes and every non-negative budget the
  function returns without raising, and the text it returns is the longest
  code-point prefix of the input whose UTF-8 encoding fits the budget.
\<close>

theorem trim_refines_fit_prefix:
  assumes "list_all encodable s" and "0 \<le> b"
  shows "\<exists>v. trim_string_at_unicode_boundaries s b = Inr v \<and> py_text v = Inr (fit_prefix s (nat b))"
  using trimmed_text_eq [OF assms] by (auto simp: trimmed_text_def split: sum.splits)

theorem trim_refines_fit_prefix_witness:
  "list_all encodable [0x3B1, 0x3B2, 0x3B3] \<and> (0::int) \<le> 3 \<and>
   (\<exists>v. trim_string_at_unicode_boundaries [0x3B1, 0x3B2, 0x3B3] 3 = Inr v \<and> py_text v = Inr [0x3B1])"
proof -
  have "fit_prefix [0x3B1, 0x3B2, 0x3B3] (nat 3) = [0x3B1]" by (simp add: char_size_def)
  with trim_refines_fit_prefix [OF enc_example, of 3] enc_example show ?thesis by simp
qed

text \<open>
  C2. Functional behaviour on both branches: when the encoding fits, the function
  returns the \<open>bytearray\<close> it encoded; otherwise a \<open>str\<close> holding the longest
  fitting prefix.
\<close>

theorem trim_functional:
  "list_all encodable s \<Longrightarrow> 0 \<le> b \<Longrightarrow>
   trim_string_at_unicode_boundaries s b =
     Inr (if int (utf8_size s) \<le> b then PyBytearray (concat (map enc_char s))
          else PyStr (fit_prefix s (nat b)))"
  using trim_truncates [of s b] trim_fits [of s b] by auto

theorem trim_functional_witness:
  "list_all encodable [0x3B1, 0x3B2, 0x3B3] \<and> (0::int) \<le> 3 \<and>
   trim_string_at_unicode_boundaries [0x3B1, 0x3B2, 0x3B3] 3 = Inr (PyStr [0x3B1])"
proof -
  have "fit_prefix [0x3B1, 0x3B2, 0x3B3] (nat 3) = [0x3B1]" by (simp add: char_size_def)
  moreover have "\<not> int (utf8_size [0x3B1, 0x3B2, 0x3B3]) \<le> 3" by (simp add: char_size_def)
  ultimately show ?thesis using trim_functional [OF enc_example, of 3] enc_example by simp
qed


text \<open>
  C3. Byte bound: the value returned for a non-negative budget occupies at most
  \<open>byte_limit\<close> bytes.
\<close>

theorem trim_byte_bound:
  assumes "list_all encodable s" and "0 \<le> b"
  shows "\<exists>v. trim_string_at_unicode_boundaries s b = Inr v \<and> int (value_size v) \<le> b"
proof (cases "int (utf8_size s) \<le> b")
  case True
  with assms show ?thesis by (simp add: trim_fits)
next
  case False
  have "utf8_size (fit_prefix s (nat b)) \<le> nat b" by (rule fit_prefix_size)
  with False assms show ?thesis by (simp add: trim_truncates)
qed

theorem trim_byte_bound_witness:
  "list_all encodable [0x3B1, 0x3B2, 0x3B3] \<and> (0::int) \<le> 5 \<and>
   (\<exists>v. trim_string_at_unicode_boundaries [0x3B1, 0x3B2, 0x3B3] 5 = Inr v \<and> int (value_size v) \<le> 5)"
  using trim_byte_bound [OF enc_example, of 5] enc_example by simp

text \<open>
  C4. Maximality: when the returned \<open>str\<close> is shorter than the input, adding the
  next code point of the input would exceed the budget.
\<close>

theorem trim_maximal:
  assumes "list_all encodable s" and "0 \<le> b"
    and "trim_string_at_unicode_boundaries s b = Inr (PyStr t)" and "length t < length s"
  shows "b < int (utf8_size (take (Suc (length t)) s))"
proof -
  have "\<not> int (utf8_size s) \<le> b" using assms(1,3) trim_fits [of s b] by auto
  then have t: "t = fit_prefix s (nat b)" using assms trim_truncates [of s b] by simp
  with assms(4) have "nat b < utf8_size (take (Suc (length t)) s)"
    using fit_prefix_maximal by blast
  then show ?thesis by linarith
qed

theorem trim_maximal_witness:
  "list_all encodable [0x3B1, 0x3B2, 0x3B3] \<and> (0::int) \<le> 3 \<and>
   trim_string_at_unicode_boundaries [0x3B1, 0x3B2, 0x3B3] 3 = Inr (PyStr [0x3B1]) \<and>
   length [0x3B1::nat] < length [0x3B1::nat, 0x3B2, 0x3B3] \<and>
   3 < int (utf8_size (take (Suc (length [0x3B1::nat])) [0x3B1, 0x3B2, 0x3B3]))"
proof -
  have r: "trim_string_at_unicode_boundaries [0x3B1, 0x3B2, 0x3B3] 3 = Inr (PyStr [0x3B1])"
    using trim_truncates [OF enc_example, of 3] by (simp add: char_size_def)
  show ?thesis using trim_maximal [OF enc_example _ r] enc_example r by simp
qed

text \<open>
  C5. Boundary safety: the returned text is a prefix of the input in code points,
  so no multi-byte sequence is ever split and nothing is substituted.
\<close>

theorem trim_code_point_prefix:
  assumes "list_all encodable s" and "0 \<le> b"
  shows "\<exists>t. trimmed_text s b = Inr t \<and> prefix t s"
proof -
  have "prefix (fit_prefix s (nat b)) s" by (subst fit_prefix_take) (rule take_is_prefix)
  with trimmed_text_eq [OF assms] show ?thesis by simp
qed

theorem trim_code_point_prefix_witness:
  "list_all encodable [0x3B1, 0x3B2, 0x3B3] \<and> (0::int) \<le> 3 \<and>
   (\<exists>t. trimmed_text [0x3B1, 0x3B2, 0x3B3] 3 = Inr t \<and> prefix t [0x3B1, 0x3B2, 0x3B3])"
  using trim_code_point_prefix [OF enc_example, of 3] enc_example by simp

text \<open>C6. Monotonicity: a larger budget never yields a shorter text.\<close>

theorem trim_monotone:
  assumes "list_all encodable s" and "0 \<le> b1" and "b1 \<le> b2"
  shows "\<exists>t1 t2. trimmed_text s b1 = Inr t1 \<and> trimmed_text s b2 = Inr t2 \<and> prefix t1 t2"
proof -
  have "0 \<le> b2" using assms by simp
  moreover have "nat b1 \<le> nat b2" using assms by simp
  ultimately show ?thesis using assms trimmed_text_eq fit_prefix_mono by simp
qed

theorem trim_monotone_witness:
  "list_all encodable [0x3B1, 0x3B2, 0x3B3] \<and> (0::int) \<le> 3 \<and> (3::int) \<le> 4 \<and>
   (\<exists>t1 t2. trimmed_text [0x3B1, 0x3B2, 0x3B3] 3 = Inr t1 \<and>
      trimmed_text [0x3B1, 0x3B2, 0x3B3] 4 = Inr t2 \<and> prefix t1 t2)"
  using trim_monotone [OF enc_example, of 3 4] enc_example by simp

text \<open>C7. A zero budget on a non-empty string yields the empty \<open>str\<close>.\<close>

theorem trim_zero_budget:
  "list_all encodable s \<Longrightarrow> s \<noteq> [] \<Longrightarrow> trim_string_at_unicode_boundaries s 0 = Inr (PyStr [])"
  using trim_truncates [of s 0] char_size_bounds
  by (cases s) (auto simp: char_size_def)

theorem trim_zero_budget_witness:
  "list_all encodable [0x3B1, 0x3B2, 0x3B3] \<and> [0x3B1::nat, 0x3B2, 0x3B3] \<noteq> [] \<and>
   trim_string_at_unicode_boundaries [0x3B1, 0x3B2, 0x3B3] 0 = Inr (PyStr [])"
  using trim_zero_budget [OF enc_example] enc_example by simp


text \<open>
  C8. A Python \<open>str\<close> holding a lone surrogate makes the very first statement,
  \<open>bytearray(in_string, "utf-8")\<close>, raise \<open>UnicodeEncodeError\<close>, whatever the budget.
\<close>

theorem trim_surrogate_raises:
  assumes "\<exists>c \<in> set s. is_surrogate c"
  shows "trim_string_at_unicode_boundaries s b = Inl UnicodeEncodeError"
proof -
  have "\<not> list_all encodable s" using assms by (auto simp: list_all_iff encodable_def)
  then show ?thesis by (simp add: trim_string_at_unicode_boundaries_def utf8_encode_eq)
qed

theorem trim_surrogate_raises_witness:
  "(\<exists>c \<in> set [0x61, 0xD800]. is_surrogate c) \<and>
   trim_string_at_unicode_boundaries [0x61, 0xD800] 4000 = Inl UnicodeEncodeError"
proof -
  have h: "\<exists>c \<in> set [0x61, 0xD800]. is_surrogate c" by (simp add: is_surrogate_def)
  show ?thesis using trim_surrogate_raises [OF h] h by simp
qed

text \<open>
  C9. A negative \<open>byte_limit\<close>, which the spec excludes but the code accepts:
  the loop does not run, and \<open>encoded_in_string[:byte_limit]\<close> drops bytes from the
  end, so the result is whatever decoding that cut yields.
\<close>

theorem trim_negative_limit:
  assumes "list_all encodable s" and "b < 0"
  shows "trim_string_at_unicode_boundaries s b =
    (case utf8_decode (take (nat (int (utf8_size s) + b)) (concat (map enc_char s))) of
       Inl e \<Rightarrow> Inl e | Inr t \<Rightarrow> Inr (PyStr t))"
proof -
  have "scan_back (concat (map enc_char s)) b = Inr b" using assms(2) by (simp add: scan_back.simps)
  with assms show ?thesis
    by (simp add: trim_string_at_unicode_boundaries_def utf8_encode_eq py_seq split: sum.splits)
qed

theorem trim_negative_limit_witness:
  "list_all encodable [0x3B1, 0x3B2] \<and> (-2::int) < 0 \<and>
   trim_string_at_unicode_boundaries [0x3B1, 0x3B2] (-2) = Inr (PyStr [0x3B1])"
proof -
  have e: "list_all encodable [0x3B1, 0x3B2]" by (simp add: encodable_def is_surrogate_def)
  have "utf8_decode (take (nat (int (utf8_size [0x3B1, 0x3B2]) + -2)) (concat (map enc_char [0x3B1, 0x3B2])))
          = Inr [0x3B1]"
    by (simp add: char_size_def enc_char_def byte_of_def cp2_def is_continuation_def)
  then show ?thesis using trim_negative_limit [OF e, of "-2"] e by simp
qed

text \<open>
  C10. The loop, on a start index inside the buffer, terminates without raising and
  returns exactly the nearest index at or below it that is 0 or starts a code point.
\<close>

theorem scan_back_characterisation:
  assumes "0 \<le> i" and "i < int (length B)"
  shows "scan_back B i = Inr j \<longleftrightarrow>
         0 \<le> j \<and> j \<le> i \<and> (j = 0 \<or> \<not> is_continuation (B ! nat j))
         \<and> (\<forall>k. j < k \<and> k \<le> i \<longrightarrow> is_continuation (B ! nat k))"
    (is "_ \<longleftrightarrow> ?good j")
proof -
  from scan_back_spec [OF assms] obtain j0 where j0: "scan_back B i = Inr j0" "?good j0"
    by blast
  have uniq: "j = j0" if g: "?good j" for j
  proof (rule ccontr)
    assume "j \<noteq> j0"
    then have "j < j0 \<or> j0 < j" by arith
    then show False
    proof
      assume lt: "j < j0"
      have "j0 \<le> i" "j0 = 0 \<or> \<not> is_continuation (B ! nat j0)" using j0(2) by blast+
      moreover have "\<forall>k. j < k \<and> k \<le> i \<longrightarrow> is_continuation (B ! nat k)" "0 \<le> j" using g by blast+
      ultimately show False using lt by force
    next
      assume lt: "j0 < j"
      have "j \<le> i" "j = 0 \<or> \<not> is_continuation (B ! nat j)" using g by blast+
      moreover have "\<forall>k. j0 < k \<and> k \<le> i \<longrightarrow> is_continuation (B ! nat k)" "0 \<le> j0" using j0(2) by blast+
      ultimately show False using lt by force
    qed
  qed
  show ?thesis
  proof
    assume "scan_back B i = Inr j"
    with j0(1) have "j = j0" by simp
    with j0(2) show "?good j" by simp
  next
    assume "?good j"
    then have "j = j0" by (rule uniq)
    with j0(1) show "scan_back B i = Inr j" by simp
  qed
qed

theorem scan_back_characterisation_witness:
  "(0::int) \<le> 3 \<and> (3::int) < int (length (concat (map enc_char [0x3B1, 0x3B2, 0x3B3]))) \<and>
   scan_back (concat (map enc_char [0x3B1, 0x3B2, 0x3B3])) 3 = Inr 2 \<and>
   \<not> is_continuation (concat (map enc_char [0x3B1, 0x3B2, 0x3B3]) ! nat 2)"
proof -
  let ?B = "concat (map enc_char [0x3B1, 0x3B2, 0x3B3])"
  have B: "?B = [byte_of 0xCE, byte_of 0xB1, byte_of 0xCE, byte_of 0xB2, byte_of 0xCE, byte_of 0xB3]"
    by (simp add: enc_char_def)
  have r: "scan_back ?B 3 = Inr 2"
    unfolding B by (simp add: scan_back.simps [of _ 3] scan_back.simps [of _ 2] py_seq is_continuation_unat)
  have l: "(3::int) < int (length ?B)" by (simp add: char_size_def)
  show ?thesis using scan_back_characterisation [of 3 ?B 2] r l by simp
qed

text \<open>
  C11. The byte test of the loop guard, \<open>not ((b & 0xC0) != 0x80)\<close>, holds exactly
  for the bytes \<open>0x80 .. 0xBF\<close>, the UTF-8 continuation bytes.
\<close>

theorem is_continuation_range:
  "is_continuation b \<longleftrightarrow> 0x80 \<le> b \<and> b \<le> (0xBF :: byte)"
  by (auto simp add: is_continuation_unat word_le_nat_alt)

text \<open>
  C12. Round trip of the untruncated branch: a \<open>bytearray\<close> returned by the
  function decodes back to the input string.
\<close>

theorem trim_bytearray_roundtrip:
  assumes "trim_string_at_unicode_boundaries s b = Inr (PyBytearray B)"
  shows "utf8_decode B = Inr s"
proof -
  from assms obtain B' where enc: "utf8_encode s = Inr B'" and B: "B = B'"
    by (auto simp: trim_string_at_unicode_boundaries_def split: sum.splits if_splits)
  then have "list_all encodable s" "B' = concat (map enc_char s)"
    by (auto simp: utf8_encode_eq split: if_splits)
  with B show ?thesis by (simp add: utf8_decode_concat_enc)
qed

theorem trim_bytearray_roundtrip_witness:
  "trim_string_at_unicode_boundaries [0x3B1] 2 = Inr (PyBytearray (enc_char 0x3B1)) \<and>
   utf8_decode (enc_char 0x3B1) = Inr [0x3B1]"
proof -
  have e: "list_all encodable [0x3B1]" by (simp add: encodable_def is_surrogate_def)
  have r: "trim_string_at_unicode_boundaries [0x3B1] 2 = Inr (PyBytearray (enc_char 0x3B1))"
    using trim_fits [OF e, of 2] by (simp add: char_size_def)
  show ?thesis using trim_bytearray_roundtrip [OF r] r by simp
qed

text \<open>C13. Idempotence: trimming the returned text again with the same budget changes nothing.\<close>

theorem trim_idempotent:
  assumes "list_all encodable s" and "0 \<le> b" and "trimmed_text s b = Inr t"
  shows "trimmed_text t b = Inr t"
proof -
  have t: "t = fit_prefix s (nat b)" using assms trimmed_text_eq by simp
  then have "list_all encodable t" using assms(1) by (simp add: encodable_fit_prefix)
  with t assms(2) show ?thesis by (simp add: trimmed_text_eq fit_prefix_idem)
qed

theorem trim_idempotent_witness:
  "list_all encodable [0x3B1, 0x3B2, 0x3B3] \<and> (0::int) \<le> 3 \<and>
   trimmed_text [0x3B1, 0x3B2, 0x3B3] 3 = Inr [0x3B1] \<and> trimmed_text [0x3B1] 3 = Inr [0x3B1]"
proof -
  have t: "trimmed_text [0x3B1, 0x3B2, 0x3B3] 3 = Inr [0x3B1]"
    using trimmed_text_eq [OF enc_example, of 3] by (simp add: char_size_def)
  show ?thesis using trim_idempotent [OF enc_example _ t] enc_example t by simp
qed


text \<open>
  C24. Loop invariant: on every state the loop reaches from a start index inside
  the buffer, the index stays between 0 and the start, and every byte it has
  stepped over is a continuation byte.
\<close>

theorem scan_iter_invariant:
  assumes "0 \<le> i0" "i0 < int (length B)" "scan_iter B i0 i"
  shows "0 \<le> i \<and> i \<le> i0 \<and> (\<forall>k. i < k \<and> k \<le> i0 \<longrightarrow> is_continuation (B ! nat k))"
  using assms(3)
proof (induction rule: scan_iter.induct)
  case start
  show ?case
  proof (intro conjI allI impI)
    fix k assume "i0 < k \<and> k \<le> i0"
    then have False by linarith
    then show "is_continuation (B ! nat k)" ..
  qed (use assms(1) in simp_all)
next
  case (step i)
  then have i: "0 < i" "is_continuation (B ! nat i)" by (simp_all add: scan_stop_None)
  show ?case
  proof (intro conjI allI impI)
    fix k assume k: "i - 1 < k \<and> k \<le> i0"
    show "is_continuation (B ! nat k)"
    proof (cases "k = i")
      case True
      with i show ?thesis by simp
    next
      case False
      with k have "i < k" by simp
      with k step.IH show ?thesis by blast
    qed
  qed (use i step.IH in simp_all)
qed

theorem scan_iter_invariant_witness:
  "(0::int) \<le> 3 \<and> (3::int) < int (length (concat (map enc_char [0x3B1, 0x3B2, 0x3B3])))
   \<and> scan_iter (concat (map enc_char [0x3B1, 0x3B2, 0x3B3])) 3 2
   \<and> (0::int) \<le> 2 \<and> (2::int) \<le> 3 \<and> is_continuation (concat (map enc_char [0x3B1, 0x3B2, 0x3B3]) ! nat 3)"
proof -
  let ?B = "concat (map enc_char [0x3B1, 0x3B2, 0x3B3])"
  have B: "?B = [byte_of 0xCE, byte_of 0xB1, byte_of 0xCE, byte_of 0xB2, byte_of 0xCE, byte_of 0xB3]"
    by (simp add: enc_char_def)
  have l: "(3::int) < int (length ?B)" by (simp add: char_size_def)
  have "scan_stop ?B 3 = None" unfolding scan_stop_None B by (simp add: is_continuation_unat)
  then have "scan_iter ?B 3 (3 - 1)" by (rule scan_iter.step [OF scan_iter.start])
  then have r: "scan_iter ?B 3 2" by simp
  have "\<forall>k. 2 < k \<and> k \<le> 3 \<longrightarrow> is_continuation (?B ! nat k)"
    using scan_iter_invariant [OF _ l r] by simp
  then have "is_continuation (?B ! nat 3)" by (rule allE [of _ 3]) simp
  then show ?thesis using l r by simp
qed

end
