(* ===== verification/Payloads.thy ===== *)
theory Payloads
  imports Utf8
begin

text \<open>
  The two long Greek literals \<open>problematic_payload_1\<close> and
  \<open>problematic_payload_2\<close>, written identically in \<open>src/src/main.py\<close>
  (lines 51-72 and 74-107) and \<open>src/src/main_fix.py\<close> (lines 71-92 and
  94-127), as lists of code points. Each source line of a literal ends in a
  backslash that continues the string, so each literal is the concatenation of
  its lines; one definition holds the code points of one source line
  (\<open>payload_1_line51\<close> is line 51 of \<open>main.py\<close>), with the escape
  \<open>\n\<close> read as code point 10.
\<close>

definition payload_1_line51 :: pystr where
  "payload_1_line51 =
     [932, 959, 32, 76, 111, 114, 101, 109, 32, 73, 112, 115, 117, 109, 32, 949,
      943, 957, 945, 953, 32, 945, 960, 955, 940, 32, 941, 957, 945, 32, 954, 949,
      943, 956, 949, 957, 959, 32, 967, 969, 961, 943, 962, 32, 957, 972, 951, 956,
      945, 32, 947, 953, 945, 32, 964, 959, 965, 962, 32, 949, 960, 945, 947, 947,
      949, 955, 956, 945, 964, 943, 949, 962, 32, 964, 951, 962, 32, 964, 965, 960,
      959, 947, 961, 945, 966, 943, 945, 962, 32]"

definition payload_1_line52 :: pystr where
  "payload_1_line52 =
     [954, 945, 953, 32, 963, 964, 959, 953, 967, 949, 953, 959, 952, 949, 963, 943,
      945, 962, 46, 32, 932, 959, 32, 76, 111, 114, 101, 109, 32, 73, 112, 115,
      117, 109, 32, 949, 943, 957, 945, 953, 32, 964, 959, 32, 949, 960, 945, 947,
      947, 949, 955, 956, 945, 964, 953, 954, 972, 32, 960, 961, 972, 964, 965, 960,
      959, 32, 972, 963, 959, 957, 32, 945, 966, 959, 961, 940, 32, 964, 959, 32,
      954, 949, 943, 956, 949, 957, 959, 32, 967, 969, 961, 943, 962, 32, 957, 972,
      951, 956, 945, 44, 32, 945, 960, 972, 32, 964, 959, 957, 32, 49, 53, 959,
      32, 945, 953, 974, 957, 945, 32]"

definition payload_1_line53 :: pystr where
  "payload_1_line53 =
     [44, 32, 972, 964, 945, 957, 32, 941, 957, 945, 962, 32, 945, 957, 974, 957,
      965, 956, 959, 962, 32, 964, 965, 960, 959, 947, 961, 940, 966, 959, 962, 32,
      960, 942, 961, 949, 32, 941, 957, 945, 32, 948, 959, 954, 943, 956, 953, 959,
      32, 954, 945, 953, 32, 945, 957, 945, 954, 940, 964, 949, 968, 949, 32, 964,
      953, 962, 32, 955, 941, 958, 949, 953, 962, 32, 947, 953, 945, 32, 957, 945,
      32, 948, 951, 956, 953, 959, 965, 961, 947, 942, 963, 949, 953, 32, 941, 957,
      945, 32, 948, 949, 943, 947, 956, 945, 32, 946, 953, 946, 955, 943, 959, 965,
      46, 32, 908, 967, 953, 32]"

definition payload_1_line54 :: pystr where
  "payload_1_line54 =
     [956, 972, 957, 959, 32, 949, 960, 953, 946, 943, 969, 963, 949, 32, 960, 941,
      957, 964, 949, 32, 945, 953, 974, 957, 949, 962, 44, 32, 945, 955, 955, 940,
      32, 954, 965, 961, 953, 940, 961, 967, 951, 963, 949, 32, 963, 964, 951, 957,
      32, 951, 955, 949, 954, 964, 961, 959, 957, 953, 954, 942, 32, 963, 964, 959,
      953, 967, 949, 953, 959, 952, 949, 963, 943, 945, 44, 32, 960, 945, 961, 945,
      956, 941, 957, 959, 957, 964, 945, 962, 32, 956, 949, 32, 954, 940, 952, 949,
      32, 964, 961, 972, 960, 959, 32, 945, 957, 945, 955, 955, 959, 943, 969, 964,
      959, 46, 32]"

definition payload_1_line55 :: pystr where
  "payload_1_line55 =
     [904, 947, 953, 957, 949, 32, 948, 951, 956, 959, 966, 953, 955, 941, 962, 32,
      964, 951, 32, 948, 949, 954, 945, 949, 964, 943, 945, 32, 964, 959, 965, 32,
      39, 54, 48, 32, 956, 949, 32, 964, 951, 957, 32, 941, 954, 948, 959, 963,
      951, 32, 964, 969, 957, 32, 948, 949, 953, 947, 956, 940, 964, 969, 957, 32,
      964, 951, 962, 32, 76, 101, 116, 114, 97, 115, 101, 116, 32, 972, 960, 959,
      965, 32, 960, 949, 961, 953, 949, 955, 940, 956, 946, 945, 957, 945, 957, 32,
      945, 960, 959, 963, 960, 940, 963, 956, 945, 964, 945, 32, 964, 959, 965, 32,
      76, 111, 114, 101, 109, 32]"

definition payload_1_line56 :: pystr where
  "payload_1_line56 =
     [73, 112, 115, 117, 109, 44, 32, 954, 945, 953, 32, 960, 953, 959, 32, 960,
      961, 972, 963, 966, 945, 964, 945, 32, 956, 949, 32, 964, 959, 32, 955, 959,
      947, 953, 963, 956, 953, 954, 972, 32, 951, 955, 949, 954, 964, 961, 959, 957,
      953, 954, 942, 962, 32, 963, 949, 955, 953, 948, 959, 960, 959, 943, 951, 963,
      951, 962, 32, 972, 960, 969, 962, 32, 964, 959, 32, 65, 108, 100, 117, 115,
      32, 80, 97, 103, 101, 77, 97, 107, 101, 114, 32, 960, 959, 965, 32, 960,
      949, 961, 953, 949, 943, 967, 945, 957, 32, 949, 954, 948, 959, 967, 941, 962,
      32, 964, 959, 965, 32]"

definition payload_1_line57 :: pystr where
  "payload_1_line57 =
     [76, 111, 114, 101, 109, 32, 73, 112, 115, 117, 109, 46, 10, 915, 953, 945,
      964, 943, 32, 964, 959, 32, 967, 961, 951, 963, 953, 956, 959, 960, 959, 953,
      959, 973, 956, 949, 59, 10, 917, 943, 957, 945, 953, 32, 960, 955, 941, 959,
      957, 32, 954, 959, 953, 957, 940, 32, 960, 945, 961, 945, 948, 949, 954, 964,
      972, 32, 972, 964, 953, 32, 941, 957, 945, 962, 32, 945, 957, 945, 947, 957,
      974, 963, 964, 951, 962, 32, 945, 960, 959, 963, 960, 940, 964, 945, 953, 32,
      945, 960, 972, 32, 964, 959, 32, 960, 949, 961, 953, 949, 967, 972, 956, 949,
      957, 959, 32]"

definition payload_1_line58 :: pystr where
  "payload_1_line58 =
     [960, 959, 965, 32, 948, 953, 945, 946, 940, 950, 949, 953, 44, 32, 972, 964,
      945, 957, 32, 949, 958, 949, 964, 940, 950, 949, 953, 32, 964, 951, 32, 948,
      953, 945, 956, 972, 961, 966, 969, 963, 951, 32, 956, 943, 945, 962, 32, 963,
      949, 955, 943, 948, 945, 962, 46, 32, 919, 32, 959, 965, 963, 943, 945, 32,
      964, 951, 962, 32, 967, 961, 942, 963, 951, 962, 32, 964, 959, 965, 32, 76,
      111, 114, 101, 109, 32, 73, 112, 115, 117, 109, 32, 949, 943, 957, 945, 953,
      32, 972, 964, 953, 32, 941, 967, 949, 953, 32, 955, 943, 947, 959, 45, 960,
      959, 955, 973, 32]"

definition payload_1_line59 :: pystr where
  "payload_1_line59 =
     [956, 943, 945, 32, 959, 956, 945, 955, 942, 32, 954, 945, 964, 945, 957, 959,
      956, 942, 32, 947, 961, 945, 956, 956, 940, 964, 969, 957, 44, 32, 945, 957,
      964, 943, 952, 949, 964, 945, 32, 956, 949, 32, 964, 959, 32, 957, 945, 32,
      946, 940, 955, 949, 953, 32, 954, 945, 957, 949, 943, 962, 32, 954, 949, 943,
      956, 949, 957, 959, 32, 972, 960, 969, 962, 32, 39, 917, 948, 974, 32, 952,
      945, 32, 956, 960, 949, 953, 32, 954, 949, 943, 956, 949, 957, 959, 44, 32,
      949, 948, 974, 32, 952, 945, 32, 956, 960, 949, 953, 32, 954, 949, 943, 956,
      949, 957, 959, 39, 44, 32]"

definition payload_1_line60 :: pystr where
  "payload_1_line60 =
     [954, 940, 957, 959, 957, 964, 940, 962, 32, 964, 959, 32, 957, 945, 32, 966,
      945, 943, 957, 949, 964, 945, 953, 32, 963, 945, 957, 32, 954, 945, 957, 959,
      957, 953, 954, 972, 32, 954, 949, 943, 956, 949, 957, 959, 46, 32, 928, 959,
      955, 955, 940, 32, 955, 959, 947, 953, 963, 956, 953, 954, 940, 32, 960, 945,
      954, 941, 964, 945, 32, 951, 955, 949, 954, 964, 961, 959, 957, 953, 954, 942,
      962, 32, 963, 949, 955, 953, 948, 959, 960, 959, 943, 951, 963, 951, 962, 32,
      954, 945, 953, 32, 949, 960, 949, 958, 949, 961, 947, 945, 963, 964, 941, 962,
      32]"

definition payload_1_line61 :: pystr where
  "payload_1_line61 =
     [953, 963, 964, 972, 964, 959, 960, 969, 957, 32, 960, 955, 941, 959, 957, 32,
      967, 961, 951, 963, 953, 956, 959, 960, 959, 953, 959, 973, 957, 32, 964, 959,
      32, 76, 111, 114, 101, 109, 32, 73, 112, 115, 117, 109, 32, 963, 945, 957,
      32, 960, 961, 959, 954, 945, 952, 959, 961, 953, 963, 956, 941, 957, 959, 32,
      948, 949, 943, 947, 956, 945, 32, 954, 949, 953, 956, 941, 957, 959, 965, 44,
      32, 954, 945, 953, 32, 951, 32, 945, 957, 945, 950, 942, 964, 951, 963, 32,
      947, 953, 945, 32, 964, 953, 962, 32, 955, 941, 958, 949, 953, 962, 32, 39,
      108, 111, 114, 101, 109, 32]"

definition payload_1_line62 :: pystr where
  "payload_1_line62 =
     [105, 112, 115, 117, 109, 39, 32, 32, 963, 964, 959, 32, 948, 953, 945, 948,
      943, 954, 964, 965, 959, 32, 952, 945, 32, 945, 960, 959, 954, 945, 955, 973,
      968, 949, 953, 32, 960, 959, 955, 955, 940, 32, 119, 101, 98, 32, 115, 105,
      116, 101, 32, 960, 959, 965, 32, 946, 961, 943, 963, 954, 959, 957, 964, 945,
      953, 32, 963, 964, 959, 32, 963, 964, 940, 948, 953, 959, 32, 964, 951, 962,
      32, 948, 951, 956, 953, 959, 965, 961, 947, 943, 945, 962, 46, 32, 916, 953,
      940, 966, 959, 961, 949, 962, 32, 949, 954, 948, 959, 967, 941, 962, 32, 941,
      967, 959, 965, 957, 32]"

definition payload_1_line63 :: pystr where
  "payload_1_line63 =
     [960, 961, 959, 954, 973, 968, 949, 953, 32, 956, 949, 32, 964, 959, 32, 960,
      941, 961, 945, 963, 956, 945, 32, 964, 969, 957, 32, 967, 961, 972, 957, 969,
      957, 44, 32, 940, 955, 955, 949, 962, 32, 966, 959, 961, 941, 962, 32, 954,
      945, 964, 940, 32, 955, 940, 952, 959, 962, 44, 32, 940, 955, 955, 949, 962,
      32, 966, 959, 961, 941, 962, 32, 963, 954, 972, 960, 953, 956, 945, 32, 40,
      956, 949, 32, 963, 954, 959, 960, 972, 32, 964, 959, 32, 967, 953, 959, 973,
      956, 959, 961, 32, 954, 945, 953, 32, 940, 955, 955, 945, 32, 963, 965, 957,
      945, 966, 942, 41, 46, 10]"

definition payload_1_line64 :: pystr where
  "payload_1_line64 =
     [913, 960, 959, 32, 960, 959, 965, 32, 960, 961, 959, 941, 961, 967, 949, 964,
      945, 953, 59, 10]"

definition payload_1_line65 :: pystr where
  "payload_1_line65 =
     [913, 957, 964, 943, 952, 949, 964, 945, 32, 956, 949, 32, 945, 965, 964, 972,
      32, 960, 959, 965, 32, 952, 949, 969, 961, 949, 943, 32, 951, 32, 960, 955,
      949, 953, 959, 968, 951, 966, 943, 945, 44, 32, 964, 959, 32, 76, 111, 114,
      101, 109, 32, 73, 112, 115, 117, 109, 32, 948, 949, 957, 32, 949, 943, 957,
      945, 953, 32, 945, 960, 955, 940, 32, 941, 957, 945, 32, 964, 965, 967, 945,
      943, 959, 32, 954, 949, 943, 956, 949, 957, 959, 46, 32, 927, 953, 32, 961,
      943, 950, 949, 962, 32, 964, 959, 965, 32, 946, 961, 943, 963, 954, 959, 957,
      964, 945, 953, 32, 963, 949, 32]"

definition payload_1_line66 :: pystr where
  "payload_1_line66 =
     [941, 957, 945, 32, 954, 949, 943, 956, 949, 957, 959, 32, 923, 945, 964, 953,
      957, 953, 954, 942, 962, 32, 955, 959, 947, 959, 964, 949, 967, 957, 943, 945,
      962, 32, 964, 959, 965, 32, 52, 53, 32, 960, 46, 935, 46, 44, 32, 966,
      964, 940, 957, 959, 957, 964, 945, 962, 32, 964, 951, 957, 32, 951, 955, 953,
      954, 943, 945, 32, 964, 959, 965, 32, 960, 940, 957, 969, 32, 945, 960, 972,
      32, 50, 48, 48, 48, 32, 941, 964, 951, 46, 32, 927, 32, 82, 105, 99,
      104, 97, 114, 100, 32, 77, 99, 67, 108, 105, 110, 116, 111, 99, 107, 44,
      32]"

definition payload_1_line67 :: pystr where
  "payload_1_line67 =
     [954, 945, 952, 951, 947, 951, 964, 942, 962, 32, 923, 945, 964, 953, 957, 953,
      954, 974, 957, 32, 963, 964, 959, 32, 954, 959, 955, 955, 941, 947, 953, 959,
      32, 72, 97, 109, 112, 100, 101, 110, 45, 68, 121, 100, 110, 101, 121, 32,
      963, 964, 951, 957, 32, 914, 953, 961, 964, 950, 943, 957, 953, 945, 44, 32,
      945, 957, 945, 950, 942, 964, 951, 963, 949, 32, 956, 943, 945, 32, 945, 960,
      972, 32, 964, 953, 962, 32, 960, 953, 959, 32, 963, 960, 940, 957, 953, 949,
      962, 32, 923, 945, 964, 953, 957, 953, 954, 941, 962, 32, 955, 941, 958, 949,
      953, 962, 44, 32]"

definition payload_1_line68 :: pystr where
  "payload_1_line68 =
     [964, 951, 957, 32, 99, 111, 110, 115, 101, 99, 116, 101, 116, 117, 114, 44,
      32, 945, 960, 972, 32, 941, 957, 945, 32, 945, 960, 972, 963, 960, 945, 963,
      956, 945, 32, 964, 959, 965, 32, 76, 111, 114, 101, 109, 32, 73, 112, 115,
      117, 109, 44, 32, 954, 945, 953, 32, 945, 957, 940, 956, 949, 963, 945, 32,
      963, 949, 32, 972, 955, 945, 32, 964, 945, 32, 941, 961, 947, 945, 32, 964,
      951, 962, 32, 954, 955, 945, 963, 963, 953, 954, 942, 962, 32, 955, 959, 947,
      959, 964, 949, 967, 957, 943, 945, 962, 44, 32, 945, 957, 945, 954, 940, 955,
      965, 968, 949, 32]"

definition payload_1_line69 :: pystr where
  "payload_1_line69 =
     [964, 951, 957, 32, 945, 957, 945, 956, 966, 953, 963, 946, 942, 964, 951, 964,
      951, 32, 960, 951, 947, 942, 32, 964, 959, 965, 46, 32, 84, 111, 32, 76,
      111, 114, 101, 109, 32, 73, 112, 115, 117, 109, 32, 960, 961, 959, 941, 961,
      967, 949, 964, 945, 953, 32, 945, 960, 972, 32, 964, 953, 962, 32, 949, 957,
      972, 964, 951, 964, 949, 962, 32, 49, 46, 49, 48, 46, 51, 50, 32, 954,
      945, 953, 32, 49, 46, 49, 48, 46, 51, 51, 32, 964, 959, 965, 32, 39,
      100, 101, 32, 70, 105, 110, 105, 98, 117, 115, 32, 66, 111, 110, 111, 114,
      117, 109, 32, 101, 116, 32]"

definition payload_1_line70 :: pystr where
  "payload_1_line70 =
     [77, 97, 108, 111, 114, 117, 109, 39, 32, 40, 932, 945, 32, 940, 954, 961,
      945, 32, 964, 959, 965, 32, 954, 945, 955, 959, 973, 32, 954, 945, 953, 32,
      964, 959, 965, 32, 954, 945, 954, 959, 973, 41, 32, 945, 960, 972, 32, 964,
      959, 957, 32, 67, 105, 99, 101, 114, 111, 32, 40, 931, 953, 963, 949, 961,
      972, 41, 44, 32, 947, 961, 945, 956, 956, 941, 957, 959, 32, 964, 959, 32,
      52, 53, 32, 960, 46, 935, 46, 32, 913, 965, 964, 972, 32, 964, 959, 32,
      946, 953, 946, 955, 943, 959, 32, 949, 943, 957, 945, 953, 32, 956, 943, 945,
      32]"

definition payload_1_line71 :: pystr where
  "payload_1_line71 =
     [948, 953, 945, 964, 961, 953, 946, 942, 32, 963, 964, 951, 957, 32, 952, 949,
      969, 961, 943, 945, 32, 964, 951, 962, 32, 919, 952, 953, 954, 942, 962, 44,
      32, 960, 959, 955, 973, 32, 948, 951, 956, 959, 966, 953, 955, 942, 962, 32,
      954, 945, 964, 940, 32, 964, 951, 957, 32, 945, 957, 945, 947, 941, 957, 957,
      951, 963, 951, 46, 32, 919, 32, 960, 961, 974, 964, 951, 32, 947, 961, 945,
      956, 956, 942, 32, 964, 959, 965, 32, 76, 111, 114, 101, 109, 32, 73, 112,
      115, 117, 109, 44, 32, 39, 76, 111, 114, 101, 109, 32, 105, 112, 115, 117,
      109, 32]"

definition payload_1_line72 :: pystr where
  "payload_1_line72 =
     [100, 111, 108, 111, 114, 32, 115, 105, 116, 32, 97, 109, 101, 116, 46, 46,
      46, 39, 44, 32, 960, 961, 959, 941, 961, 967, 949, 964, 945, 953, 32, 945,
      960, 972, 32, 956, 943, 945, 32, 947, 961, 945, 956, 956, 942, 32, 963, 964,
      951, 957, 32, 949, 957, 972, 964, 951, 964, 945, 32, 49, 46, 49, 48, 46,
      51, 50, 46]"

definition problematic_payload_1 :: pystr where
  "problematic_payload_1 =
     payload_1_line51 @
     payload_1_line52 @
     payload_1_line53 @
     payload_1_line54 @
     payload_1_line55 @
     payload_1_line56 @
     payload_1_line57 @
     payload_1_line58 @
     payload_1_line59 @
     payload_1_line60 @
     payload_1_line61 @
     payload_1_line62 @
     payload_1_line63 @
     payload_1_line64 @
     payload_1_line65 @
     payload_1_line66 @
     payload_1_line67 @
     payload_1_line68 @
     payload_1_line69 @
     payload_1_line70 @
     payload_1_line71 @
     payload_1_line72"

definition payload_2_line74 :: pystr where
  "payload_2_line74 =
     [932, 959, 32, 76, 111, 114, 101, 109, 32, 73, 112, 115, 117, 109, 32, 949,
      943, 957, 945, 953, 32, 945, 960, 955, 940, 32, 941, 957, 945, 32, 954, 949,
      943, 956, 949, 957, 959, 32, 967, 969, 961, 943, 962, 32, 957, 972, 951, 956,
      945, 32, 947, 953, 945, 32, 964, 959, 965, 962, 32, 949, 960, 945, 947, 947,
      949, 955, 956, 945, 964, 943, 949, 962, 32, 964, 951, 962, 32, 964, 965, 960,
      959, 947, 961, 945, 966, 943, 945, 962, 32]"

definition payload_2_line75 :: pystr where
  "payload_2_line75 =
     [954, 945, 953, 32, 963, 964, 959, 953, 967, 949, 953, 959, 952, 949, 963, 943,
      945, 962, 46, 32, 932, 959, 32, 76, 111, 114, 101, 109, 32, 73, 112, 115,
      117, 109, 32, 949, 943, 957, 945, 953, 32, 964, 959, 32, 949, 960, 945, 947,
      947, 949, 955, 956, 945, 964, 953, 954, 972, 32, 960, 961, 972, 964, 965, 960,
      959, 32, 972, 963, 959, 957, 32, 945, 966, 959, 961, 940, 32, 964, 959, 32,
      954, 949, 943, 956, 949, 957, 959, 32, 967, 969, 961, 943, 962, 32, 957, 972,
      951, 956, 945, 44, 32, 945, 960, 972, 32, 964, 959, 957, 32, 49, 53, 959,
      32, 945, 953, 974, 957, 945, 32]"

definition payload_2_line76 :: pystr where
  "payload_2_line76 =
     [44, 32, 972, 964, 945, 957, 32, 941, 957, 945, 962, 32, 945, 957, 974, 957,
      965, 956, 959, 962, 32, 964, 965, 960, 959, 947, 961, 940, 966, 959, 962, 32,
      960, 942, 961, 949, 32, 941, 957, 945, 32, 948, 959, 954, 943, 956, 953, 959,
      32, 954, 945, 953, 32, 945, 957, 945, 954, 940, 964, 949, 968, 949, 32, 964,
      953, 962, 32, 955, 941, 958, 949, 953, 962, 32, 947, 953, 945, 32, 957, 945,
      32, 948, 951, 956, 953, 959, 965, 961, 947, 942, 963, 949, 953, 32, 941, 957,
      945, 32, 948, 949, 943, 947, 956, 945, 32, 946, 953, 946, 955, 943, 959, 965,
      46, 32, 908, 967, 953, 32]"

definition payload_2_line77 :: pystr where
  "payload_2_line77 =
     [956, 972, 957, 959, 32, 949, 960, 953, 946, 943, 969, 963, 949, 32, 960, 941,
      957, 964, 949, 32, 945, 953, 974, 957, 949, 962, 44, 32, 945, 955, 955, 940,
      32, 954, 965, 961, 953, 940, 961, 967, 951, 963, 949, 32, 963, 964, 951, 957,
      32, 951, 955, 949, 954, 964, 961, 959, 957, 953, 954, 942, 32, 963, 964, 959,
      953, 967, 949, 953, 959, 952, 949, 963, 943, 945, 44, 32, 960, 945, 961, 945,
      956, 941, 957, 959, 957, 964, 945, 962, 32, 956, 949, 32, 954, 940, 952, 949,
      32, 964, 961, 972, 960, 959, 32, 945, 957, 945, 955, 955, 959, 943, 969, 964,
      959, 46, 32]"

definition payload_2_line78 :: pystr where
  "payload_2_line78 =
     [904, 947, 953, 957, 949, 32, 948, 951, 956, 959, 966, 953, 955, 941, 962, 32,
      964, 951, 32, 948, 949, 954, 945, 949, 964, 943, 945, 32, 964, 959, 965, 32,
      39, 54, 48, 32, 956, 949, 32, 964, 951, 957, 32, 941, 954, 948, 959, 963,
      951, 32, 964, 969, 957, 32, 948, 949, 953, 947, 956, 940, 964, 969, 957, 32,
      964, 951, 962, 32, 76, 101, 116, 114, 97, 115, 101, 116, 32, 972, 960, 959,
      965, 32, 960, 949, 961, 953, 949, 955, 940, 956, 946, 945, 957, 945, 957, 32,
      945, 960, 959, 963, 960, 940, 963, 956, 945, 964, 945, 32, 964, 959, 965, 32,
      76, 111, 114, 101, 109, 32]"

definition payload_2_line79 :: pystr where
  "payload_2_line79 =
     [73, 112, 115, 117, 109, 44, 32, 954, 945, 953, 32, 960, 953, 959, 32, 960,
      961, 972, 963, 966, 945, 964, 945, 32, 956, 949, 32, 964, 959, 32, 955, 959,
      947, 953, 963, 956, 953, 954, 972, 32, 951, 955, 949, 954, 964, 961, 959, 957,
      953, 954, 942, 962, 32, 963, 949, 955, 953, 948, 959, 960, 959, 943, 951, 963,
      951, 962, 32, 972, 960, 969, 962, 32, 964, 959, 32, 65, 108, 100, 117, 115,
      32, 80, 97, 103, 101, 77, 97, 107, 101, 114, 32, 960, 959, 965, 32, 960,
      949, 961, 953, 949, 943, 967, 945, 957, 32, 949, 954, 948, 959, 967, 941, 962,
      32, 964, 959, 965, 32]"

definition payload_2_line80 :: pystr where
  "payload_2_line80 =
     [76, 111, 114, 101, 109, 32, 73, 112, 115, 117, 109, 46, 10, 915, 953, 945,
      964, 943, 32, 964, 959, 32, 967, 961, 951, 963, 953, 956, 959, 960, 959, 953,
      959, 973, 956, 949, 59, 10, 917, 943, 957, 945, 953, 32, 960, 955, 941, 959,
      957, 32, 954, 959, 953, 957, 940, 32, 960, 945, 961, 945, 948, 949, 954, 964,
      972, 32, 972, 964, 953, 32, 941, 957, 945, 962, 32, 945, 957, 945, 947, 957,
      974, 963, 964, 951, 962, 32, 945, 960, 959, 963, 960, 940, 964, 945, 953, 32,
      945, 960, 972, 32, 964, 959, 32, 960, 949, 961, 953, 949, 967, 972, 956, 949,
      957, 959, 32]"

definition payload_2_line81 :: pystr where
  "payload_2_line81 =
     [960, 959, 965, 32, 948, 953, 945, 946, 940, 950, 949, 953, 44, 32, 972, 964,
      945, 957, 32, 949, 958, 949, 964, 940, 950, 949, 953, 32, 964, 951, 32, 948,
      953, 945, 956, 972, 961, 966, 969, 963, 951, 32, 956, 943, 945, 962, 32, 963,
      949, 955, 943, 948, 945, 962, 46, 32, 919, 32, 959, 965, 963, 943, 945, 32,
      964, 951, 962, 32, 967, 961, 942, 963, 951, 962, 32, 964, 959, 965, 32, 76,
      111, 114, 101, 109, 32, 73, 112, 115, 117, 109, 32, 949, 943, 957, 945, 953,
      32, 972, 964, 953, 32, 941, 967, 949, 953, 32, 955, 943, 947, 959, 45, 960,
      959, 955, 973, 32]"

definition payload_2_line82 :: pystr where
  "payload_2_line82 =
     [956, 943, 945, 32, 959, 956, 945, 955, 942, 32, 954, 945, 964, 945, 957, 959,
      956, 942, 32, 947, 961, 945, 956, 956, 940, 964, 969, 957, 44, 32, 945, 957,
      964, 943, 952, 949, 964, 945, 32, 956, 949, 32, 964, 959, 32, 957, 945, 32,
      946, 940, 955, 949, 953, 32, 954, 945, 957, 949, 943, 962, 32, 954, 949, 943,
      956, 949, 957, 959, 32, 972, 960, 969, 962, 32, 39, 917, 948, 974, 32, 952,
      945, 32, 956, 960, 949, 953, 32, 954, 949, 943, 956, 949, 957, 959, 44, 32,
      949, 948, 974, 32, 952, 945, 32, 956, 960, 949, 953, 32, 954, 949, 943, 956,
      949, 957, 959, 39, 44, 32]"

definition payload_2_line83 :: pystr where
  "payload_2_line83 =
     [954, 940, 957, 959, 957, 964, 940, 962, 32, 964, 959, 32, 957, 945, 32, 966,
      945, 943, 957, 949, 964, 945, 953, 32, 963, 945, 957, 32, 954, 945, 957, 959,
      957, 953, 954, 972, 32, 954, 949, 943, 956, 949, 957, 959, 46, 32, 928, 959,
      955, 955, 940, 32, 955, 959, 947, 953, 963, 956, 953, 954, 940, 32, 960, 945,
      954, 941, 964, 945, 32, 951, 955, 949, 954, 964, 961, 959, 957, 953, 954, 942,
      962, 32, 963, 949, 955, 953, 948, 959, 960, 959, 943, 951, 963, 951, 962, 32,
      954, 945, 953, 32, 949, 960, 949, 958, 949, 961, 947, 945, 963, 964, 941, 962,
      32]"

definition payload_2_line84 :: pystr where
  "payload_2_line84 =
     [953, 963, 964, 972, 964, 959, 960, 969, 957, 32, 960, 955, 941, 959, 957, 32,
      967, 961, 951, 963, 953, 956, 959, 960, 959, 953, 959, 973, 957, 32, 964, 959,
      32, 76, 111, 114, 101, 109, 32, 73, 112, 115, 117, 109, 32, 963, 945, 957,
      32, 960, 961, 959, 954, 945, 952, 959, 961, 953, 963, 956, 941, 957, 959, 32,
      948, 949, 943, 947, 956, 945, 32, 954, 949, 953, 956, 941, 957, 959, 965, 44,
      32, 954, 945, 953, 32, 951, 32, 945, 957, 945, 950, 942, 964, 951, 963, 32,
      947, 953, 945, 32, 964, 953, 962, 32, 955, 941, 958, 949, 953, 962, 32, 39,
      108, 111, 114, 101, 109, 32]"

definition payload_2_line85 :: pystr where
  "payload_2_line85 =
     [105, 112, 115, 117, 109, 39, 32, 32, 963, 964, 959, 32, 948, 953, 945, 948,
      943, 954, 964, 965, 959, 32, 952, 945, 32, 945, 960, 959, 954, 945, 955, 973,
      968, 949, 953, 32, 960, 959, 955, 955, 940, 32, 119, 101, 98, 32, 115, 105,
      116, 101, 32, 960, 959, 965, 32, 946, 961, 943, 963, 954, 959, 957, 964, 945,
      953, 32, 963, 964, 959, 32, 963, 964, 940, 948, 953, 959, 32, 964, 951, 962,
      32, 948, 951, 956, 953, 959, 965, 961, 947, 943, 945, 962, 46, 32, 916, 953,
      940, 966, 959, 961, 949, 962, 32, 949, 954, 948, 959, 967, 941, 962, 32, 941,
      967, 959, 965, 957, 32]"

definition payload_2_line86 :: pystr where
  "payload_2_line86 =
     [960, 961, 959, 954, 973, 968, 949, 953, 32, 956, 949, 32, 964, 959, 32, 960,
      941, 961, 945, 963, 956, 945, 32, 964, 969, 957, 32, 967, 961, 972, 957, 969,
      957, 44, 32, 940, 955, 955, 949, 962, 32, 966, 959, 961, 941, 962, 32, 954,
      945, 964, 940, 32, 955, 940, 952, 959, 962, 44, 32, 940, 955, 955, 949, 962,
      32, 966, 959, 961, 941, 962, 32, 963, 954, 972, 960, 953, 956, 945, 32, 40,
      956, 949, 32, 963, 954, 959, 960, 972, 32, 964, 959, 32, 967, 953, 959, 973,
      956, 959, 961, 32, 954, 945, 953, 32, 940, 955, 955, 945, 32, 963, 965, 957,
      945, 966, 942, 41, 46, 10]"

definition payload_2_line87 :: pystr where
  "payload_2_line87 =
     [913, 960, 959, 32, 960, 959, 965, 32, 960, 961, 959, 941, 961, 967, 949, 964,
      945, 953, 59, 10]"

definition payload_2_line88 :: pystr where
  "payload_2_line88 =
     [913, 957, 964, 943, 952, 949, 964, 945, 32, 956, 949, 32, 945, 965, 964, 972,
      32, 960, 959, 965, 32, 952, 949, 969, 961, 949, 943, 32, 951, 32, 960, 955,
      949, 953, 959, 968, 951, 966, 943, 945, 44, 32, 964, 959, 32, 76, 111, 114,
      101, 109, 32, 73, 112, 115, 117, 109, 32, 948, 949, 957, 32, 949, 943, 957,
      945, 953, 32, 945, 960, 955, 940, 32, 941, 957, 945, 32, 964, 965, 967, 945,
      943, 959, 32, 954, 949, 943, 956, 949, 957, 959, 46, 32, 927, 953, 32, 961,
      943, 950, 949, 962, 32, 964, 959, 965, 32, 946, 961, 943, 963, 954, 959, 957,
      964, 945, 953, 32, 963, 949, 32]"

definition payload_2_line89 :: pystr where
  "payload_2_line89 =
     [941, 957, 945, 32, 954, 949, 943, 956, 949, 957, 959, 32, 923, 945, 964, 953,
      957, 953, 954, 942, 962, 32, 955, 959, 947, 959, 964, 949, 967, 957, 943, 945,
      962, 32, 964, 959, 965, 32, 52, 53, 32, 960, 46, 935, 46, 44, 32, 966,
      964, 940, 957, 959, 957, 964, 945, 962, 32, 964, 951, 957, 32, 951, 955, 953,
      954, 943, 945, 32, 964, 959, 965, 32, 960, 940, 957, 969, 32, 945, 960, 972,
      32, 50, 48, 48, 48, 32, 941, 964, 951, 46, 32, 927, 32, 82, 105, 99,
      104, 97, 114, 100, 32, 77, 99, 67, 108, 105, 110, 116, 111, 99, 107, 44,
      32]"

definition payload_2_line90 :: pystr where
  "payload_2_line90 =
     [954, 945, 952, 951, 947, 951, 964, 942, 962, 32, 923, 945, 964, 953, 957, 953,
      954, 974, 957, 32, 963, 964, 959, 32, 954, 959, 955, 955, 941, 947, 953, 959,
      32, 72, 97, 109, 112, 100, 101, 110, 45, 68, 121, 100, 110, 101, 121, 32,
      963, 964, 951, 957, 32, 914, 953, 961, 964, 950, 943, 957, 953, 945, 44, 32,
      945, 957, 945, 950, 942, 964, 951, 963, 949, 32, 956, 943, 945, 32, 945, 960,
      972, 32, 964, 953, 962, 32, 960, 953, 959, 32, 963, 960, 940, 957, 953, 949,
      962, 32, 923, 945, 964, 953, 957, 953, 954, 941, 962, 32, 955, 941, 958, 949,
      953, 962, 44, 32]"

definition payload_2_line91 :: pystr where
  "payload_2_line91 =
     [964, 951, 957, 32, 99, 111, 110, 115, 101, 99, 116, 101, 116, 117, 114, 44,
      32, 945, 960, 972, 32, 941, 957, 945, 32, 945, 960, 972, 963, 960, 945, 963,
      956, 945, 32, 964, 959, 965, 32, 76, 111, 114, 101, 109, 32, 73, 112, 115,
      117, 109, 44, 32, 954, 945, 953, 32, 945, 957, 940, 956, 949, 963, 945, 32,
      963, 949, 32, 972, 955, 945, 32, 964, 945, 32, 941, 961, 947, 945, 32, 964,
      951, 962, 32, 954, 955, 945, 963, 963, 953, 954, 942, 962, 32, 955, 959, 947,
      959, 964, 949, 967, 957, 943, 945, 962, 44, 32, 945, 957, 945, 954, 940, 955,
      965, 968, 949, 32]"

definition payload_2_line92 :: pystr where
  "payload_2_line92 =
     [964, 951, 957, 32, 945, 957, 945, 956, 966, 953, 963, 946, 942, 964, 951, 964,
      951, 32, 960, 951, 947, 942, 32, 964, 959, 965, 46, 32, 84, 111, 32, 76,
      111, 114, 101, 109, 32, 73, 112, 115, 117, 109, 32, 960, 961, 959, 941, 961,
      967, 949, 964, 945, 953, 32, 945, 960, 972, 32, 964, 953, 962, 32, 949, 957,
      972, 964, 951, 964, 949, 962, 32, 49, 46, 49, 48, 46, 51, 50, 32, 954,
      945, 953, 32, 49, 46, 49, 48, 46, 51, 51, 32, 964, 959, 965, 32, 39,
      100, 101, 32, 70, 105, 110, 105, 98, 117, 115, 32, 66, 111, 110, 111, 114,
      117, 109, 32, 101, 116, 32]"

definition payload_2_line93 :: pystr where
  "payload_2_line93 =
     [77, 97, 108, 111, 114, 117, 109, 39, 32, 40, 932, 945, 32, 940, 954, 961,
      945, 32, 964, 959, 965, 32, 954, 945, 955, 959, 973, 32, 954, 945, 953, 32,
      964, 959, 965, 32, 954, 945, 954, 959, 973, 41, 32, 945, 960, 972, 32, 964,
      959, 957, 32, 67, 105, 99, 101, 114, 111, 32, 40, 931, 953, 963, 949, 961,
      972, 41, 44, 32, 947, 961, 945, 956, 956, 941, 957, 959, 32, 964, 959, 32,
      52, 53, 32, 960, 46, 935, 46, 32, 913, 965, 964, 972, 32, 964, 959, 32,
      946, 953, 946, 955, 943, 959, 32, 949, 943, 957, 945, 953, 32, 956, 943, 945,
      32]"

definition payload_2_line94 :: pystr where
  "payload_2_line94 =
     [948, 953, 945, 964, 961, 953, 946, 942, 32, 963, 964, 951, 957, 32, 952, 949,
      969, 961, 943, 945, 32, 964, 951, 962, 32, 919, 952, 953, 954, 942, 962, 44,
      32, 960, 959, 955, 973, 32, 948, 951, 956, 959, 966, 953, 955, 942, 962, 32,
      954, 945, 964, 940, 32, 964, 951, 957, 32, 945, 957, 945, 947, 941, 957, 957,
      951, 963, 951, 46, 32, 919, 32, 960, 961, 974, 964, 951, 32, 947, 961, 945,
      956, 956, 942, 32, 964, 959, 965, 32, 76, 111, 114, 101, 109, 32, 73, 112,
      115, 117, 109, 44, 32, 39, 76, 111, 114, 101, 109, 32, 105, 112, 115, 117,
      109, 32]"

definition payload_2_line95 :: pystr where
  "payload_2_line95 =
     [100, 111, 108, 111, 114, 32, 115, 105, 116, 32, 97, 109, 101, 116, 46, 46,
      46, 39, 44, 32, 960, 961, 959, 941, 961, 967, 949, 964, 945, 953, 32, 945,
      960, 972, 32, 956, 943, 945, 32, 947, 961, 945, 956, 956, 942, 32, 963, 964,
      951, 957, 32, 949, 957, 972, 964, 951, 964, 945, 32, 49, 46, 49, 48, 46,
      51, 50, 46, 10, 928, 959, 965, 32, 956, 960, 959, 961, 974, 32, 957, 945,
      32, 946, 961, 974, 32, 956, 949, 961, 953, 954, 941, 962, 59, 10, 933, 960,
      940, 961, 967, 959, 965, 957, 32, 960, 959, 955, 955, 941, 962, 32]"

definition payload_2_line96 :: pystr where
  "payload_2_line96 =
     [949, 954, 948, 959, 967, 941, 962, 32, 964, 969, 957, 32, 945, 960, 959, 963,
      960, 945, 963, 956, 940, 964, 969, 957, 32, 964, 959, 965, 32, 76, 111, 114,
      101, 109, 32, 73, 112, 115, 117, 109, 32, 948, 953, 945, 952, 941, 963, 953,
      956, 949, 962, 44, 32, 945, 955, 955, 940, 32, 951, 32, 960, 955, 949, 953,
      959, 968, 951, 966, 943, 945, 32, 964, 959, 965, 962, 32, 941, 967, 949, 953,
      32, 948, 949, 967, 952, 949, 943, 32, 954, 940, 960, 959, 953, 945, 962, 32,
      956, 959, 961, 966, 942, 962, 32, 945, 955, 955, 959, 953, 974, 963, 949, 953,
      962, 44, 32, 956, 949, 32]"

definition payload_2_line97 :: pystr where
  "payload_2_line97 =
     [949, 957, 963, 969, 956, 945, 964, 969, 956, 941, 957, 959, 965, 962, 32, 945,
      963, 964, 949, 949, 953, 963, 956, 959, 973, 962, 44, 32, 942, 32, 964, 965,
      967, 945, 943, 949, 962, 32, 955, 941, 958, 949, 953, 962, 32, 960, 959, 965,
      32, 948, 949, 957, 32, 947, 943, 957, 959, 957, 964, 945, 953, 32, 954, 945,
      957, 32, 960, 953, 963, 964, 949, 965, 964, 941, 962, 46, 32, 917, 940, 957,
      32, 960, 961, 972, 954, 949, 953, 964, 945, 953, 32, 957, 945, 32, 967, 961,
      951, 963, 953, 956, 959, 960, 959, 953, 942, 963, 949, 964, 949, 32, 941, 957,
      945, 32]"

definition payload_2_line98 :: pystr where
  "payload_2_line98 =
     [954, 959, 956, 956, 940, 964, 953, 32, 964, 959, 965, 32, 76, 111, 114, 101,
      109, 32, 73, 112, 115, 117, 109, 44, 32, 960, 961, 941, 960, 949, 953, 32,
      957, 945, 32, 949, 943, 963, 964, 949, 32, 946, 941, 946, 945, 953, 959, 953,
      32, 960, 969, 962, 32, 948, 949, 957, 32, 946, 961, 943, 963, 954, 949, 964,
      945, 953, 32, 954, 940, 964, 953, 32, 960, 961, 959, 963, 946, 955, 951, 964,
      953, 954, 972, 32, 954, 961, 965, 956, 956, 941, 957, 959, 32, 956, 941, 963,
      945, 32, 963, 964, 959, 32, 954, 949, 943, 956, 949, 957, 959, 46, 32, 908,
      955, 949, 962, 32, 959, 953, 32]"

definition payload_2_line99 :: pystr where
  "payload_2_line99 =
     [947, 949, 957, 957, 942, 964, 961, 953, 949, 962, 32, 76, 111, 114, 101, 109,
      32, 73, 112, 115, 117, 109, 32, 963, 964, 959, 32, 948, 953, 945, 948, 943,
      954, 964, 965, 959, 32, 964, 949, 943, 957, 959, 965, 957, 32, 957, 945, 32,
      949, 960, 945, 957, 945, 955, 945, 956, 946, 940, 957, 959, 965, 957, 32, 960,
      961, 959, 954, 945, 952, 959, 961, 953, 963, 956, 941, 957, 945, 32, 954, 959,
      956, 956, 940, 964, 953, 945, 32, 964, 959, 965, 32, 76, 111, 114, 101, 109,
      32, 73, 112, 115, 117, 109, 32, 954, 945, 964, 940, 32, 945, 960, 945, 943,
      964, 951, 963, 951, 44, 32]"

definition payload_2_line100 :: pystr where
  "payload_2_line100 =
     [954, 945, 952, 953, 963, 964, 974, 957, 945, 962, 32, 964, 951, 957, 32, 960,
      945, 961, 959, 973, 963, 945, 32, 947, 949, 957, 957, 942, 964, 961, 953, 945,
      32, 964, 951, 957, 32, 960, 961, 974, 964, 951, 32, 960, 961, 945, 947, 956,
      945, 964, 953, 954, 942, 32, 947, 949, 957, 957, 942, 964, 961, 953, 945, 32,
      963, 964, 959, 32, 948, 953, 945, 948, 943, 954, 964, 965, 959, 46, 32, 935,
      961, 951, 963, 953, 956, 959, 960, 959, 953, 949, 943, 32, 941, 957, 945, 32,
      955, 949, 958, 953, 954, 972, 32, 956, 949, 32, 960, 940, 957, 969, 32, 945,
      960, 972, 32, 50, 48, 48, 32]"

definition payload_2_line101 :: pystr where
  "payload_2_line101 =
     [955, 945, 964, 953, 957, 953, 954, 941, 962, 32, 955, 941, 958, 949, 953, 962,
      44, 32, 963, 965, 957, 948, 965, 945, 963, 956, 941, 957, 949, 962, 32, 956,
      949, 32, 941, 957, 945, 32, 949, 973, 967, 961, 951, 963, 964, 959, 32, 956,
      959, 957, 964, 941, 955, 959, 32, 963, 973, 957, 964, 945, 958, 951, 962, 32,
      960, 961, 959, 964, 940, 963, 949, 969, 957, 44, 32, 974, 963, 964, 949, 32,
      957, 945, 32, 960, 945, 961, 940, 947, 949, 953, 32, 76, 111, 114, 101, 109,
      32, 73, 112, 115, 117, 109, 32, 960, 959, 965, 32, 948, 949, 943, 967, 957,
      949, 953, 32]"

definition payload_2_line102 :: pystr where
  "payload_2_line102 =
     [955, 959, 947, 953, 954, 972, 46, 32, 913, 960, 972, 32, 949, 954, 949, 943,
      32, 954, 945, 953, 32, 960, 941, 961, 945, 44, 32, 964, 959, 32, 76, 111,
      114, 101, 109, 32, 73, 112, 115, 117, 109, 32, 960, 945, 961, 945, 956, 941,
      957, 949, 953, 32, 960, 940, 957, 964, 945, 32, 945, 957, 959, 953, 967, 964,
      972, 32, 963, 949, 32, 949, 960, 945, 957, 945, 955, 942, 968, 949, 953, 962,
      44, 32, 949, 957, 963, 969, 956, 940, 964, 969, 963, 951, 32, 967, 953, 959,
      973, 956, 959, 961, 44, 32, 956, 951, 32, 954, 945, 964, 945, 957, 959, 951,
      964, 941, 962, 32]"

definition payload_2_line103 :: pystr where
  "payload_2_line103 =
     [955, 941, 958, 949, 953, 962, 32, 954, 955, 960, 46]"

definition payload_2_line104 :: pystr where
  "payload_2_line104 =
     [932, 959, 32, 954, 945, 952, 953, 949, 961, 969, 956, 941, 957, 959, 32, 954,
      959, 956, 956, 940, 964, 953, 32, 964, 959, 965, 32, 76, 111, 114, 101, 109,
      32, 73, 112, 115, 117, 109, 32, 960, 959, 965, 32, 967, 961, 951, 963, 953,
      956, 959, 960, 959, 953, 949, 943, 964, 945, 953, 32, 945, 960, 972, 32, 964,
      959, 957, 32, 49, 53, 959, 32, 945, 953, 974, 957, 945, 32, 945, 957, 945,
      960, 945, 961, 940, 947, 949, 964, 945, 953, 32, 960, 945, 961, 945, 954, 940,
      964, 969, 32, 947, 953, 945, 32, 945, 965, 964, 959, 973, 962, 32, 960, 959,
      965, 32]"

definition payload_2_line105 :: pystr where
  "payload_2_line105 =
     [949, 957, 948, 953, 945, 966, 941, 961, 959, 957, 964, 945, 953, 46, 32, 927,
      953, 32, 949, 957, 972, 964, 951, 964, 949, 962, 32, 49, 46, 49, 48, 46,
      51, 50, 32, 954, 945, 953, 32, 49, 46, 49, 48, 46, 51, 51, 32, 945,
      960, 972, 32, 964, 959, 32, 100, 101, 32, 70, 105, 110, 105, 98, 117, 115,
      32, 66, 111, 110, 111, 114, 117, 109, 32, 101, 116, 32, 77, 97, 108, 111,
      114, 117, 109, 39, 32, 945, 960, 972, 32, 964, 959, 957, 32, 931, 953, 963,
      949, 961, 972, 32, 949, 960, 943, 963, 951, 962, 32]"

definition payload_2_line106 :: pystr where
  "payload_2_line106 =
     [945, 957, 945, 960, 945, 961, 940, 947, 959, 957, 964, 945, 953, 32, 963, 964,
      951, 957, 32, 945, 954, 961, 953, 946, 942, 32, 945, 965, 952, 949, 957, 964,
      953, 954, 942, 32, 964, 959, 965, 962, 32, 956, 959, 961, 966, 942, 44, 32,
      963, 965, 957, 959, 948, 949, 965, 972, 956, 949, 957, 949, 962, 32, 945, 960,
      972, 32, 913, 947, 947, 955, 953, 954, 941, 962, 32, 949, 954, 948, 959, 967,
      941, 962, 32, 945, 960, 972, 32, 964, 951, 957, 32, 956, 949, 964, 940, 966,
      961, 945, 963, 951, 32, 964, 959, 965, 32, 49, 57, 49, 52, 32]"

definition payload_2_line107 :: pystr where
  "payload_2_line107 =
     [945, 960, 972, 32, 964, 959, 957, 32, 72, 46, 32, 82, 97, 99, 107, 104,
      97, 109, 46]"

definition problematic_payload_2 :: pystr where
  "problematic_payload_2 =
     payload_2_line74 @
     payload_2_line75 @
     payload_2_line76 @
     payload_2_line77 @
     payload_2_line78 @
     payload_2_line79 @
     payload_2_line80 @
     payload_2_line81 @
     payload_2_line82 @
     payload_2_line83 @
     payload_2_line84 @
     payload_2_line85 @
     payload_2_line86 @
     payload_2_line87 @
     payload_2_line88 @
     payload_2_line89 @
     payload_2_line90 @
     payload_2_line91 @
     payload_2_line92 @
     payload_2_line93 @
     payload_2_line94 @
     payload_2_line95 @
     payload_2_line96 @
     payload_2_line97 @
     payload_2_line98 @
     payload_2_line99 @
     payload_2_line100 @
     payload_2_line101 @
     payload_2_line102 @
     payload_2_line103 @
     payload_2_line104 @
     payload_2_line105 @
     payload_2_line106 @
     payload_2_line107"

lemmas payload_1_parts = problematic_payload_1_def payload_1_line51_def payload_1_line52_def payload_1_line53_def payload_1_line54_def payload_1_line55_def payload_1_line56_def payload_1_line57_def payload_1_line58_def payload_1_line59_def payload_1_line60_def payload_1_line61_def payload_1_line62_def payload_1_line63_def payload_1_line64_def payload_1_line65_def payload_1_line66_def payload_1_line67_def payload_1_line68_def payload_1_line69_def payload_1_line70_def payload_1_line71_def payload_1_line72_def

lemmas payload_2_parts = problematic_payload_2_def payload_2_line74_def payload_2_line75_def payload_2_line76_def payload_2_line77_def payload_2_line78_def payload_2_line79_def payload_2_line80_def payload_2_line81_def payload_2_line82_def payload_2_line83_def payload_2_line84_def payload_2_line85_def payload_2_line86_def payload_2_line87_def payload_2_line88_def payload_2_line89_def payload_2_line90_def payload_2_line91_def payload_2_line92_def payload_2_line93_def payload_2_line94_def payload_2_line95_def payload_2_line96_def payload_2_line97_def payload_2_line98_def payload_2_line99_def payload_2_line100_def payload_2_line101_def payload_2_line102_def payload_2_line103_def payload_2_line104_def payload_2_line105_def payload_2_line106_def payload_2_line107_def

lemma payload_2_encodable: "list_all encodable problematic_payload_2"
  by (simp add: payload_2_parts encodable_def is_surrogate_def)

lemma payload_1_prefix_2: "prefix problematic_payload_1 problematic_payload_2"
  by (simp add: payload_1_parts payload_2_parts)

end
