(* ===== verification/FileText.thy ===== *)
theory FileText
  imports Utf8
begin

text \<open>
  Reading the test-case files of \<open>src/src/main_file_based.py\<close>:
  \<open>open(name, "rt", encoding="utf-8").read()\<close> on a file system given as a map
  from names to byte contents, with the strict decoder of theory \<open>Utf8\<close> and
  text mode's universal-newline translation. The lemmas give the round trip of a
  well-formed file and the effect of the translation on the payload's size.
\<close>

subsection \<open>Reading a text file\<close>

text \<open>
  Text mode's universal newlines on reading: \<open>\r\n\<close> and a lone \<open>\r\<close> both become
  \<open>\n\<close>.
\<close>

fun translate_newlines :: "pystr \<Rightarrow> pystr" where
  "translate_newlines [] = []"
| "translate_newlines [c] = [if c = 13 then 10 else c]"
| "translate_newlines (c # d # cs) =
     (if c = 13 \<and> d = 10 then 10 # translate_newlines cs
      else (if c = 13 then 10 else c) # translate_newlines (d # cs))"

text \<open>The number of \<open>\r\n\<close> pairs the translation reads as one \<open>\n\<close>.\<close>

fun crlf_pairs :: "pystr \<Rightarrow> nat" where
  "crlf_pairs [] = 0"
| "crlf_pairs [c] = 0"
| "crlf_pairs (c # d # cs) = (if c = 13 \<and> d = 10 then Suc (crlf_pairs cs) else crlf_pairs (d # cs))"

type_synonym files = "string \<Rightarrow> pybytes option"

text \<open>\<open>with open(name, "rt", encoding="utf-8") as fd: fd.read()\<close>.\<close>

definition read_text :: "files \<Rightarrow> string \<Rightarrow> py_error + pystr" where
  "read_text fs name =
     (case fs name of
       None \<Rightarrow> Inl FileNotFoundError
     | Some bs \<Rightarrow> (case utf8_decode bs of Inl e \<Rightarrow> Inl e | Inr s \<Rightarrow> Inr (translate_newlines s)))"

subsection \<open>Lemmas\<close>

lemma translate_newlines_no_cr: "13 \<notin> set s \<Longrightarrow> translate_newlines s = s"
  by (induction s rule: translate_newlines.induct) auto

lemma utf8_size_translate_newlines:
  "utf8_size (translate_newlines s) + crlf_pairs s = utf8_size s"
  by (induction s rule: translate_newlines.induct) (auto simp: char_size_def)

lemma read_text_enc:
  "list_all encodable s \<Longrightarrow> 13 \<notin> set s \<Longrightarrow> fs name = Some (concat (map enc_char s))
     \<Longrightarrow> read_text fs name = Inr s"
  by (simp add: read_text_def utf8_decode_concat_enc translate_newlines_no_cr)

text \<open>
  C21. Round trip of the file-based payloads: a file holding the UTF-8 encoding of
  a text without carriage returns reads back as exactly that text.
\<close>

theorem read_text_roundtrip:
  assumes "list_all encodable s" and "13 \<notin> set s" and "fs name = Some (concat (map enc_char s))"
  shows "read_text fs name = Inr s"
  using assms by (rule read_text_enc)

theorem read_text_roundtrip_witness:
  "list_all encodable [0x3B1, 0x3B2] \<and> (13::nat) \<notin> set [0x3B1, 0x3B2]
   \<and> (\<lambda>n. Some (concat (map enc_char [0x3B1, 0x3B2]))) ''testcase1.txt'' = Some (concat (map enc_char [0x3B1, 0x3B2]))
   \<and> read_text (\<lambda>n. Some (concat (map enc_char [0x3B1, 0x3B2]))) ''testcase1.txt'' = Inr [0x3B1, 0x3B2]"
proof -
  have h: "list_all encodable [0x3B1, 0x3B2]" "(13::nat) \<notin> set [0x3B1, 0x3B2]"
    "(\<lambda>n. Some (concat (map enc_char [0x3B1, 0x3B2]))) ''testcase1.txt'' = Some (concat (map enc_char [0x3B1, 0x3B2]))"
    by (simp_all add: encodable_def is_surrogate_def)
  show ?thesis using read_text_roundtrip [OF h] h by simp
qed

text \<open>
  C28. Text mode changes the payload's size: a test-case file that decodes reads
  back with each \<open>\r\n\<close> pair turned into \<open>\n\<close>, so the text that
  \<open>main_file_based.py\<close> saves occupies exactly as many UTF-8 bytes fewer than the
  file as the file has \<open>\r\n\<close> pairs.
\<close>

theorem read_text_size:
  assumes "fs name = Some B" and "utf8_decode B = Inr s"
  shows "read_text fs name = Inr (translate_newlines s)
         \<and> utf8_size (translate_newlines s) + crlf_pairs s = length B"
proof -
  have "length B = utf8_size s" using utf8_decode_reencode [OF assms(2)] by auto
  then show ?thesis using assms utf8_size_translate_newlines [of s] by (simp add: read_text_def)
qed

theorem read_text_size_witness:
  "(\<lambda>n. Some [0x61, 0x0D, 0x0A, 0x62 :: byte]) ''testcase1.txt'' = Some [0x61, 0x0D, 0x0A, 0x62]
   \<and> utf8_decode [0x61, 0x0D, 0x0A, 0x62] = Inr [0x61, 13, 10, 0x62]
   \<and> read_text (\<lambda>n. Some [0x61, 0x0D, 0x0A, 0x62]) ''testcase1.txt'' = Inr [0x61, 10, 0x62]
   \<and> utf8_size [0x61, 10, 0x62] + 1 = 4"
proof -
  have d: "utf8_decode [0x61, 0x0D, 0x0A, 0x62] = Inr [0x61, 13, 10, 0x62]" by simp
  have f: "(\<lambda>n. Some [0x61, 0x0D, 0x0A, 0x62 :: byte]) ''testcase1.txt'' = Some [0x61, 0x0D, 0x0A, 0x62]"
    by simp
  show ?thesis using read_text_size [OF f d] d by simp
qed

end
