(* ===== verification/Scripts.thy ===== *)
theory Scripts
  imports Truncate Payloads FileText
begin

text \<open>
  The three demonstration scripts, \<open>src/src/main.py\<close>, \<open>src/src/main_fix.py\<close> and
  \<open>src/src/main_file_based.py\<close>: credential loading from the environment, the
  connection bootstrap, the payloads, and the guarded \<open>save()\<close> calls with their
  \<open>except\<close> clauses. The database is an external service reached through an
  interface (\<open>neo4j_service\<close>) whose state type is a parameter: every lemma about
  a script holds for any service, and a reference service with a unique index is
  given for concrete runs. A run records what the script writes to standard error,
  the service's state, and the calls it made to the service, in order.
\<close>

subsection \<open>Exceptions, entities, the service interface\<close>

text \<open>
  The Neo4j exceptions the scripts meet: \<open>ServiceUnavailable\<close> from the driver,
  \<open>DatabaseError\<close> (caught by every \<open>save()\<close>), and any other server error such
  as a constraint violation (a \<open>ClientError\<close>, never caught).
\<close>

datatype neo4j_error = ServiceUnavailable | DatabaseError string | ClientError string

datatype exc = PyExc py_error | Neo4jExc neo4j_error

text \<open>\<open>class SomeEntity(neomodel.StructuredNode)\<close>: \<open>serial_num\<close> is left to neomodel's default.\<close>

record some_entity =
  serial_num :: "string option"
  payload :: py_value

definition new_entity :: "py_value \<Rightarrow> some_entity" where
  "new_entity v = \<lparr>serial_num = None, payload = v\<rparr>"

datatype call = SetConnection string | Save some_entity

text \<open>
  The persistence service: \<open>neomodel.db.set_connection(url)\<close> and
  \<open>entity.save()\<close>. Each may raise, and each may change the server's state even
  when it does not raise (the silent index corruption the scripts demonstrate).
\<close>

record 'db neo4j_service =
  set_connection :: "string \<Rightarrow> 'db \<Rightarrow> neo4j_error option \<times> 'db"
  save_node :: "some_entity \<Rightarrow> 'db \<Rightarrow> neo4j_error option \<times> 'db"

record 'db proc =
  stderr :: string
  db :: 'db
  calls :: "call list"

text \<open>A run goes on, has called \<open>sys.exit(n)\<close>, or has died of an uncaught exception.\<close>

datatype 'db run = Running "'db proc" | Exited nat "'db proc" | Raised exc "'db proc"

type_synonym env = "string \<Rightarrow> string option"

subsection \<open>The messages\<close>

definition nl :: string where
  "nl = [CHR 0x0A]"

definition credentials_error_msg :: string where
  "credentials_error_msg =
     ''ERROR: Please make sure that the NEO4J_USERNAME and NEO4J_PASSWORD environment variables''
     @ '' have been properly set for this session by using `export NEO4J_USERNAME=something`''
     @ '' and `export NEO4J_PASSWORD=something_else`.'' @ nl"

definition server_down_msg :: string where
  "server_down_msg = ''ERROR: Please make sure that your Neo4j server is up and running.'' @ nl"

definition node1_failed_msg :: string where
  "node1_failed_msg = ''ERROR: Creation of Node 1 failed. (Database should require restart).'' @ nl"

text \<open>The two \<open>except DatabaseError\<close> handlers: a fixed message, or \<open>e.message\<close>.\<close>

definition report_node1 :: "string \<Rightarrow> string" where
  "report_node1 m = node1_failed_msg"

definition report_message :: "string \<Rightarrow> string" where
  "report_message m = m"

subsection \<open>The payload\<close>

definition ascii :: "string \<Rightarrow> pystr" where
  "ascii s = map of_char s"

text \<open>
  \<open>non_problematic_payload\<close>: ASCII text around the quoted Greek words for
  "Hello World" (U+03A7 U+03B1 U+03AF U+03C1 U+03B5, U+039A U+03CC U+03C3 U+03BC U+03B5).
\<close>

definition non_problematic_payload :: pystr where
  "non_problematic_payload =
     ascii ''The standard english phrase 'Hello World' translates to '' @ [0x27]
     @ [0x3A7, 0x3B1, 0x3AF, 0x3C1, 0x3B5, 0x20, 0x39A, 0x3CC, 0x3C3, 0x3BC, 0x3B5]
     @ [0x27] @ ascii '', in Greek but sounds odd, just like any other word-to-word translation does.''"

subsection \<open>Statements\<close>

definition init_proc :: "'db \<Rightarrow> 'db proc" where
  "init_proc d = \<lparr>stderr = [], db = d, calls = []\<rparr>"

text \<open>\<open>username = os.environ["NEO4J_USERNAME"]; password = os.environ["NEO4J_PASSWORD"]\<close>.\<close>

definition get_credentials :: "env \<Rightarrow> py_error + string \<times> string" where
  "get_credentials env =
     (case env ''NEO4J_USERNAME'' of
       None \<Rightarrow> Inl KeyError
     | Some username \<Rightarrow>
         (case env ''NEO4J_PASSWORD'' of
           None \<Rightarrow> Inl KeyError
         | Some password \<Rightarrow> Inr (username, password)))"

text \<open>\<open>"bolt://{}:{}@localhost:7687".format(username, password)\<close>.\<close>

definition connection_url :: "string \<Rightarrow> string \<Rightarrow> string" where
  "connection_url username password = ''bolt://'' @ username @ '':'' @ password @ ''@localhost:7687''"

text \<open>The \<open>try\<close> around \<open>set_connection\<close>: \<open>ServiceUnavailable\<close> is reported and the script goes on.\<close>

definition connect :: "'db neo4j_service \<Rightarrow> string \<Rightarrow> string \<Rightarrow> 'db proc \<Rightarrow> 'db run" where
  "connect svc username password p =
     (let url = connection_url username password;
          (r, d) = set_connection svc url (db p);
          p' = p\<lparr>db := d, calls := calls p @ [SetConnection url]\<rparr>
      in case r of
           None \<Rightarrow> Running p'
         | Some ServiceUnavailable \<Rightarrow> Running (p'\<lparr>stderr := stderr p' @ server_down_msg\<rparr>)
         | Some e \<Rightarrow> Raised (Neo4jExc e) p')"

text \<open>\<open>try: e.save() except neo4j.exceptions.DatabaseError: ...\<close>\<close>

definition try_save :: "'db neo4j_service \<Rightarrow> (string \<Rightarrow> string) \<Rightarrow> some_entity \<Rightarrow> 'db proc \<Rightarrow> 'db run" where
  "try_save svc on_database_error e p =
     (let (r, d) = save_node svc e (db p);
          p' = p\<lparr>db := d, calls := calls p @ [Save e]\<rparr>
      in case r of
           None \<Rightarrow> Running p'
         | Some (DatabaseError m) \<Rightarrow> Running (p'\<lparr>stderr := stderr p' @ on_database_error m\<rparr>)
         | Some e' \<Rightarrow> Raised (Neo4jExc e') p')"

text \<open>
  \<open>try: SomeEntity(payload=trim_string_at_unicode_boundaries(s, limit)).save() except ...\<close>:
  an exception of the truncator is raised inside the \<open>try\<close> but is no
  \<open>DatabaseError\<close>, so it is not caught.
\<close>

definition try_save_trimmed ::
  "'db neo4j_service \<Rightarrow> (string \<Rightarrow> string) \<Rightarrow> pystr \<Rightarrow> int \<Rightarrow> 'db proc \<Rightarrow> 'db run" where
  "try_save_trimmed svc on_database_error s limit p =
     (case trim_string_at_unicode_boundaries s limit of
       Inl e \<Rightarrow> Raised (PyExc e) p
     | Inr v \<Rightarrow> try_save svc on_database_error (new_entity v) p)"

text \<open>Statements run in order until one exits or raises.\<close>

definition then_run :: "'db run \<Rightarrow> ('db proc \<Rightarrow> 'db run) \<Rightarrow> 'db run" where
  "then_run r f = (case r of Running p \<Rightarrow> f p | _ \<Rightarrow> r)"

fun run_steps :: "'db run \<Rightarrow> ('db proc \<Rightarrow> 'db run) list \<Rightarrow> 'db run" where
  "run_steps r [] = r"
| "run_steps r (f # fs) = run_steps (then_run r f) fs"

text \<open>The process's exit status: 0 at the end of the script, \<open>n\<close> after \<open>sys.exit(n)\<close>, 1 after a traceback.\<close>

fun exit_code :: "'db run \<Rightarrow> nat" where
  "exit_code (Running p) = 0"
| "exit_code (Exited n p) = n"
| "exit_code (Raised e p) = 1"

fun final_proc :: "'db run \<Rightarrow> 'db proc" where
  "final_proc (Running p) = p"
| "final_proc (Exited n p) = p"
| "final_proc (Raised e p) = p"


subsection \<open>The scripts\<close>

text \<open>
  \<open>src/src/main.py\<close>, scenario 1 (scenario 2 is commented out in the source). The
  body is stated over the long literal (parameter \<open>long_payload_1\<close>), so that
  lemmas hold for any payload; \<open>main_py\<close> below puts the literal
  \<open>problematic_payload_1\<close> of theory \<open>Payloads\<close> in place.
\<close>

definition main_script :: "'db neo4j_service \<Rightarrow> env \<Rightarrow> pystr \<Rightarrow> 'db \<Rightarrow> 'db run" where
  "main_script svc env long_payload_1 db0 =
     (case get_credentials env of
       Inl _ \<Rightarrow> Exited 1 ((init_proc db0)\<lparr>stderr := credentials_error_msg\<rparr>)
     | Inr (username, password) \<Rightarrow>
         run_steps (connect svc username password (init_proc db0))
           [try_save svc report_node1 (new_entity (PyStr non_problematic_payload)),
            try_save svc report_message (new_entity (PyStr long_payload_1))])"

text \<open>\<open>src/src/main_fix.py\<close>: the two long payloads are trimmed to 4000 bytes first.\<close>

definition main_fix :: "'db neo4j_service \<Rightarrow> env \<Rightarrow> pystr \<Rightarrow> pystr \<Rightarrow> 'db \<Rightarrow> 'db run" where
  "main_fix svc env long_payload_1 long_payload_2 db0 =
     (case get_credentials env of
       Inl _ \<Rightarrow> Exited 1 ((init_proc db0)\<lparr>stderr := credentials_error_msg\<rparr>)
     | Inr (username, password) \<Rightarrow>
         run_steps (connect svc username password (init_proc db0))
           [try_save svc report_node1 (new_entity (PyStr non_problematic_payload)),
            try_save_trimmed svc report_message long_payload_1 4000,
            try_save_trimmed svc report_message long_payload_2 4000])"

text \<open>
  \<open>src/src/main_file_based.py\<close>: the payloads are read from \<open>testcase1.txt\<close> and
  \<open>testcase2.txt\<close> outside any \<open>try\<close>; the second is read but not saved.
\<close>

definition main_file_based :: "'db neo4j_service \<Rightarrow> env \<Rightarrow> files \<Rightarrow> 'db \<Rightarrow> 'db run" where
  "main_file_based svc env fs db0 =
     (case get_credentials env of
       Inl _ \<Rightarrow> Exited 1 ((init_proc db0)\<lparr>stderr := credentials_error_msg\<rparr>)
     | Inr (username, password) \<Rightarrow>
         then_run (connect svc username password (init_proc db0))
           (\<lambda>p. case read_text fs ''testcase1.txt'' of
                  Inl e \<Rightarrow> Raised (PyExc e) p
                | Inr long_payload_1 \<Rightarrow>
                    (case read_text fs ''testcase2.txt'' of
                      Inl e \<Rightarrow> Raised (PyExc e) p
                    | Inr long_payload_2 \<Rightarrow>
                        run_steps (Running p)
                          [try_save svc report_node1 (new_entity (PyStr non_problematic_payload)),
                           try_save svc report_message (new_entity (PyStr long_payload_1))])))"

text \<open>The scripts with their literals in place.\<close>

definition main_py :: "'db neo4j_service \<Rightarrow> env \<Rightarrow> 'db \<Rightarrow> 'db run" where
  "main_py svc env db0 = main_script svc env problematic_payload_1 db0"

definition main_fix_py :: "'db neo4j_service \<Rightarrow> env \<Rightarrow> 'db \<Rightarrow> 'db run" where
  "main_fix_py svc env db0 = main_fix svc env problematic_payload_1 problematic_payload_2 db0"

subsection \<open>A reference service\<close>

text \<open>
  A server that only enforces the unique index declared by
  \<open>StringProperty(unique_index=True)\<close>: its state is the list of stored payloads,
  a second node with a stored payload is refused with a constraint error (a
  \<open>ClientError\<close>), and connecting always succeeds. It stands for none of the
  repository's code; it gives the lemmas about the scripts concrete runs.
\<close>

definition unique_index_service :: "py_value list neo4j_service" where
  "unique_index_service =
     \<lparr>set_connection = (\<lambda>url d. (None, d)),
      save_node = (\<lambda>e d. if payload e \<in> set d
                         then (Some (ClientError ''ConstraintValidationFailed''), d)
                         else (None, d @ [payload e]))\<rparr>"

definition creds_env :: env where
  "creds_env = (\<lambda>v. if v = ''NEO4J_USERNAME'' then Some ''neo4j''
                    else if v = ''NEO4J_PASSWORD'' then Some ''secret'' else None)"


text \<open>A stub server that answers every connection and every save the same way.\<close>

definition stub_service :: "neo4j_error option \<Rightarrow> neo4j_error option \<Rightarrow> unit neo4j_service" where
  "stub_service on_connect on_save =
     \<lparr>set_connection = (\<lambda>url d. (on_connect, d)), save_node = (\<lambda>e d. (on_save, d))\<rparr>"

definition calls_within :: "nat \<Rightarrow> call list \<Rightarrow> bool" where
  "calls_within lim cs =
     list_all (\<lambda>c. case c of Save e \<Rightarrow> value_size (payload e) \<le> lim | SetConnection url \<Rightarrow> True) cs"

subsection \<open>Runs\<close>

lemma then_run_simps [simp]:
  "then_run (Running p) f = f p"
  "then_run (Exited n p) f = Exited n p"
  "then_run (Raised e p) f = Raised e p"
  by (simp_all add: then_run_def)

lemma run_steps_stopped [simp]:
  "run_steps (Exited n p) fs = Exited n p"
  "run_steps (Raised e p) fs = Raised e p"
  by (induction fs) simp_all

text \<open>An invariant of the process state that every statement keeps holds at the end.\<close>

lemma run_steps_invariant:
  assumes "Q (final_proc r)"
    and "\<And>f p. f \<in> set fs \<Longrightarrow> Q p \<Longrightarrow> Q (final_proc (f p))"
  shows "Q (final_proc (run_steps r fs))"
  using assms
proof (induction fs arbitrary: r)
  case Nil
  then show ?case by simp
next
  case (Cons f fs)
  have "Q (final_proc (then_run r f))"
    using Cons.prems by (cases r) auto
  with Cons.prems show ?case by (auto intro: Cons.IH)
qed

lemma calls_within_append [simp]:
  "calls_within lim (xs @ ys) \<longleftrightarrow> calls_within lim xs \<and> calls_within lim ys"
  by (simp add: calls_within_def)

lemma calls_within_simps [simp]:
  "calls_within lim []"
  "calls_within lim [SetConnection url]"
  "calls_within lim [Save e] \<longleftrightarrow> value_size (payload e) \<le> lim"
  by (simp_all add: calls_within_def)

lemma connect_calls:
  "calls (final_proc (connect svc u pw p)) = calls p @ [SetConnection (connection_url u pw)]"
  by (simp add: connect_def Let_def split: prod.splits option.splits neo4j_error.splits)

lemma try_save_calls:
  "calls (final_proc (try_save svc h e p)) = calls p @ [Save e]"
  by (simp add: try_save_def Let_def split: prod.splits option.splits neo4j_error.splits)

lemma try_save_trimmed_calls:
  "calls (final_proc (try_save_trimmed svc h s lim p)) =
     (case trim_string_at_unicode_boundaries s lim of
        Inl e \<Rightarrow> calls p | Inr v \<Rightarrow> calls p @ [Save (new_entity v)])"
  by (simp add: try_save_trimmed_def try_save_calls split: sum.splits)

text \<open>Whatever the truncator returns for a non-negative limit fits in the limit.\<close>

lemma trim_value_size:
  assumes "trim_string_at_unicode_boundaries s b = Inr v" and "0 \<le> b"
  shows "value_size v \<le> nat b"
proof -
  have enc: "list_all encodable s"
    using assms(1) by (auto simp: trim_string_at_unicode_boundaries_def utf8_encode_eq
        split: if_splits)
  show ?thesis
  proof (cases "int (utf8_size s) \<le> b")
    case True
    with assms enc show ?thesis by (auto simp add: trim_fits)
  next
    case False
    with assms enc show ?thesis by (auto simp add: trim_truncates fit_prefix_size)
  qed
qed

lemma non_problematic_payload_size: "utf8_size non_problematic_payload = 156"
  by (simp add: non_problematic_payload_def ascii_def char_size_def)

lemma non_problematic_payload_encodable: "list_all encodable non_problematic_payload"
  by (simp add: non_problematic_payload_def ascii_def encodable_def is_surrogate_def)


text \<open>A connection attempt that succeeds or reports \<open>ServiceUnavailable\<close> lets the script go on.\<close>

lemma connect_running:
  assumes "fst (set_connection svc (connection_url u pw) (db p)) \<in> {None, Some ServiceUnavailable}"
  shows "\<exists>p'. connect svc u pw p = Running p' \<and> calls p' = calls p @ [SetConnection (connection_url u pw)]
           \<and> stderr p' = stderr p @ (if fst (set_connection svc (connection_url u pw) (db p)) = None
                                      then [] else server_down_msg)"
  using assms by (auto simp: connect_def Let_def split: prod.splits)

text \<open>A save that succeeds or raises \<open>DatabaseError\<close> lets the script go on.\<close>

lemma try_save_running:
  assumes "fst (save_node svc e (db p)) = None \<or> (\<exists>m. fst (save_node svc e (db p)) = Some (DatabaseError m))"
  shows "\<exists>p'. try_save svc h e p = Running p' \<and> calls p' = calls p @ [Save e]
           \<and> stderr p' = stderr p @ (case fst (save_node svc e (db p)) of
                                       Some (DatabaseError m) \<Rightarrow> h m | _ \<Rightarrow> [])"
  using assms by (auto simp: try_save_def Let_def split: prod.splits)

lemma trim_returns:
  assumes "list_all encodable s" and "0 \<le> b"
  shows "\<exists>v. trim_string_at_unicode_boundaries s b = Inr v"
  using assms trim_truncates [of s b] trim_fits [of s b] by (cases "int (utf8_size s) \<le> b") auto

section \<open>Properties of the scripts\<close>

text \<open>
  C14. Missing credentials: if either environment variable is unset, each of the
  three scripts writes the credentials message to standard error and exits with
  status 1 before calling the service.
\<close>

theorem credentials_missing_exit:
  assumes "env ''NEO4J_USERNAME'' = None \<or> env ''NEO4J_PASSWORD'' = None"
  shows "main_script svc env p1 db0 = Exited 1 ((init_proc db0)\<lparr>stderr := credentials_error_msg\<rparr>)
       \<and> main_fix svc env p1 p2 db0 = Exited 1 ((init_proc db0)\<lparr>stderr := credentials_error_msg\<rparr>)
       \<and> main_file_based svc env fs db0 = Exited 1 ((init_proc db0)\<lparr>stderr := credentials_error_msg\<rparr>)"
proof -
  have "get_credentials env = Inl KeyError"
    using assms by (auto simp: get_credentials_def split: option.splits)
  then show ?thesis by (simp add: main_script_def main_fix_def main_file_based_def)
qed

theorem credentials_missing_exit_witness:
  "((\<lambda>v. None) ''NEO4J_USERNAME'' = (None :: string option) \<or> (\<lambda>v. None) ''NEO4J_PASSWORD'' = (None :: string option))
   \<and> exit_code (main_fix unique_index_service (\<lambda>v. None) [] [] []) = 1
   \<and> calls (final_proc (main_fix unique_index_service (\<lambda>v. None) [] [] [])) = []"
  using credentials_missing_exit [of "\<lambda>v. None" unique_index_service "[]" "[]" "[]" "\<lambda>n. None"]
  by (simp add: init_proc_def)

text \<open>
  C15. The mitigation: whatever the service, the environment and the two long
  payloads, every node \<open>main_fix.py\<close> hands to \<open>save()\<close> carries a payload of at
  most 4000 bytes.
\<close>

theorem main_fix_payload_bound:
  "calls_within 4000 (calls (final_proc (main_fix svc env p1 p2 db0)))"
proof (cases "get_credentials env")
  case (Inl e)
  then show ?thesis by (simp add: main_fix_def init_proc_def)
next
  case (Inr c)
  obtain u pw where c: "c = (u, pw)" by (cases c)
  let ?Q = "\<lambda>p. calls_within 4000 (calls p)"
  have start: "?Q (final_proc (connect svc u pw (init_proc db0)))"
    by (simp add: connect_calls init_proc_def)
  have "?Q (final_proc (f p))" if "f \<in> set
      [try_save svc report_node1 (new_entity (PyStr non_problematic_payload)),
       try_save_trimmed svc report_message p1 4000,
       try_save_trimmed svc report_message p2 4000]" and "?Q p" for f p
    using that trim_value_size [of _ 4000]
    by (auto simp: try_save_calls try_save_trimmed_calls new_entity_def
        non_problematic_payload_size split: sum.splits)
  with start have "?Q (final_proc (run_steps (connect svc u pw (init_proc db0))
      [try_save svc report_node1 (new_entity (PyStr non_problematic_payload)),
       try_save_trimmed svc report_message p1 4000,
       try_save_trimmed svc report_message p2 4000]))"
    by (rule run_steps_invariant)
  with Inr c show ?thesis by (simp add: main_fix_def)
qed


text \<open>
  C16. Why the third save of \<open>main_fix.py\<close> "HAS TO fail": when the first long
  payload is a prefix of the second and already exceeds 4000 bytes (as the two
  literals are: 4076 and 6198 bytes), both trim to the same text. Against a server
  that enforces the unique index, the third \<open>save()\<close> is refused with a constraint
  error that the \<open>except DatabaseError\<close> clause does not catch.
\<close>

theorem main_fix_trimmed_payloads_collide:
  assumes "prefix p1 p2" and "list_all encodable p2" and "4000 < utf8_size p1"
  shows "\<exists>p. main_fix unique_index_service creds_env p1 p2 [] =
              Raised (Neo4jExc (ClientError ''ConstraintValidationFailed'')) p
          \<and> stderr p = []
          \<and> calls p = [SetConnection (connection_url ''neo4j'' ''secret''),
                       Save (new_entity (PyStr non_problematic_payload)),
                       Save (new_entity (PyStr (fit_prefix p1 4000))),
                       Save (new_entity (PyStr (fit_prefix p1 4000)))]"
proof -
  obtain ys where p2: "p2 = p1 @ ys" using assms(1) by (auto simp: prefix_def)
  have enc1: "list_all encodable p1" using assms(2) p2 by simp
  have t1: "trim_string_at_unicode_boundaries p1 4000 = Inr (PyStr (fit_prefix p1 4000))"
    using trim_truncates [OF enc1, of 4000] assms(3) by simp
  have "4000 < utf8_size p2" using assms(3) p2 by simp
  then have t2: "trim_string_at_unicode_boundaries p2 4000 = Inr (PyStr (fit_prefix p1 4000))"
    using trim_truncates [OF assms(2), of 4000] fit_prefix_append_over [OF assms(3)] p2 by simp
  have "4000 < utf8_size (fit_prefix p1 4000) + 4" by (rule fit_prefix_size_lower [OF assms(3)])
  then have ne: "fit_prefix p1 4000 \<noteq> non_problematic_payload"
    using non_problematic_payload_size by auto
  have cred: "get_credentials creds_env = Inr (''neo4j'', ''secret'')"
    by (simp add: get_credentials_def creds_env_def)
  show ?thesis
    using ne by (simp add: main_fix_def cred connect_def try_save_def try_save_trimmed_def
        t1 t2 unique_index_service_def new_entity_def init_proc_def Let_def)
qed

theorem main_fix_trimmed_payloads_collide_witness:
  "prefix problematic_payload_1 problematic_payload_2
   \<and> list_all encodable problematic_payload_2
   \<and> 4000 < utf8_size problematic_payload_1
   \<and> exit_code (main_fix_py unique_index_service creds_env []) = 1"
proof -
  have size: "4000 < utf8_size problematic_payload_1" by (simp add: payload_1_parts char_size_def)
  note h = payload_1_prefix_2 payload_2_encodable size
  show ?thesis using main_fix_trimmed_payloads_collide [OF h] h by (auto simp: main_fix_py_def)
qed

text \<open>
  C17. \<open>main.py\<close> has no client-side mitigation: against a service whose calls
  succeed or raise only the caught exceptions, it finishes with status 0 after
  handing the long payload to \<open>save()\<close> exactly as written, untruncated.
\<close>

theorem main_script_sends_untruncated:
  assumes cred: "get_credentials env = Inr (u, pw)"
    and conn: "\<forall>d. fst (set_connection svc (connection_url u pw) d) \<in> {None, Some ServiceUnavailable}"
    and saves: "\<forall>e d. fst (save_node svc e d) = None \<or> (\<exists>m. fst (save_node svc e d) = Some (DatabaseError m))"
  shows "exit_code (main_script svc env p1 db0) = 0
       \<and> calls (final_proc (main_script svc env p1 db0)) =
           [SetConnection (connection_url u pw), Save (new_entity (PyStr non_problematic_payload)),
            Save (new_entity (PyStr p1))]"
proof -
  obtain q1 where q1: "connect svc u pw (init_proc db0) = Running q1"
      "calls q1 = [SetConnection (connection_url u pw)]"
    using connect_running [of svc u pw "init_proc db0"] conn by (auto simp: init_proc_def)
  obtain q2 where q2: "try_save svc report_node1 (new_entity (PyStr non_problematic_payload)) q1 = Running q2"
      "calls q2 = calls q1 @ [Save (new_entity (PyStr non_problematic_payload))]"
    using try_save_running saves by blast
  obtain q3 where q3: "try_save svc report_message (new_entity (PyStr p1)) q2 = Running q3"
      "calls q3 = calls q2 @ [Save (new_entity (PyStr p1))]"
    using try_save_running saves by blast
  show ?thesis using cred q1 q2 q3 by (simp add: main_script_def)
qed

theorem main_script_sends_untruncated_witness:
  "get_credentials creds_env = Inr (''neo4j'', ''secret'')
   \<and> (\<forall>d. fst (set_connection (stub_service None None) (connection_url ''neo4j'' ''secret'') d)
          \<in> {None, Some ServiceUnavailable})
   \<and> (\<forall>e d. fst (save_node (stub_service None None) e d) = None
          \<or> (\<exists>m. fst (save_node (stub_service None None) e d) = Some (DatabaseError m)))
   \<and> calls (final_proc (main_script (stub_service None None) creds_env [0x3B1] ())) =
       [SetConnection (connection_url ''neo4j'' ''secret''),
        Save (new_entity (PyStr non_problematic_payload)), Save (new_entity (PyStr [0x3B1]))]"
proof -
  have h: "get_credentials creds_env = Inr (''neo4j'', ''secret'')"
    "\<forall>d. fst (set_connection (stub_service None None) (connection_url ''neo4j'' ''secret'') d)
          \<in> {None, Some ServiceUnavailable}"
    "\<forall>e d. fst (save_node (stub_service None None) e d) = None
          \<or> (\<exists>m. fst (save_node (stub_service None None) e d) = Some (DatabaseError m))"
    by (simp_all add: get_credentials_def creds_env_def stub_service_def)
  show ?thesis using main_script_sends_untruncated [OF h, of "[0x3B1]" "()"] h by simp
qed

text \<open>
  C18. A server that is down does not stop \<open>main_fix.py\<close>: the
  \<open>ServiceUnavailable\<close> handler writes its message and the script goes on to
  attempt all three saves, ending with status 0 (the spec's "latent gap": no retry,
  no exit).
\<close>

theorem main_fix_continues_after_unavailable:
  assumes cred: "get_credentials env = Inr (u, pw)"
    and down: "fst (set_connection svc (connection_url u pw) db0) = Some ServiceUnavailable"
    and saves: "\<forall>e d. fst (save_node svc e d) = None \<or> (\<exists>m. fst (save_node svc e d) = Some (DatabaseError m))"
    and enc: "list_all encodable p1" "list_all encodable p2"
  shows "\<exists>p. main_fix svc env p1 p2 db0 = Running p \<and> prefix server_down_msg (stderr p)
             \<and> length (calls p) = 4"
proof -
  obtain q1 where q1: "connect svc u pw (init_proc db0) = Running q1"
      "calls q1 = [SetConnection (connection_url u pw)]" "stderr q1 = server_down_msg"
    using connect_running [of svc u pw "init_proc db0"] down by (auto simp: init_proc_def)
  obtain v1 v2 where v: "trim_string_at_unicode_boundaries p1 4000 = Inr v1"
      "trim_string_at_unicode_boundaries p2 4000 = Inr v2"
    using trim_returns [OF enc(1), of 4000] trim_returns [OF enc(2), of 4000] by auto
  obtain q2 where q2: "try_save svc report_node1 (new_entity (PyStr non_problematic_payload)) q1 = Running q2"
      "calls q2 = calls q1 @ [Save (new_entity (PyStr non_problematic_payload))]"
      "\<exists>x. stderr q2 = stderr q1 @ x"
    using try_save_running [of svc _ q1] saves by blast
  obtain q3 where q3: "try_save svc report_message (new_entity v1) q2 = Running q3"
      "calls q3 = calls q2 @ [Save (new_entity v1)]" "\<exists>x. stderr q3 = stderr q2 @ x"
    using try_save_running [of svc _ q2] saves by blast
  obtain q4 where q4: "try_save svc report_message (new_entity v2) q3 = Running q4"
      "calls q4 = calls q3 @ [Save (new_entity v2)]" "\<exists>x. stderr q4 = stderr q3 @ x"
    using try_save_running [of svc _ q3] saves by blast
  have "prefix server_down_msg (stderr q4)"
    using q1(3) q2(3) q3(3) q4(3) by (auto simp: prefix_def)
  with cred q1 q2 q3 q4 v show ?thesis by (simp add: main_fix_def try_save_trimmed_def)
qed

theorem main_fix_continues_after_unavailable_witness:
  "get_credentials creds_env = Inr (''neo4j'', ''secret'')
   \<and> fst (set_connection (stub_service (Some ServiceUnavailable) None)
         (connection_url ''neo4j'' ''secret'') ()) = Some ServiceUnavailable
   \<and> (\<forall>e d. fst (save_node (stub_service (Some ServiceUnavailable) None) e d) = None
          \<or> (\<exists>m. fst (save_node (stub_service (Some ServiceUnavailable) None) e d) = Some (DatabaseError m)))
   \<and> list_all encodable [0x3B1] \<and> list_all encodable [0x3B2]
   \<and> exit_code (main_fix (stub_service (Some ServiceUnavailable) None) creds_env [0x3B1] [0x3B2] ()) = 0"
proof -
  have h: "get_credentials creds_env = Inr (''neo4j'', ''secret'')"
    "fst (set_connection (stub_service (Some ServiceUnavailable) None)
         (connection_url ''neo4j'' ''secret'') ()) = Some ServiceUnavailable"
    "\<forall>e d. fst (save_node (stub_service (Some ServiceUnavailable) None) e d) = None
          \<or> (\<exists>m. fst (save_node (stub_service (Some ServiceUnavailable) None) e d) = Some (DatabaseError m))"
    "list_all encodable [0x3B1]" "list_all encodable [0x3B2]"
    by (simp_all add: get_credentials_def creds_env_def stub_service_def encodable_def is_surrogate_def)
  show ?thesis using main_fix_continues_after_unavailable [OF h] h by auto
qed

text \<open>
  C19. In \<open>main.py\<close> a \<open>DatabaseError\<close> on a save is reported and does not stop
  the script: the first handler writes its fixed message (dropping the server's),
  the second writes the server's \<open>e.message\<close>, and the script ends with status 0.
\<close>

theorem main_script_reports_database_errors:
  assumes cred: "get_credentials env = Inr (u, pw)"
    and conn: "\<forall>d. fst (set_connection svc (connection_url u pw) d) = None"
    and saves: "\<forall>e d. fst (save_node svc e d) = Some (DatabaseError (msg e))"
  shows "exit_code (main_script svc env p1 db0) = 0
       \<and> stderr (final_proc (main_script svc env p1 db0)) = node1_failed_msg @ msg (new_entity (PyStr p1))"
proof -
  obtain q1 where q1: "connect svc u pw (init_proc db0) = Running q1" "stderr q1 = []"
    using connect_running [of svc u pw "init_proc db0"] conn by (auto simp: init_proc_def)
  obtain q2 where q2: "try_save svc report_node1 (new_entity (PyStr non_problematic_payload)) q1 = Running q2"
      "stderr q2 = stderr q1 @ node1_failed_msg"
    using try_save_running [of svc "new_entity (PyStr non_problematic_payload)" q1 report_node1] saves
    by (auto simp: report_node1_def)
  obtain q3 where q3: "try_save svc report_message (new_entity (PyStr p1)) q2 = Running q3"
      "stderr q3 = stderr q2 @ msg (new_entity (PyStr p1))"
    using try_save_running [of svc "new_entity (PyStr p1)" q2 report_message] saves
    by (auto simp: report_message_def)
  show ?thesis using cred q1 q2 q3 by (simp add: main_script_def)
qed

theorem main_script_reports_database_errors_witness:
  "get_credentials creds_env = Inr (''neo4j'', ''secret'')
   \<and> (\<forall>d. fst (set_connection (stub_service None (Some (DatabaseError ''boom''))) (connection_url ''neo4j'' ''secret'') d) = None)
   \<and> (\<forall>e d. fst (save_node (stub_service None (Some (DatabaseError ''boom''))) e d)
           = Some (DatabaseError ((\<lambda>e. ''boom'') e)))
   \<and> stderr (final_proc (main_script (stub_service None (Some (DatabaseError ''boom''))) creds_env [0x3B1] ()))
       = node1_failed_msg @ ''boom''"
proof -
  have h: "get_credentials creds_env = Inr (''neo4j'', ''secret'')"
    "\<forall>d. fst (set_connection (stub_service None (Some (DatabaseError ''boom''))) (connection_url ''neo4j'' ''secret'') d) = None"
    "\<forall>e d. fst (save_node (stub_service None (Some (DatabaseError ''boom''))) e d)
           = Some (DatabaseError ((\<lambda>e. ''boom'') e))"
    by (simp_all add: get_credentials_def creds_env_def stub_service_def)
  show ?thesis using main_script_reports_database_errors [OF h, of "[0x3B1]" "()"] h by simp
qed

text \<open>
  C20. In \<open>main_file_based.py\<close> the test-case files are read outside any
  \<open>try\<close>: when either read fails (\<open>FileNotFoundError\<close> for a missing file,
  \<open>UnicodeDecodeError\<close> for bytes that are not UTF-8), the exception kills the
  script (status 1) after the connection and before any save. This holds for
  \<open>testcase2.txt\<close> too, although its text is never saved.
\<close>

theorem main_file_based_read_error:
  assumes cred: "get_credentials env = Inr (u, pw)"
    and conn: "fst (set_connection svc (connection_url u pw) db0) \<in> {None, Some ServiceUnavailable}"
    and bad: "read_text fs ''testcase1.txt'' = Inl e
              \<or> (\<exists>t. read_text fs ''testcase1.txt'' = Inr t \<and> read_text fs ''testcase2.txt'' = Inl e)"
  shows "\<exists>p. main_file_based svc env fs db0 = Raised (PyExc e) p
             \<and> calls p = [SetConnection (connection_url u pw)]"
proof -
  obtain q1 where q1: "connect svc u pw (init_proc db0) = Running q1"
      "calls q1 = [SetConnection (connection_url u pw)]"
    using connect_running [of svc u pw "init_proc db0"] conn by (auto simp: init_proc_def)
  from bad show ?thesis
  proof
    assume "read_text fs ''testcase1.txt'' = Inl e"
    with cred q1 show ?thesis by (simp add: main_file_based_def)
  next
    assume "\<exists>t. read_text fs ''testcase1.txt'' = Inr t \<and> read_text fs ''testcase2.txt'' = Inl e"
    with cred q1 show ?thesis by (auto simp: main_file_based_def)
  qed
qed

theorem main_file_based_read_error_witness:
  "get_credentials creds_env = Inr (''neo4j'', ''secret'')
   \<and> fst (set_connection (stub_service None None) (connection_url ''neo4j'' ''secret'') ())
       \<in> {None, Some ServiceUnavailable}
   \<and> read_text (\<lambda>n. if n = ''testcase1.txt'' then Some [0x61] else Some [0xFF]) ''testcase1.txt'' = Inr [0x61]
   \<and> read_text (\<lambda>n. if n = ''testcase1.txt'' then Some [0x61] else Some [0xFF]) ''testcase2.txt''
       = Inl UnicodeDecodeError
   \<and> exit_code (main_file_based (stub_service None None) creds_env
       (\<lambda>n. if n = ''testcase1.txt'' then Some [0x61] else Some [0xFF]) ()) = 1"
proof -
  let ?fs = "\<lambda>n. if n = ''testcase1.txt'' then Some [0x61] else Some [0xFF :: byte]"
  have h: "get_credentials creds_env = Inr (''neo4j'', ''secret'')"
    "fst (set_connection (stub_service None None) (connection_url ''neo4j'' ''secret'') ())
       \<in> {None, Some ServiceUnavailable}"
    by (simp_all add: get_credentials_def creds_env_def stub_service_def)
  have r: "read_text ?fs ''testcase1.txt'' = Inr [0x61]" "read_text ?fs ''testcase2.txt'' = Inl UnicodeDecodeError"
    by (simp_all add: read_text_def)
  then have "read_text ?fs ''testcase1.txt'' = Inl UnicodeDecodeError
      \<or> (\<exists>t. read_text ?fs ''testcase1.txt'' = Inr t \<and> read_text ?fs ''testcase2.txt'' = Inl UnicodeDecodeError)"
    by blast
  from main_file_based_read_error [OF h this] h r show ?thesis by auto
qed

text \<open>
  C29. An exception of the truncator is not swallowed: if the first long payload
  of \<open>main_fix.py\<close> does not encode (a lone surrogate), \<open>bytearray(s, "utf-8")\<close>
  raises \<open>UnicodeEncodeError\<close> inside the \<open>try\<close>, the \<open>except DatabaseError\<close>
  clause does not catch it, and the script dies after the connection and the
  first save, with no further call to the server.
\<close>

theorem main_fix_truncator_error_raised:
  assumes cred: "get_credentials env = Inr (u, pw)"
    and conn: "fst (set_connection svc (connection_url u pw) db0) \<in> {None, Some ServiceUnavailable}"
    and save: "\<forall>d. fst (save_node svc (new_entity (PyStr non_problematic_payload)) d) = None
                 \<or> (\<exists>m. fst (save_node svc (new_entity (PyStr non_problematic_payload)) d) = Some (DatabaseError m))"
    and bad: "\<not> list_all encodable long_payload_1"
  shows "\<exists>p. main_fix svc env long_payload_1 long_payload_2 db0 = Raised (PyExc UnicodeEncodeError) p
             \<and> calls p = [SetConnection (connection_url u pw), Save (new_entity (PyStr non_problematic_payload))]"
proof -
  obtain q1 where q1: "connect svc u pw (init_proc db0) = Running q1"
      "calls q1 = [SetConnection (connection_url u pw)]"
    using connect_running [of svc u pw "init_proc db0"] conn by (auto simp: init_proc_def)
  obtain q2 where q2: "try_save svc report_node1 (new_entity (PyStr non_problematic_payload)) q1 = Running q2"
      "calls q2 = calls q1 @ [Save (new_entity (PyStr non_problematic_payload))]"
    using try_save_running save by blast
  have t: "trim_string_at_unicode_boundaries long_payload_1 4000 = Inl UnicodeEncodeError"
    using bad by (simp add: trim_string_at_unicode_boundaries_def utf8_encode_eq)
  show ?thesis using cred q1 q2 t by (simp add: main_fix_def try_save_trimmed_def)
qed

theorem main_fix_truncator_error_raised_witness:
  "get_credentials creds_env = Inr (''neo4j'', ''secret'')
   \<and> fst (set_connection (stub_service None None) (connection_url ''neo4j'' ''secret'') ())
       \<in> {None, Some ServiceUnavailable}
   \<and> (\<forall>d. fst (save_node (stub_service None None) (new_entity (PyStr non_problematic_payload)) d) = None
        \<or> (\<exists>m. fst (save_node (stub_service None None) (new_entity (PyStr non_problematic_payload)) d)
                = Some (DatabaseError m)))
   \<and> \<not> list_all encodable [0xD800]
   \<and> exit_code (main_fix (stub_service None None) creds_env [0xD800] [] ()) = 1"
proof -
  have h: "get_credentials creds_env = Inr (''neo4j'', ''secret'')"
    "fst (set_connection (stub_service None None) (connection_url ''neo4j'' ''secret'') ())
       \<in> {None, Some ServiceUnavailable}"
    "\<forall>d. fst (save_node (stub_service None None) (new_entity (PyStr non_problematic_payload)) d) = None
        \<or> (\<exists>m. fst (save_node (stub_service None None) (new_entity (PyStr non_problematic_payload)) d)
                = Some (DatabaseError m))"
    "\<not> list_all encodable [0xD800]"
    by (simp_all add: get_credentials_def creds_env_def stub_service_def encodable_def is_surrogate_def)
  show ?thesis using main_fix_truncator_error_raised [OF h, of "[]"] h by auto
qed

end
