(* ===== verification/Statements.thy ===== *)
theory Statements
  imports Scripts
begin

text \<open>
  The scripts' statements as syntax with a big-step semantics. A script body after
  the credential check is a list of statements: the guarded connection, guarded
  saves of a literal payload, and guarded saves of a trimmed payload, each with
  the body of its \<open>except DatabaseError\<close> clause. \<open>exec\<close> relates a statement
  list and a run to the run it ends in; it agrees with \<open>run_steps\<close>, and its
  rule induction gives the invariants of the process log.
\<close>

subsection \<open>Statements\<close>

text \<open>The two bodies of the \<open>except neo4j.exceptions.DatabaseError\<close> clauses.\<close>

datatype handler = ReportNode1 | ReportMessage

fun handler_fun :: "handler \<Rightarrow> string \<Rightarrow> string" where
  "handler_fun ReportNode1 = report_node1"
| "handler_fun ReportMessage = report_message"

datatype stmt =
  ConnectStmt string string
| SaveStmt handler py_value
| SaveTrimmedStmt handler pystr int

fun stmt_sem :: "'db neo4j_service \<Rightarrow> stmt \<Rightarrow> 'db proc \<Rightarrow> 'db run" where
  "stmt_sem svc (ConnectStmt username password) = connect svc username password"
| "stmt_sem svc (SaveStmt h v) = try_save svc (handler_fun h) (new_entity v)"
| "stmt_sem svc (SaveTrimmedStmt h s limit) = try_save_trimmed svc (handler_fun h) s limit"

text \<open>
  Statements run in order while the run goes on; after \<open>sys.exit\<close> or an uncaught
  exception the rest of the script is skipped.
\<close>

inductive exec :: "'db neo4j_service \<Rightarrow> stmt list \<Rightarrow> 'db run \<Rightarrow> 'db run \<Rightarrow> bool"
  for svc :: "'db neo4j_service" where
  Nil: "exec svc [] r r"
| Exited: "exec svc (s # ss) (Exited n p) (Exited n p)"
| Raised: "exec svc (s # ss) (Raised e p) (Raised e p)"
| Step: "exec svc ss (stmt_sem svc s p) r \<Longrightarrow> exec svc (s # ss) (Running p) r"

code_pred exec .

text \<open>The bodies of the three scripts after the credentials are read.\<close>

definition main_stmts :: "string \<Rightarrow> string \<Rightarrow> pystr \<Rightarrow> stmt list" where
  "main_stmts username password long_payload_1 =
     [ConnectStmt username password,
      SaveStmt ReportNode1 (PyStr non_problematic_payload),
      SaveStmt ReportMessage (PyStr long_payload_1)]"

definition main_fix_stmts :: "string \<Rightarrow> string \<Rightarrow> pystr \<Rightarrow> pystr \<Rightarrow> stmt list" where
  "main_fix_stmts username password long_payload_1 long_payload_2 =
     [ConnectStmt username password,
      SaveStmt ReportNode1 (PyStr non_problematic_payload),
      SaveTrimmedStmt ReportMessage long_payload_1 4000,
      SaveTrimmedStmt ReportMessage long_payload_2 4000]"

subsection \<open>The semantics\<close>

lemma exec_run_steps: "exec svc ss r (run_steps r (map (stmt_sem svc) ss))"
proof (induction ss arbitrary: r)
  case Nil
  then show ?case by (simp add: exec.Nil)
next
  case (Cons s ss)
  then show ?case by (cases r) (auto intro: exec.intros)
qed

text \<open>One statement makes at most one call to the service and only appends to standard error.\<close>

lemma stmt_sem_log:
  "\<exists>c err. calls (final_proc (stmt_sem svc s p)) = calls p @ c \<and> length c \<le> 1
           \<and> stderr (final_proc (stmt_sem svc s p)) = stderr p @ err"
proof (cases s)
  case (ConnectStmt u pw)
  then show ?thesis
    by (auto simp: connect_def Let_def split: prod.splits option.splits neo4j_error.splits)
next
  case (SaveStmt h v)
  then show ?thesis
    by (auto simp: try_save_def Let_def split: prod.splits option.splits neo4j_error.splits)
next
  case (SaveTrimmedStmt h t lim)
  then show ?thesis
    by (auto simp: try_save_trimmed_def try_save_def Let_def
             split: sum.splits prod.splits option.splits neo4j_error.splits)
qed

lemma stmt_sem_not_exited: "stmt_sem svc s p \<noteq> Exited n q"
  by (cases s) (auto simp: connect_def try_save_trimmed_def try_save_def Let_def
                      split: sum.splits prod.splits option.splits neo4j_error.splits)

lemma main_script_stmts:
  "get_credentials env = Inr (username, password) \<Longrightarrow>
     main_script svc env long_payload_1 db0
       = run_steps (Running (init_proc db0)) (map (stmt_sem svc) (main_stmts username password long_payload_1))"
  by (simp add: main_script_def main_stmts_def)

lemma main_fix_stmts_run:
  "get_credentials env = Inr (username, password) \<Longrightarrow>
     main_fix svc env long_payload_1 long_payload_2 db0
       = run_steps (Running (init_proc db0))
           (map (stmt_sem svc) (main_fix_stmts username password long_payload_1 long_payload_2))"
  by (simp add: main_fix_def main_fix_stmts_def)

lemma credentials_missing_calls:
  "get_credentials env = Inl e \<Longrightarrow> calls (final_proc (main_script svc env p1 db0)) = []
     \<and> calls (final_proc (main_fix svc env p1 p2 db0)) = []"
  by (simp add: main_script_def main_fix_def init_proc_def)

lemma exec_log:
  assumes "exec svc ss r r'"
  shows "prefix (calls (final_proc r)) (calls (final_proc r'))
         \<and> length (calls (final_proc r')) \<le> length (calls (final_proc r)) + length ss
         \<and> prefix (stderr (final_proc r)) (stderr (final_proc r'))
         \<and> ((\<exists>n q. r' = Exited n q) \<longrightarrow> r' = r)"
  using assms
proof (induction rule: exec.induct)
  case (Step ss s p r)
  obtain c err where c: "calls (final_proc (stmt_sem svc s p)) = calls p @ c" "length c \<le> 1"
      "stderr (final_proc (stmt_sem svc s p)) = stderr p @ err"
    using stmt_sem_log by blast
  have ne: "\<not> (\<exists>n q. r = Exited n q)"
  proof
    assume "\<exists>n q. r = Exited n q"
    then obtain n q where "r = Exited n q" by blast
    with Step.IH have "stmt_sem svc s p = Exited n q" by simp
    with stmt_sem_not_exited show False by blast
  qed
  from Step.IH c ne show ?case by (auto dest: append_prefixD)
qed simp_all

lemma run_steps_calls_bound:
  "length (calls (final_proc (run_steps r (map (stmt_sem svc) ss))))
     \<le> length (calls (final_proc r)) + length ss"
  using exec_log [OF exec_run_steps [of svc ss r]] by blast

text \<open>
  C25. Invariant of the process log, by rule induction on the semantics: running
  statements only appends to the calls made and to standard error, each statement
  makes at most one call to the service (no retry), and no statement calls
  \<open>sys.exit\<close>.
\<close>

theorem exec_log_invariant:
  assumes "exec svc ss r r'"
  shows "prefix (calls (final_proc r)) (calls (final_proc r'))
         \<and> length (calls (final_proc r')) \<le> length (calls (final_proc r)) + length ss
         \<and> prefix (stderr (final_proc r)) (stderr (final_proc r'))
         \<and> ((\<exists>n q. r' = Exited n q) \<longrightarrow> r' = r)"
  using assms by (rule exec_log)

theorem exec_log_invariant_witness:
  "exec (stub_service None None) (main_fix_stmts ''neo4j'' ''secret'' [0x3B1] [0x3B2])
     (Running (init_proc ()))
     (run_steps (Running (init_proc ())) (map (stmt_sem (stub_service None None))
        (main_fix_stmts ''neo4j'' ''secret'' [0x3B1] [0x3B2])))
   \<and> length (calls (final_proc (run_steps (Running (init_proc ())) (map (stmt_sem (stub_service None None))
        (main_fix_stmts ''neo4j'' ''secret'' [0x3B1] [0x3B2]))))) \<le> 4"
proof -
  have e: "exec (stub_service None None) (main_fix_stmts ''neo4j'' ''secret'' [0x3B1] [0x3B2])
     (Running (init_proc ()))
     (run_steps (Running (init_proc ())) (map (stmt_sem (stub_service None None))
        (main_fix_stmts ''neo4j'' ''secret'' [0x3B1] [0x3B2])))"
    by (rule exec_run_steps)
  show ?thesis using exec_log_invariant [OF e] e by (simp add: main_fix_stmts_def init_proc_def)
qed

text \<open>
  C26. No retry: for every service, environment, payload and file system,
  \<open>main.py\<close> and \<open>main_file_based.py\<close> call the service at most three times
  and \<open>main_fix.py\<close> at most four, one call per statement, whatever the server
  answers.
\<close>

theorem scripts_call_bound:
  "length (calls (final_proc (main_script svc env p1 db0))) \<le> 3
   \<and> length (calls (final_proc (main_fix svc env p1 p2 db0))) \<le> 4
   \<and> length (calls (final_proc (main_file_based svc env fs db0))) \<le> 3"
proof (cases "get_credentials env")
  case (Inl e)
  then show ?thesis
    using credentials_missing_calls [OF Inl, of svc p1 db0 p2] by (simp add: main_file_based_def init_proc_def)
next
  case (Inr up)
  then obtain u pw where c: "get_credentials env = Inr (u, pw)" by (cases up) auto
  let ?r0 = "Running (init_proc db0)"
  have "length (calls (final_proc (main_script svc env p1 db0))) \<le> 0 + length (main_stmts u pw p1)"
    using run_steps_calls_bound [where svc = svc and r = ?r0 and ss = "main_stmts u pw p1"]
    by (simp add: main_script_stmts [OF c] init_proc_def)
  moreover have "length (calls (final_proc (main_fix svc env p1 p2 db0)))
                   \<le> 0 + length (main_fix_stmts u pw p1 p2)"
    using run_steps_calls_bound [where svc = svc and r = ?r0 and ss = "main_fix_stmts u pw p1 p2"]
    by (simp add: main_fix_stmts_run [OF c] init_proc_def)
  moreover have "length (calls (final_proc (main_file_based svc env fs db0))) \<le> 3"
  proof -
    let ?q = "connect svc u pw (init_proc db0)"
    have q: "length (calls (final_proc ?q)) = 1" by (simp add: connect_calls init_proc_def)
    show ?thesis
    proof (cases ?q)
      case (Running p)
      have "length (calls (final_proc (run_steps (Running p) (map (stmt_sem svc)
              [SaveStmt ReportNode1 (PyStr non_problematic_payload), SaveStmt ReportMessage (PyStr t)]))))
            \<le> 3" for t
        using run_steps_calls_bound [where svc = svc and r = "Running p" and
            ss = "[SaveStmt ReportNode1 (PyStr non_problematic_payload), SaveStmt ReportMessage (PyStr t)]"]
          q Running by simp
      with c Running q show ?thesis
        by (simp add: main_file_based_def split: sum.split)
    qed (use c q in \<open>simp_all add: main_file_based_def\<close>)
  qed
  ultimately show ?thesis by (simp add: main_stmts_def main_fix_stmts_def)
qed

lemma then_run_assoc:
  "then_run (then_run r f) g = then_run r (\<lambda>p. then_run (f p) g)"
  by (cases r) simp_all

text \<open>
  C27. \<open>main_file_based.py\<close> is \<open>main.py\<close> with its payload read from a file:
  when \<open>testcase1.txt\<close> holds the UTF-8 encoding of a text without carriage
  returns and \<open>testcase2.txt\<close> holds valid UTF-8, the two scripts have the same
  run, against every service and environment.
\<close>

theorem main_file_based_eq_main_script:
  assumes "list_all encodable s" and "13 \<notin> set s"
    and "fs ''testcase1.txt'' = Some (concat (map enc_char s))"
    and "fs ''testcase2.txt'' = Some B2" and "utf8_decode B2 = Inr s2"
  shows "main_file_based svc env fs db0 = main_script svc env s db0"
proof -
  have r1: "read_text fs ''testcase1.txt'' = Inr s" using assms(1-3) by (rule read_text_enc)
  have r2: "read_text fs ''testcase2.txt'' = Inr (translate_newlines s2)"
    using assms(4,5) by (simp add: read_text_def)
  show ?thesis
    by (simp add: main_file_based_def main_script_def r1 r2 then_run_assoc split: sum.split)
qed

theorem main_file_based_eq_main_script_witness:
  "list_all encodable [0x3B1, 0x3B2] \<and> (13::nat) \<notin> set [0x3B1, 0x3B2]
   \<and> (\<lambda>n. Some (concat (map enc_char [0x3B1, 0x3B2]))) ''testcase1.txt'' = Some (concat (map enc_char [0x3B1, 0x3B2]))
   \<and> (\<lambda>n. Some (concat (map enc_char [0x3B1, 0x3B2]))) ''testcase2.txt'' = Some (concat (map enc_char [0x3B1, 0x3B2]))
   \<and> utf8_decode (concat (map enc_char [0x3B1, 0x3B2])) = Inr [0x3B1, 0x3B2]
   \<and> main_file_based (stub_service None None) creds_env (\<lambda>n. Some (concat (map enc_char [0x3B1, 0x3B2]))) ()
       = main_script (stub_service None None) creds_env [0x3B1, 0x3B2] ()"
proof -
  have h: "list_all encodable [0x3B1, 0x3B2]" "(13::nat) \<notin> set [0x3B1, 0x3B2]"
    "(\<lambda>n. Some (concat (map enc_char [0x3B1, 0x3B2]))) ''testcase1.txt'' = Some (concat (map enc_char [0x3B1, 0x3B2]))"
    "(\<lambda>n. Some (concat (map enc_char [0x3B1, 0x3B2]))) ''testcase2.txt'' = Some (concat (map enc_char [0x3B1, 0x3B2]))"
    by (simp_all add: encodable_def is_surrogate_def)
  have d: "utf8_decode (concat (map enc_char [0x3B1, 0x3B2])) = Inr [0x3B1, 0x3B2]"
    using h(1) by (rule utf8_decode_concat_enc)
  show ?thesis using main_file_based_eq_main_script [OF h d] h d by simp
qed

end
