(* ===== verification/Spec2Isabelle.thy ===== *)
theory Spec2Isabelle
  imports Statements
begin

text \<open>
  \<^bold>\<open>A verification development for the neomodel string-index demonstration scripts.\<close>

  \<^bold>\<open>The program.\<close> Three Python scripts reproduce a Neo4j defect: a unique-indexed
  string property whose UTF-8 encoding is near the server's key-size limit can
  corrupt the index silently. \<open>src/src/main.py\<close> saves a short node and a long
  Greek payload (4076 bytes); \<open>src/src/main_file_based.py\<close> does the same with
  payloads read from \<open>testcase1.txt\<close> and \<open>testcase2.txt\<close>;
  \<open>src/src/main_fix.py\<close> applies the client-side mitigation, the function
  \<open>trim_string_at_unicode_boundaries\<close>, which cuts a string to at most a given
  number of UTF-8 bytes at a code-point boundary. Every script first reads the
  credentials from the environment (exit 1 when missing), connects (reporting
  \<open>ServiceUnavailable\<close> and going on), then runs each \<open>save()\<close> inside a
  \<open>try\<close> that catches \<open>DatabaseError\<close> only. The scripts call the truncator;
  the truncator calls CPython's UTF-8 codec; the scripts call the server through
  neomodel.

  \<^bold>\<open>Theories.\<close>
  \<^item> \<open>Prelude\<close>: the Python value types (a \<open>str\<close> is a list of code points, a
    \<open>bytearray\<close> a list of \<open>8 word\<close>), the exceptions (\<open>py_error\<close>), the
    truncator's result type \<open>py_value\<close> (\<open>PyStr\<close> or \<open>PyBytearray\<close>),
    Python indexing \<open>py_index\<close> (\<open>IndexError\<close> out of range, negative indices
    from the end) and slicing \<open>py_slice_to\<close> (\<open>xs[:i]\<close>), and the result
    helper \<open>cons_res\<close>; the collection \<open>py_seq\<close> holds their rewrite rules.
  \<^item> \<open>Utf8\<close>: the continuation-byte test \<open>is_continuation\<close> of the loop guard
    (\<open>not ((b & 0xC0) != 0x80)\<close>, as written), and CPython's codec modelled from
    the UTF-8 definition: \<open>enc_char\<close>/\<open>utf8_encode\<close> (\<open>bytearray(s, "utf-8")\<close>,
    raising \<open>UnicodeEncodeError\<close> on surrogates) and the strict decoder
    \<open>utf8_decode\<close> (\<open>bytes.decode("utf-8")\<close>). Lemmas: the test holds exactly
    on \<open>0x80..0xBF\<close>; decode after encode is the identity; inside an encoding a
    byte is a lead byte exactly at the start of a code point
    (\<open>enc_lead_is_boundary\<close>, \<open>enc_boundary_is_lead\<close>), and the prefix of the
    bytes up to such a start is the encoding of a code-point prefix; and (C23)
    whatever the strict decoder accepts re-encodes to the same bytes, the digits
    of each code point being rebuilt from its lead and continuation bytes. C30:
    the decoder succeeds exactly on the well-formed sequences of the Unicode
    Standard's Table 3-7, given as the reference \<open>wf_utf8\<close> by byte ranges.
  \<^item> \<open>Truncate\<close>: \<open>scan_back\<close> is the \<open>while\<close> loop (lines 27-29 of
    \<open>main_fix.py\<close>), a \<open>function\<close> whose termination is proved with the measure
    \<open>nat i\<close>; \<open>trim_string_at_unicode_boundaries\<close> is the whole function (lines
    14-31), every exception a \<open>Inl\<close> branch. The abstract specification
    \<open>fit_prefix\<close> is the longest code-point prefix whose encoding fits the budget;
    \<open>py_text\<close> reads a returned value as text. Claims C1-C13: refinement of the
    specification, the exact result on both branches, the byte bound,
    maximality, prefix safety, monotonicity, zero budget, the error paths
    (surrogates, negative limits), the loop's characterisation, the bit test, the
    bytearray round trip and idempotence. The loop is also a transition system:
    \<open>scan_stop\<close> is the outcome of its guard at an index and the \<open>inductive\<close>
    \<open>scan_iter\<close> the indices it reaches; C24 is its invariant (rule induction:
    the index stays in range and every byte stepped over is a continuation byte).
  \<^item> \<open>Payloads\<close>: the two long Greek literals of \<open>main.py\<close> (repeated in
    \<open>main_fix.py\<close>) as code-point lists, one definition per source line
    (\<open>payload_1_line51\<close> ... \<open>payload_2_line107\<close>), joined as the
    backslash continuations join them. Lemmas: the first payload is a prefix of
    the second (\<open>payload_1_prefix_2\<close>) and the second encodes.
  \<^item> \<open>FileText\<close>: reading a test-case file, \<open>read_text\<close>
    (\<open>open(name, "rt", encoding="utf-8").read()\<close>) over a file system given as
    a map from names to bytes: \<open>FileNotFoundError\<close> for a missing file, the
    strict decoder, and text mode's newline translation \<open>translate_newlines\<close>.
    C21: a file holding the encoding of a text without carriage returns reads back
    as that text; C28: a payload read from a file is as many bytes shorter than the
    file as the file has \<open>\r\n\<close> pairs (counted by \<open>crlf_pairs\<close>).
  \<^item> \<open>Scripts\<close>: the scripts as explicit state passing. A process state
    \<open>proc\<close> records what was written to standard error, the server's state and
    the calls made to it; a statement maps a state to a \<open>run\<close> (\<open>Running\<close>,
    \<open>Exited n\<close> after \<open>sys.exit(n)\<close>, \<open>Raised e\<close> after an uncaught
    exception); \<open>run_steps\<close> sequences statements. The server is an interface,
    the record \<open>neo4j_service\<close> of \<open>set_connection\<close> and \<open>save_node\<close>, each
    returning an optional exception and a new server state; the lemmas hold for
    every service (its state type is a type variable), and \<open>unique_index_service\<close>
    and \<open>stub_service\<close> are concrete services for the witnesses. Definitions:
    \<open>get_credentials\<close>, \<open>connection_url\<close>, \<open>connect\<close>, \<open>try_save\<close>,
    \<open>try_save_trimmed\<close>, and the bodies \<open>main_script\<close> (\<open>main.py\<close>),
    \<open>main_fix\<close> and \<open>main_file_based\<close>, stated over their long payloads, and
    \<open>main_py\<close> and \<open>main_fix_py\<close>, the bodies applied to the literals. Claims
    C14-C20: missing credentials, the 4000-byte bound on every saved
    payload of \<open>main_fix.py\<close>, the collision of its two trimmed payloads under the
    unique index (the reason its third save "HAS TO fail"), \<open>main.py\<close> sending
    the payload untruncated, reporting and continuing after
    \<open>ServiceUnavailable\<close> and \<open>DatabaseError\<close>, the uncaught read errors
    of either test-case file (\<open>FileNotFoundError\<close>, \<open>UnicodeDecodeError\<close>, also
    for the unused \<open>testcase2.txt\<close>). C29: an exception of the
    truncator inside \<open>main_fix.py\<close>'s \<open>try\<close> is not caught and ends the
    script, as the specification's error policy requires.
  \<^item> \<open>Statements\<close>: the scripts' bodies as syntax. \<open>stmt\<close> has the guarded
    connection, the guarded save of a payload and the guarded save of a trimmed
    payload, each with its \<open>except\<close> body (\<open>handler\<close>); \<open>stmt_sem\<close> gives each
    its meaning through \<open>connect\<close>, \<open>try_save\<close> and \<open>try_save_trimmed\<close>; the
    \<open>inductive\<close> big-step relation \<open>exec\<close> runs a list of them, skipping the rest
    after an exit or an uncaught exception; \<open>main_stmts\<close> and \<open>main_fix_stmts\<close>
    are the bodies of \<open>main.py\<close> and \<open>main_fix.py\<close> after the credentials.
    C25: by rule induction, the process log is append-only, each statement makes
    at most one call and none exits; C26: \<open>main.py\<close> and
    \<open>main_file_based.py\<close> call the server at most three times and
    \<open>main_fix.py\<close> four, whatever it answers (no retry); C27:
    \<open>main_file_based.py\<close> run on a well-formed \<open>testcase1.txt\<close> is \<open>main.py\<close>.
  \<^item> This theory: C22 joins the components, for every service that raises only
    the exceptions the script catches, \<open>main_fix_py\<close> saves the short payload and
    then twice \<open>fit_prefix problematic_payload_1 4000\<close>, the truncator's
    specification applied to the real literal.

  \<^bold>\<open>Bounds and termination.\<close> No fuel is used: the only loop is \<open>scan_back\<close>,
  total by its measure, and C10 proves that from an index inside the buffer it
  returns a value and never raises. The byte limit is a Python \<open>int\<close>
  (unbounded, so \<open>int\<close>, negative values included); byte values are \<open>8 word\<close>.

  \<^bold>\<open>Not modelled.\<close> The Neo4j server and its index (the corruption under study
  is an external hazard; only the interface is modelled), neomodel's generation of
  \<open>serial_num\<close>, the interpreter's traceback text, and scenario 2 of
  \<open>main.py\<close>, which is commented out. The files \<open>testcase1.txt\<close> and
  \<open>testcase2.txt\<close> are not in the repository: \<open>main_file_based\<close> takes the
  file system as a parameter.

  \<^bold>\<open>Further work.\<close> Every statement of the three scripts that runs is
  modelled; what remains outside the model is listed above. The reference
  service \<open>unique_index_service\<close> stands for no code of the repository, so no
  claim is stated about its own invariant.
\<close>


text \<open>
  C22. The scripts and the truncator together: against any service whose calls
  succeed or raise only the exceptions the script catches, \<open>main_fix.py\<close> with
  its literals hands \<open>save()\<close> the short payload unchanged and then, twice, the
  same text: the longest code-point prefix of the first literal that fits in 4000
  bytes (the second literal extends the first beyond that point).
\<close>

theorem main_fix_py_saved_payloads:
  assumes cred: "get_credentials env = Inr (u, pw)"
    and conn: "\<forall>d. fst (set_connection svc (connection_url u pw) d) \<in> {None, Some ServiceUnavailable}"
    and saves: "\<forall>e d. fst (save_node svc e d) = None \<or> (\<exists>m. fst (save_node svc e d) = Some (DatabaseError m))"
  shows "calls (final_proc (main_fix_py svc env db0)) =
           [SetConnection (connection_url u pw),
            Save (new_entity (PyStr non_problematic_payload)),
            Save (new_entity (PyStr (fit_prefix problematic_payload_1 4000))),
            Save (new_entity (PyStr (fit_prefix problematic_payload_1 4000)))]"
proof -
  have big: "4000 < utf8_size problematic_payload_1" by (simp add: payload_1_parts char_size_def)
  obtain ys where p2: "problematic_payload_2 = problematic_payload_1 @ ys"
    using payload_1_prefix_2 by (auto simp: prefix_def)
  have "list_all encodable (problematic_payload_1 @ ys)"
    using payload_2_encodable by (simp only: p2)
  hence enc1: "list_all encodable problematic_payload_1"
    unfolding list_all_append by (rule conjunct1)
  have t1: "trim_string_at_unicode_boundaries problematic_payload_1 4000
              = Inr (PyStr (fit_prefix problematic_payload_1 4000))"
    using trim_truncates [OF enc1, of 4000] big by simp
  have t2: "trim_string_at_unicode_boundaries problematic_payload_2 4000
              = Inr (PyStr (fit_prefix problematic_payload_1 4000))"
  proof -
    have "4000 < utf8_size (problematic_payload_1 @ ys)" using big by simp
    hence "trim_string_at_unicode_boundaries (problematic_payload_1 @ ys) 4000
             = Inr (PyStr (fit_prefix (problematic_payload_1 @ ys) 4000))"
      using trim_truncates [OF payload_2_encodable [unfolded p2], of 4000] by simp
    thus ?thesis unfolding p2 fit_prefix_append_over [OF big] .
  qed
  obtain q1 where q1: "connect svc u pw (init_proc db0) = Running q1"
      "calls q1 = [SetConnection (connection_url u pw)]"
    using connect_running [of svc u pw "init_proc db0"] conn by (auto simp: init_proc_def)
  obtain q2 where q2: "try_save svc report_node1 (new_entity (PyStr non_problematic_payload)) q1 = Running q2"
      "calls q2 = calls q1 @ [Save (new_entity (PyStr non_problematic_payload))]"
    using try_save_running saves by blast
  obtain q3 where q3: "try_save svc report_message (new_entity (PyStr (fit_prefix problematic_payload_1 4000))) q2
        = Running q3"
      "calls q3 = calls q2 @ [Save (new_entity (PyStr (fit_prefix problematic_payload_1 4000)))]"
    using try_save_running saves by blast
  obtain q4 where q4: "try_save svc report_message (new_entity (PyStr (fit_prefix problematic_payload_1 4000))) q3
        = Running q4"
      "calls q4 = calls q3 @ [Save (new_entity (PyStr (fit_prefix problematic_payload_1 4000)))]"
    using try_save_running saves by blast
  show ?thesis using cred q1 q2 q3 q4 t1 t2
    by (simp add: main_fix_py_def main_fix_def try_save_trimmed_def)
qed

theorem main_fix_py_saved_payloads_witness:
  "get_credentials creds_env = Inr (''neo4j'', ''secret'')
   \<and> (\<forall>d. fst (set_connection (stub_service None None) (connection_url ''neo4j'' ''secret'') d)
          \<in> {None, Some ServiceUnavailable})
   \<and> (\<forall>e d. fst (save_node (stub_service None None) e d) = None
          \<or> (\<exists>m. fst (save_node (stub_service None None) e d) = Some (DatabaseError m)))
   \<and> length (calls (final_proc (main_fix_py (stub_service None None) creds_env ()))) = 4"
proof -
  have h: "get_credentials creds_env = Inr (''neo4j'', ''secret'')"
    "\<forall>d. fst (set_connection (stub_service None None) (connection_url ''neo4j'' ''secret'') d)
          \<in> {None, Some ServiceUnavailable}"
    "\<forall>e d. fst (save_node (stub_service None None) e d) = None
          \<or> (\<exists>m. fst (save_node (stub_service None None) e d) = Some (DatabaseError m))"
    by (simp_all add: get_credentials_def creds_env_def stub_service_def)
  show ?thesis using main_fix_py_saved_payloads [OF h, of "()"] h by simp
qed

end
